theory Spec2Isabelle
  imports Main "HOL-Library.Word"
begin

unbundle bit_operations_syntax

section \<open>The OpenType shaping orchestrator of hb-ot-shape.cc\<close>

text \<open>
  A shallow embedding of \<^verbatim>\<open>src/harfbuzz/src/hb-ot-shape.cc\<close>: the shape planner, the
  plan compiler, the feature collector and the shaping pipeline. A function of that
  file is a HOL function of the same name (the methods \<^verbatim>\<open>compile\<close>, \<^verbatim>\<open>init0\<close>, \<^verbatim>\<open>substitute\<close>
  and \<^verbatim>\<open>position\<close> under their method names); a loop inside a function is a recursive
  function of its own. What the file calls but does not define (the font-table readers,
  the complex shapers, the map builder, the buffer operations, the Unicode database) is
  either a field of a record of external functions, passed as the first argument, or a
  field of the record modelling the collaborator's answers.
  \<^verbatim>\<open>unsigned int\<close>, \<^verbatim>\<open>rb_mask_t\<close>, \<^verbatim>\<open>rb_tag_t\<close> and \<^verbatim>\<open>rb_codepoint_t\<close> are 32-bit words;
  indices into the glyph arrays are natural numbers below the buffer length.
\<close>

subsection \<open>Scalars, directions and tags\<close>

type_synonym rb_tag_t = "32 word"
type_synonym rb_mask_t = "32 word"
type_synonym rb_codepoint_t = "32 word"
type_synonym rb_script_t = "32 word"

datatype rb_direction_t =
    RB_DIRECTION_INVALID
  | RB_DIRECTION_LTR
  | RB_DIRECTION_RTL
  | RB_DIRECTION_TTB
  | RB_DIRECTION_BTT

text \<open>
  Modelled from the spec: the macros \<^verbatim>\<open>RB_DIRECTION_IS_HORIZONTAL\<close>, \<^verbatim>\<open>RB_DIRECTION_IS_VERTICAL\<close>,
  \<^verbatim>\<open>RB_DIRECTION_IS_FORWARD\<close> and \<^verbatim>\<open>RB_DIRECTION_IS_BACKWARD\<close> are declared in a header that
  is not part of the sources. The spec names the directions LTR, RTL, TTB, BTT and
  INVALID, calls RTL and BTT backward, and treats a direction that is not horizontal as
  the vertical case of the feature collector. INVALID satisfies none of the four.
\<close>

fun RB_DIRECTION_IS_HORIZONTAL :: "rb_direction_t \<Rightarrow> bool" where
  "RB_DIRECTION_IS_HORIZONTAL RB_DIRECTION_LTR = True"
| "RB_DIRECTION_IS_HORIZONTAL RB_DIRECTION_RTL = True"
| "RB_DIRECTION_IS_HORIZONTAL _ = False"

fun RB_DIRECTION_IS_VERTICAL :: "rb_direction_t \<Rightarrow> bool" where
  "RB_DIRECTION_IS_VERTICAL RB_DIRECTION_TTB = True"
| "RB_DIRECTION_IS_VERTICAL RB_DIRECTION_BTT = True"
| "RB_DIRECTION_IS_VERTICAL _ = False"

fun RB_DIRECTION_IS_FORWARD :: "rb_direction_t \<Rightarrow> bool" where
  "RB_DIRECTION_IS_FORWARD RB_DIRECTION_LTR = True"
| "RB_DIRECTION_IS_FORWARD RB_DIRECTION_TTB = True"
| "RB_DIRECTION_IS_FORWARD _ = False"

fun RB_DIRECTION_IS_BACKWARD :: "rb_direction_t \<Rightarrow> bool" where
  "RB_DIRECTION_IS_BACKWARD RB_DIRECTION_RTL = True"
| "RB_DIRECTION_IS_BACKWARD RB_DIRECTION_BTT = True"
| "RB_DIRECTION_IS_BACKWARD _ = False"

text \<open>
  Modelled from the spec: the macro \<^verbatim>\<open>RB_TAG\<close> is declared in a header that is not part of
  the sources. The spec: tags are 4 ASCII bytes in big-endian order.
\<close>

definition RB_TAG :: "char \<Rightarrow> char \<Rightarrow> char \<Rightarrow> char \<Rightarrow> rb_tag_t" where
  "RB_TAG c1 c2 c3 c4 =
     push_bit 24 (of_char c1) OR push_bit 16 (of_char c2) OR push_bit 8 (of_char c3) OR of_char c4"

text \<open>
  The numeric constants the file uses and a header outside the sources defines. They
  are parameters of the model: every function that reads one takes this record.
\<close>

record rb_constants =
  RB_OT_MAP_MAX_VALUE :: "32 word"
  RB_OT_LAYOUT_NO_FEATURE_INDEX :: "32 word"
  RB_FEATURE_GLOBAL_START :: "32 word"
  RB_FEATURE_GLOBAL_END :: "32 word"
  RB_UNICODE_GENERAL_CATEGORY_DECIMAL_NUMBER :: "32 word"
  RB_BUFFER_SCRATCH_FLAG_DEFAULT :: "32 word"
  RB_BUFFER_SCRATCH_FLAG_HAS_NON_ASCII :: "32 word"
  RB_BUFFER_SCRATCH_FLAG_HAS_SPACE_FALLBACK :: "32 word"
  RB_BUFFER_MAX_LEN_FACTOR :: "32 word"
  RB_BUFFER_MAX_LEN_MIN :: "32 word"
  RB_BUFFER_MAX_LEN_DEFAULT :: "32 word"
  RB_BUFFER_MAX_OPS_FACTOR :: "32 word"
  RB_BUFFER_MAX_OPS_MIN :: "32 word"
  RB_BUFFER_MAX_OPS_DEFAULT :: "32 word"

subsection \<open>The face and the segment properties\<close>

text \<open>
  A face is opaque to the file: it is only asked questions. The model of a face is the
  record of the answers to the queries the file makes (\<^verbatim>\<open>rb_aat_layout_has_substitution(face)\<close>
  and the like, each an external function of the face alone).
\<close>

record rb_face_t =
  rb_aat_layout_has_substitution :: bool
  rb_ot_layout_has_substitution :: bool
  rb_aat_layout_has_positioning :: bool
  rb_ot_layout_has_positioning :: bool
  rb_ot_layout_has_kerning :: bool
  rb_ot_layout_has_machine_kerning :: bool
  rb_ot_layout_has_cross_kerning :: bool
  rb_ot_layout_has_glyph_classes :: bool
  rb_aat_layout_has_tracking :: bool
  rb_face_has_glyph :: "rb_codepoint_t \<Rightarrow> bool"

record rb_segment_properties_t =
  direction :: rb_direction_t
  script :: rb_script_t
  language :: nat

record rb_feature_t =
  feature_tag :: rb_tag_t
  feature_value :: "32 word"
  feature_start :: "32 word"
  feature_end :: "32 word"

subsection \<open>The map builders\<close>

text \<open>
  Modelled from the spec: the feature flags are declared in the map builder's header,
  which is not part of the sources. The spec: a combinable set NONE, GLOBAL,
  HAS_FALLBACK, MANUAL_JOINERS, GLOBAL_MANUAL_JOINERS = GLOBAL|MANUAL_JOINERS,
  GLOBAL_HAS_FALLBACK = GLOBAL|HAS_FALLBACK, GLOBAL_SEARCH, RANDOM.
\<close>

datatype rb_ot_map_feature_flag =
  GLOBAL | HAS_FALLBACK | MANUAL_JOINERS | GLOBAL_SEARCH | RANDOM

type_synonym rb_ot_map_feature_flags_t = "rb_ot_map_feature_flag set"

definition F_NONE :: rb_ot_map_feature_flags_t where
  "F_NONE = {}"

definition F_GLOBAL :: rb_ot_map_feature_flags_t where
  "F_GLOBAL = {GLOBAL}"

definition F_HAS_FALLBACK :: rb_ot_map_feature_flags_t where
  "F_HAS_FALLBACK = {HAS_FALLBACK}"

definition F_MANUAL_JOINERS :: rb_ot_map_feature_flags_t where
  "F_MANUAL_JOINERS = {MANUAL_JOINERS}"

definition F_GLOBAL_MANUAL_JOINERS :: rb_ot_map_feature_flags_t where
  "F_GLOBAL_MANUAL_JOINERS = F_GLOBAL \<union> F_MANUAL_JOINERS"

definition F_GLOBAL_HAS_FALLBACK :: rb_ot_map_feature_flags_t where
  "F_GLOBAL_HAS_FALLBACK = F_GLOBAL \<union> F_HAS_FALLBACK"

definition F_GLOBAL_SEARCH :: rb_ot_map_feature_flags_t where
  "F_GLOBAL_SEARCH = {GLOBAL_SEARCH}"

definition F_RANDOM :: rb_ot_map_feature_flags_t where
  "F_RANDOM = {RANDOM}"

text \<open>
  Modelled from the spec: the OpenType map builder is an external collaborator, used
  through \<^verbatim>\<open>enable_feature(tag, flags, value)\<close>, \<^verbatim>\<open>add_feature(tag, flags, value)\<close> and
  \<^verbatim>\<open>add_gsub_pause(callback|none)\<close>. The model of a builder is the face and properties it
  was created with and the sequence of calls it has received, oldest first. The pause
  callback is a function pointer: \<open>None\<close> is \<^verbatim>\<open>nullptr\<close>.
\<close>

datatype rb_ot_map_builder_call =
    Enable_feature rb_tag_t rb_ot_map_feature_flags_t "32 word"
  | Add_feature rb_tag_t rb_ot_map_feature_flags_t "32 word"
  | Add_gsub_pause "nat option"

record rb_ot_map_builder_t =
  builder_face :: rb_face_t
  builder_props :: rb_segment_properties_t
  builder_calls :: "rb_ot_map_builder_call list"

definition rb_ot_map_builder_create ::
  "rb_face_t \<Rightarrow> rb_segment_properties_t \<Rightarrow> rb_ot_map_builder_t" where
  "rb_ot_map_builder_create face props =
     \<lparr>builder_face = face, builder_props = props, builder_calls = []\<rparr>"

definition rb_ot_map_builder_enable_feature ::
  "rb_ot_map_builder_t \<Rightarrow> rb_tag_t \<Rightarrow> rb_ot_map_feature_flags_t \<Rightarrow> 32 word \<Rightarrow> rb_ot_map_builder_t" where
  "rb_ot_map_builder_enable_feature m tag flags v =
     m\<lparr>builder_calls := builder_calls m @ [Enable_feature tag flags v]\<rparr>"

definition rb_ot_map_builder_add_feature ::
  "rb_ot_map_builder_t \<Rightarrow> rb_tag_t \<Rightarrow> rb_ot_map_feature_flags_t \<Rightarrow> 32 word \<Rightarrow> rb_ot_map_builder_t" where
  "rb_ot_map_builder_add_feature m tag flags v =
     m\<lparr>builder_calls := builder_calls m @ [Add_feature tag flags v]\<rparr>"

definition rb_ot_map_builder_add_gsub_pause ::
  "rb_ot_map_builder_t \<Rightarrow> nat option \<Rightarrow> rb_ot_map_builder_t" where
  "rb_ot_map_builder_add_gsub_pause m pause =
     m\<lparr>builder_calls := builder_calls m @ [Add_gsub_pause pause]\<rparr>"

text \<open>
  The AAT map builder, likewise: the face and properties of its constructor and the
  \<^verbatim>\<open>add_feature(tag, value)\<close> calls it has received.
\<close>

record rb_aat_map_builder_t =
  aat_builder_face :: rb_face_t
  aat_builder_props :: rb_segment_properties_t
  aat_builder_calls :: "(rb_tag_t \<times> 32 word) list"

definition rb_aat_map_builder_create ::
  "rb_face_t \<Rightarrow> rb_segment_properties_t \<Rightarrow> rb_aat_map_builder_t" where
  "rb_aat_map_builder_create face props =
     \<lparr>aat_builder_face = face, aat_builder_props = props, aat_builder_calls = []\<rparr>"

definition aat_map_add_feature ::
  "rb_aat_map_builder_t \<Rightarrow> rb_tag_t \<Rightarrow> 32 word \<Rightarrow> rb_aat_map_builder_t" where
  "aat_map_add_feature m tag v = m\<lparr>aat_builder_calls := aat_builder_calls m @ [(tag, v)]\<rparr>"

text \<open>
  The compiled map is read through five queries: the model of a compiled map is the
  record of their answers. A compiled AAT map is never read by the file: the model
  identifies it by a number.
\<close>

record rb_ot_map_t =
  rb_ot_map_get_global_mask :: rb_mask_t
  rb_ot_map_get_1_mask :: "rb_tag_t \<Rightarrow> rb_mask_t"
  rb_ot_map_get_mask :: "rb_tag_t \<Rightarrow> rb_mask_t \<times> 32 word"
  rb_ot_map_get_feature_index :: "32 word \<Rightarrow> rb_tag_t \<Rightarrow> 32 word"
  rb_ot_map_get_chosen_script :: "32 word \<Rightarrow> rb_tag_t"

type_synonym rb_aat_map_t = nat

subsection \<open>The planner and the plan\<close>

text \<open>
  A complex shaper is a pointer to a constant table of hooks, each reached through an
  external function that takes the pointer: the model identifies a shaper by a number
  (0 is the pointer of a planner whose shaper is not chosen yet) and takes the hooks as
  external functions. The shaper's opaque payload is a number as well.
\<close>

type_synonym rb_ot_complex_shaper_t = nat

datatype rb_ot_shape_zero_width_marks_type_t =
    RB_OT_SHAPE_ZERO_WIDTH_MARKS_NONE
  | RB_OT_SHAPE_ZERO_WIDTH_MARKS_BY_GDEF_EARLY
  | RB_OT_SHAPE_ZERO_WIDTH_MARKS_BY_GDEF_LATE

record rb_ot_shape_planner_t =
  planner_face :: rb_face_t
  planner_props :: rb_segment_properties_t
  planner_map :: rb_ot_map_builder_t
  planner_aat_map :: rb_aat_map_builder_t
  planner_apply_morx :: bool
  planner_shaper :: rb_ot_complex_shaper_t
  script_zero_marks :: bool
  script_fallback_mark_positioning :: bool

record rb_ot_shape_plan_t =
  plan_props :: rb_segment_properties_t
  plan_shaper :: rb_ot_complex_shaper_t
  plan_map :: rb_ot_map_t
  plan_aat_map :: rb_aat_map_t
  plan_data :: nat
  frac_mask :: rb_mask_t
  numr_mask :: rb_mask_t
  dnom_mask :: rb_mask_t
  rtlm_mask :: rb_mask_t
  kern_mask :: rb_mask_t
  trak_mask :: rb_mask_t
  has_frac :: bool
  has_vert :: bool
  requested_kerning :: bool
  requested_tracking :: bool
  has_gpos_mark :: bool
  zero_marks :: bool
  fallback_glyph_classes :: bool
  fallback_mark_positioning :: bool
  adjust_mark_positioning_when_zeroing :: bool
  apply_gpos :: bool
  apply_kerx :: bool
  apply_kern :: bool
  apply_morx :: bool
  apply_trak :: bool

text \<open>
  The external functions of plan construction. The two feature hooks of a shaper reach
  the planner through the three accessors the file exports
  (\<^verbatim>\<open>rb_ot_shape_planner_get_ot_map\<close>, \<^verbatim>\<open>..._get_script\<close>, \<^verbatim>\<open>..._get_direction\<close>): they can
  read the planner and change its OpenType map builder only, so a hook is a function from
  the planner to the builder it leaves behind.
\<close>

record rb_plan_extern =
  rb_ot_shape_complex_categorize :: "rb_ot_shape_planner_t \<Rightarrow> rb_ot_complex_shaper_t"
  rb_ot_complex_shaper_get_zero_width_marks_mode ::
    "rb_ot_complex_shaper_t \<Rightarrow> rb_ot_shape_zero_width_marks_type_t"
  rb_ot_complex_shaper_get_fallback_position :: "rb_ot_complex_shaper_t \<Rightarrow> bool"
  rb_ot_complex_shaper_reconsider_shaper_if_applying_morx ::
    "rb_ot_complex_shaper_t \<Rightarrow> rb_ot_complex_shaper_t"
  rb_ot_complex_shaper_get_gpos_tag :: "rb_ot_complex_shaper_t \<Rightarrow> rb_tag_t"
  rb_ot_complex_shaper_collect_features ::
    "rb_ot_complex_shaper_t \<Rightarrow> rb_ot_shape_planner_t \<Rightarrow> rb_ot_map_builder_t"
  rb_ot_complex_shaper_override_features ::
    "rb_ot_complex_shaper_t \<Rightarrow> rb_ot_shape_planner_t \<Rightarrow> rb_ot_map_builder_t"
  rb_ot_complex_shaper_data_create ::
    "rb_ot_complex_shaper_t \<Rightarrow> rb_ot_shape_plan_t \<Rightarrow> nat option"
  rb_ot_map_builder_compile :: "rb_ot_map_builder_t \<Rightarrow> 32 word list \<Rightarrow> rb_ot_map_t"
  aat_map_compile :: "rb_aat_map_builder_t \<Rightarrow> rb_aat_map_t"

subsection \<open>The backend predicate and the planner's constructor\<close>

definition rb_apply_morx :: "rb_face_t \<Rightarrow> rb_segment_properties_t \<Rightarrow> bool" where
  "rb_apply_morx face props =
     (rb_aat_layout_has_substitution face \<and>
      (RB_DIRECTION_IS_HORIZONTAL (direction props) \<or> \<not> rb_ot_layout_has_substitution face))"

text \<open>
  The constructor: the member initialisers, then the body. \<^verbatim>\<open>shaper\<close> has no initialiser,
  so \<^verbatim>\<open>rb_ot_shape_complex_categorize(this)\<close> sees a planner whose shaper is not chosen yet;
  the two script fields have none either and are assigned in the body. The two script
  fields are read from the categorised shaper, before the shaper is reconsidered for morx.
\<close>

definition rb_ot_shape_planner_members ::
  "rb_face_t \<Rightarrow> rb_segment_properties_t \<Rightarrow> rb_ot_shape_planner_t" where
  "rb_ot_shape_planner_members face props =
     \<lparr>planner_face = face,
      planner_props = props,
      planner_map = rb_ot_map_builder_create face props,
      planner_aat_map = rb_aat_map_builder_create face props,
      planner_apply_morx = rb_apply_morx face props,
      planner_shaper = 0,
      script_zero_marks = False,
      script_fallback_mark_positioning = False\<rparr>"

definition rb_ot_shape_planner_create ::
  "rb_plan_extern \<Rightarrow> rb_face_t \<Rightarrow> rb_segment_properties_t \<Rightarrow> rb_ot_shape_planner_t" where
  "rb_ot_shape_planner_create E face props =
     (let p0 = rb_ot_shape_planner_members face props;
          p1 = p0\<lparr>planner_shaper := rb_ot_shape_complex_categorize E p0\<rparr>;
          p2 = p1\<lparr>script_zero_marks :=
                    (rb_ot_complex_shaper_get_zero_width_marks_mode E (planner_shaper p1)
                       \<noteq> RB_OT_SHAPE_ZERO_WIDTH_MARKS_NONE)\<rparr>;
          p3 = p2\<lparr>script_fallback_mark_positioning :=
                    rb_ot_complex_shaper_get_fallback_position E (planner_shaper p2)\<rparr>
      in if planner_apply_morx p3
         then p3\<lparr>planner_shaper :=
                   rb_ot_complex_shaper_reconsider_shaper_if_applying_morx E (planner_shaper p3)\<rparr>
         else p3)"

subsection \<open>The feature collector\<close>

definition common_features :: "(rb_tag_t \<times> rb_ot_map_feature_flags_t) list" where
  "common_features =
     [(RB_TAG CHR ''a'' CHR ''b'' CHR ''v'' CHR ''m'', F_GLOBAL),
      (RB_TAG CHR ''b'' CHR ''l'' CHR ''w'' CHR ''m'', F_GLOBAL),
      (RB_TAG CHR ''c'' CHR ''c'' CHR ''m'' CHR ''p'', F_GLOBAL),
      (RB_TAG CHR ''l'' CHR ''o'' CHR ''c'' CHR ''l'', F_GLOBAL),
      (RB_TAG CHR ''m'' CHR ''a'' CHR ''r'' CHR ''k'', F_GLOBAL_MANUAL_JOINERS),
      (RB_TAG CHR ''m'' CHR ''k'' CHR ''m'' CHR ''k'', F_GLOBAL_MANUAL_JOINERS),
      (RB_TAG CHR ''r'' CHR ''l'' CHR ''i'' CHR ''g'', F_GLOBAL)]"

definition horizontal_features :: "(rb_tag_t \<times> rb_ot_map_feature_flags_t) list" where
  "horizontal_features =
     [(RB_TAG CHR ''c'' CHR ''a'' CHR ''l'' CHR ''t'', F_GLOBAL),
      (RB_TAG CHR ''c'' CHR ''l'' CHR ''i'' CHR ''g'', F_GLOBAL),
      (RB_TAG CHR ''c'' CHR ''u'' CHR ''r'' CHR ''s'', F_GLOBAL),
      (RB_TAG CHR ''d'' CHR ''i'' CHR ''s'' CHR ''t'', F_GLOBAL),
      (RB_TAG CHR ''k'' CHR ''e'' CHR ''r'' CHR ''n'', F_GLOBAL_HAS_FALLBACK),
      (RB_TAG CHR ''l'' CHR ''i'' CHR ''g'' CHR ''a'', F_GLOBAL),
      (RB_TAG CHR ''r'' CHR ''c'' CHR ''l'' CHR ''t'', F_GLOBAL)]"

text \<open>
  \<^verbatim>\<open>rb_ot_shape_collect_features\<close>. \<^verbatim>\<open>map\<close> is the pointer \<^verbatim>\<open>planner->map\<close>: every call
  on it changes the planner's builder. The loops over the two static arrays and over
  the user features are left folds, in index order.
\<close>

definition rb_ot_shape_collect_features ::
  "rb_plan_extern \<Rightarrow> rb_constants \<Rightarrow> rb_ot_shape_planner_t \<Rightarrow> rb_feature_t list
     \<Rightarrow> rb_ot_shape_planner_t" where
  "rb_ot_shape_collect_features E K planner user_features =
     (let m0 = planner_map planner;
          m1 = rb_ot_map_builder_enable_feature m0 (RB_TAG CHR ''r'' CHR ''v'' CHR ''r'' CHR ''n'') F_NONE 1;
          m2 = rb_ot_map_builder_add_gsub_pause m1 None;
          m3 = (case direction (planner_props planner) of
                  RB_DIRECTION_LTR \<Rightarrow>
                    rb_ot_map_builder_enable_feature
                      (rb_ot_map_builder_enable_feature m2
                         (RB_TAG CHR ''l'' CHR ''t'' CHR ''r'' CHR ''a'') F_NONE 1)
                      (RB_TAG CHR ''l'' CHR ''t'' CHR ''r'' CHR ''m'') F_NONE 1
                | RB_DIRECTION_RTL \<Rightarrow>
                    rb_ot_map_builder_add_feature
                      (rb_ot_map_builder_enable_feature m2
                         (RB_TAG CHR ''r'' CHR ''t'' CHR ''l'' CHR ''a'') F_NONE 1)
                      (RB_TAG CHR ''r'' CHR ''t'' CHR ''l'' CHR ''m'') F_NONE 1
                | RB_DIRECTION_TTB \<Rightarrow> m2
                | RB_DIRECTION_BTT \<Rightarrow> m2
                | RB_DIRECTION_INVALID \<Rightarrow> m2);
          m4 = rb_ot_map_builder_add_feature m3 (RB_TAG CHR ''f'' CHR ''r'' CHR ''a'' CHR ''c'') F_NONE 1;
          m5 = rb_ot_map_builder_add_feature m4 (RB_TAG CHR ''n'' CHR ''u'' CHR ''m'' CHR ''r'') F_NONE 1;
          m6 = rb_ot_map_builder_add_feature m5 (RB_TAG CHR ''d'' CHR ''n'' CHR ''o'' CHR ''m'') F_NONE 1;
          m7 = rb_ot_map_builder_enable_feature m6 (RB_TAG CHR ''r'' CHR ''a'' CHR ''n'' CHR ''d'') F_RANDOM
                 (RB_OT_MAP_MAX_VALUE K);
          m8 = rb_ot_map_builder_enable_feature m7 (RB_TAG CHR ''t'' CHR ''r'' CHR ''a'' CHR ''k'') F_HAS_FALLBACK 1;
          m9 = rb_ot_map_builder_enable_feature m8 (RB_TAG CHR ''H'' CHR ''A'' CHR ''R'' CHR ''F'') F_NONE 1;
          m10 = rb_ot_complex_shaper_collect_features E (planner_shaper planner)
                  (planner\<lparr>planner_map := m9\<rparr>);
          m11 = rb_ot_map_builder_enable_feature m10 (RB_TAG CHR ''B'' CHR ''U'' CHR ''Z'' CHR ''Z'') F_NONE 1;
          m12 = foldl (\<lambda>m f. rb_ot_map_builder_add_feature m (fst f) (snd f) 1) m11 common_features;
          m13 = (if RB_DIRECTION_IS_HORIZONTAL (direction (planner_props planner))
                 then foldl (\<lambda>m f. rb_ot_map_builder_add_feature m (fst f) (snd f) 1) m12
                        horizontal_features
                 else rb_ot_map_builder_enable_feature m12
                        (RB_TAG CHR ''v'' CHR ''e'' CHR ''r'' CHR ''t'') F_GLOBAL_SEARCH 1);
          m14 = foldl (\<lambda>m feature.
                   rb_ot_map_builder_add_feature m (feature_tag feature)
                     (if feature_start feature = RB_FEATURE_GLOBAL_START K \<and>
                         feature_end feature = RB_FEATURE_GLOBAL_END K
                      then F_GLOBAL else F_NONE)
                     (feature_value feature)) m13 user_features;
          a1 = (if planner_apply_morx planner
                then foldl (\<lambda>a feature. aat_map_add_feature a (feature_tag feature) (feature_value feature))
                       (planner_aat_map planner) user_features
                else planner_aat_map planner);
          planner1 = planner\<lparr>planner_map := m14, planner_aat_map := a1\<rparr>
      in planner1\<lparr>planner_map :=
                    rb_ot_complex_shaper_override_features E (planner_shaper planner1) planner1\<rparr>)"

subsection \<open>The plan compiler\<close>

text \<open>
  \<^verbatim>\<open>rb_ot_shape_planner_t::compile\<close>. The plan comes in by reference and the function
  only ever sets \<^verbatim>\<open>fallback_glyph_classes\<close>, \<^verbatim>\<open>apply_kerx\<close>, \<^verbatim>\<open>apply_gpos\<close> and \<^verbatim>\<open>apply_kern\<close> to
  true, so the model takes the incoming plan and updates it field by field, in the order
  of the source. The body is cut into its consecutive blocks of statements, one
  definition each; \<open>compile\<close> runs them in sequence and computes the three locals
  \<^verbatim>\<open>kern_tag\<close>, \<^verbatim>\<open>has_gpos_kern\<close> and \<^verbatim>\<open>disable_gpos\<close> where the source does, each by a
  definition of its own. The shift that
  \<^verbatim>\<open>rb_ot_map_get_mask\<close> stores is dropped, as the source drops it.
\<close>

text \<open>Lines 114 to 118: the properties, the shaper and the two compiled maps.\<close>

definition compile_maps ::
  "rb_plan_extern \<Rightarrow> rb_ot_shape_planner_t \<Rightarrow> rb_ot_shape_plan_t \<Rightarrow> 32 word list
     \<Rightarrow> rb_ot_shape_plan_t" where
  "compile_maps E planner plan variations_index =
     (let p1 = plan\<lparr>plan_props := planner_props planner\<rparr>;
          p2 = p1\<lparr>plan_shaper := planner_shaper planner\<rparr>;
          p3 = p2\<lparr>plan_map := rb_ot_map_builder_compile E (planner_map planner) variations_index\<rparr>
      in if planner_apply_morx planner
         then p3\<lparr>plan_aat_map := aat_map_compile E (planner_aat_map planner)\<rparr>
         else p3)"

text \<open>Lines 120 to 126: the fraction, mirroring and vertical masks.\<close>

definition compile_char_masks :: "rb_ot_shape_plan_t \<Rightarrow> rb_ot_shape_plan_t" where
  "compile_char_masks plan =
     (let p1 = plan\<lparr>frac_mask := rb_ot_map_get_1_mask (plan_map plan) (RB_TAG CHR ''f'' CHR ''r'' CHR ''a'' CHR ''c'')\<rparr>;
          p2 = p1\<lparr>numr_mask := rb_ot_map_get_1_mask (plan_map p1) (RB_TAG CHR ''n'' CHR ''u'' CHR ''m'' CHR ''r'')\<rparr>;
          p3 = p2\<lparr>dnom_mask := rb_ot_map_get_1_mask (plan_map p2) (RB_TAG CHR ''d'' CHR ''n'' CHR ''o'' CHR ''m'')\<rparr>;
          p4 = p3\<lparr>has_frac := (frac_mask p3 \<noteq> 0 \<or> (numr_mask p3 \<noteq> 0 \<and> dnom_mask p3 \<noteq> 0))\<rparr>;
          p5 = p4\<lparr>rtlm_mask := rb_ot_map_get_1_mask (plan_map p4) (RB_TAG CHR ''r'' CHR ''t'' CHR ''l'' CHR ''m'')\<rparr>
      in p5\<lparr>has_vert := (rb_ot_map_get_1_mask (plan_map p5) (RB_TAG CHR ''v'' CHR ''e'' CHR ''r'' CHR ''t'') \<noteq> 0)\<rparr>)"

text \<open>Lines 128 to 133: the kerning tag of the direction, and the kerning and tracking masks.\<close>

definition compile_kern_tag :: "rb_segment_properties_t \<Rightarrow> rb_tag_t" where
  "compile_kern_tag props =
     (if RB_DIRECTION_IS_HORIZONTAL (direction props)
      then RB_TAG CHR ''k'' CHR ''e'' CHR ''r'' CHR ''n''
      else RB_TAG CHR ''v'' CHR ''k'' CHR ''r'' CHR ''n'')"

definition compile_kern_masks :: "rb_tag_t \<Rightarrow> rb_ot_shape_plan_t \<Rightarrow> rb_ot_shape_plan_t" where
  "compile_kern_masks kern_tag plan =
     (let p1 = plan\<lparr>kern_mask := fst (rb_ot_map_get_mask (plan_map plan) kern_tag)\<rparr>;
          p2 = p1\<lparr>requested_kerning := (kern_mask p1 \<noteq> 0)\<rparr>;
          p3 = p2\<lparr>trak_mask := fst (rb_ot_map_get_mask (plan_map p2) (RB_TAG CHR ''t'' CHR ''r'' CHR ''a'' CHR ''k''))\<rparr>
      in p3\<lparr>requested_tracking := (trak_mask p3 \<noteq> 0)\<rparr>)"

text \<open>
  Lines 135 to 137: the two locals \<^verbatim>\<open>has_gpos_kern\<close> and \<^verbatim>\<open>disable_gpos\<close>, read from the
  plan's compiled map (table index 1 is GPOS) and from the tag that the plan's shaper
  asks for.
\<close>

definition compile_has_gpos_kern :: "rb_constants \<Rightarrow> rb_tag_t \<Rightarrow> rb_ot_shape_plan_t \<Rightarrow> bool" where
  "compile_has_gpos_kern K kern_tag plan =
     (rb_ot_map_get_feature_index (plan_map plan) 1 kern_tag \<noteq> RB_OT_LAYOUT_NO_FEATURE_INDEX K)"

definition compile_disable_gpos :: "rb_plan_extern \<Rightarrow> rb_ot_shape_plan_t \<Rightarrow> bool" where
  "compile_disable_gpos E plan =
     (let gpos_tag = rb_ot_complex_shaper_get_gpos_tag E (plan_shaper plan)
      in gpos_tag \<noteq> 0 \<and> gpos_tag \<noteq> rb_ot_map_get_chosen_script (plan_map plan) 1)"

text \<open>Lines 143 to 150: who provides glyph classes, and who substitutes.\<close>

definition compile_substitution ::
  "rb_face_t \<Rightarrow> bool \<Rightarrow> rb_ot_shape_plan_t \<Rightarrow> rb_ot_shape_plan_t" where
  "compile_substitution face apply_morx_planner plan =
     (let p1 = (if \<not> rb_ot_layout_has_glyph_classes face
                then plan\<lparr>fallback_glyph_classes := True\<rparr>
                else plan)
      in p1\<lparr>apply_morx := apply_morx_planner\<rparr>)"

text \<open>Lines 156 to 167: who positions. GPOS, kerx, kern, or fallback.\<close>

definition compile_positioning ::
  "rb_face_t \<Rightarrow> bool \<Rightarrow> bool \<Rightarrow> bool \<Rightarrow> rb_ot_shape_plan_t \<Rightarrow> rb_ot_shape_plan_t" where
  "compile_positioning face apply_morx_planner has_gpos_kern disable_gpos plan =
     (let p1 = (if rb_aat_layout_has_positioning face
                then plan\<lparr>apply_kerx := True\<rparr>
                else if \<not> apply_morx_planner \<and> \<not> disable_gpos \<and> rb_ot_layout_has_positioning face
                then plan\<lparr>apply_gpos := True\<rparr>
                else plan)
      in if \<not> apply_kerx p1 \<and> (\<not> has_gpos_kern \<or> \<not> apply_gpos p1)
         then (if rb_aat_layout_has_positioning face
               then p1\<lparr>apply_kerx := True\<rparr>
               else if rb_ot_layout_has_kerning face
               then p1\<lparr>apply_kern := True\<rparr>
               else p1)
         else p1)"

text \<open>Lines 169 to 178: the mark policies and tracking.\<close>

definition compile_mark_policies ::
  "rb_face_t \<Rightarrow> rb_ot_shape_planner_t \<Rightarrow> rb_ot_shape_plan_t \<Rightarrow> rb_ot_shape_plan_t" where
  "compile_mark_policies face planner plan =
     (let p1 = plan\<lparr>zero_marks :=
                      (script_zero_marks planner \<and> \<not> apply_kerx plan \<and>
                       (\<not> apply_kern plan \<or> \<not> rb_ot_layout_has_machine_kerning face))\<rparr>;
          p2 = p1\<lparr>has_gpos_mark :=
                    (rb_ot_map_get_1_mask (plan_map p1) (RB_TAG CHR ''m'' CHR ''a'' CHR ''r'' CHR ''k'') \<noteq> 0)\<rparr>;
          p3 = p2\<lparr>adjust_mark_positioning_when_zeroing :=
                    (\<not> apply_gpos p2 \<and> \<not> apply_kerx p2 \<and>
                     (\<not> apply_kern p2 \<or> \<not> rb_ot_layout_has_cross_kerning face))\<rparr>;
          p4 = p3\<lparr>fallback_mark_positioning :=
                    (adjust_mark_positioning_when_zeroing p3 \<and>
                     script_fallback_mark_positioning planner)\<rparr>
      in p4\<lparr>apply_trak := (requested_tracking p4 \<and> rb_aat_layout_has_tracking face)\<rparr>)"

definition compile ::
  "rb_plan_extern \<Rightarrow> rb_constants \<Rightarrow> rb_ot_shape_planner_t \<Rightarrow> rb_ot_shape_plan_t \<Rightarrow> 32 word list
     \<Rightarrow> rb_ot_shape_plan_t" where
  "compile E K planner plan variations_index =
     (let face = planner_face planner;
          p1 = compile_maps E planner plan variations_index;
          p2 = compile_char_masks p1;
          kern_tag = compile_kern_tag (planner_props planner);
          p3 = compile_kern_masks kern_tag p2;
          has_gpos_kern = compile_has_gpos_kern K kern_tag p3;
          disable_gpos = compile_disable_gpos E p3;
          p4 = compile_substitution face (planner_apply_morx planner) p3;
          p5 = compile_positioning face (planner_apply_morx planner) has_gpos_kern disable_gpos p4
      in compile_mark_policies face planner p5)"

text \<open>
  The plan that \<^verbatim>\<open>init0\<close> is run on: as the name of \<^verbatim>\<open>init0\<close> says and the spec states (compile
  fills an initially zeroed plan), its memory is zero. A plan is zeroed when its flags
  are false and its masks, pointers and numbers are 0. The compiled map of a zeroed plan
  is never read before \<^verbatim>\<open>compile\<close> stores one, and the properties are copied in by
  \<^verbatim>\<open>compile\<close>: the model takes both as given.
\<close>

definition zeroed_plan :: "rb_segment_properties_t \<Rightarrow> rb_ot_map_t \<Rightarrow> rb_ot_shape_plan_t" where
  "zeroed_plan props m =
     \<lparr>plan_props = props, plan_shaper = 0, plan_map = m, plan_aat_map = 0, plan_data = 0,
      frac_mask = 0, numr_mask = 0, dnom_mask = 0, rtlm_mask = 0, kern_mask = 0, trak_mask = 0,
      has_frac = False, has_vert = False, requested_kerning = False, requested_tracking = False,
      has_gpos_mark = False, zero_marks = False, fallback_glyph_classes = False,
      fallback_mark_positioning = False, adjust_mark_positioning_when_zeroing = False,
      apply_gpos = False, apply_kerx = False, apply_kern = False, apply_morx = False,
      apply_trak = False\<rparr>"

subsection \<open>Plan initialisation\<close>

text \<open>
  \<^verbatim>\<open>rb_ot_shape_plan_t::init0\<close> acquires and releases resources: the compiled map
  (\<^verbatim>\<open>rb_ot_map_create\<close>, \<^verbatim>\<open>rb_ot_map_destroy\<close>), the compiled AAT map (\<^verbatim>\<open>aat_map.init\<close>,
  \<^verbatim>\<open>aat_map.fini\<close>), the map builder of the local planner (created by the planner's
  constructor, destroyed by its destructor when the planner goes out of scope, on either
  return) and the shaper's data. The model returns the result, the plan, and the
  sequence of these calls, oldest first.
\<close>

datatype rb_resource = Ot_map | Aat_map | Map_builder | Shaper_data

datatype rb_resource_call = Acquire rb_resource | Release rb_resource

definition init0 ::
  "rb_plan_extern \<Rightarrow> rb_constants \<Rightarrow> rb_ot_shape_plan_t \<Rightarrow> rb_face_t \<Rightarrow> rb_segment_properties_t
     \<Rightarrow> rb_feature_t list \<Rightarrow> 32 word list \<Rightarrow> bool \<times> rb_ot_shape_plan_t \<times> rb_resource_call list" where
  "init0 E K this face props user_features variations_index =
     (let calls1 = [Acquire Ot_map, Acquire Aat_map];
          planner = rb_ot_shape_planner_create E face props;
          calls2 = calls1 @ [Acquire Map_builder];
          planner1 = rb_ot_shape_collect_features E K planner user_features;
          this1 = compile E K planner1 this variations_index
      in case rb_ot_complex_shaper_data_create E (plan_shaper this1) this1 of
           None \<Rightarrow>
             (False, this1, calls2 @ [Release Ot_map, Release Aat_map, Release Map_builder])
         | Some d \<Rightarrow>
             (True, this1\<lparr>plan_data := d\<rparr>, calls2 @ [Acquire Shaper_data, Release Map_builder]))"

text \<open>The resources still held after a sequence of calls.\<close>

definition held :: "rb_resource_call list \<Rightarrow> rb_resource set" where
  "held calls =
     foldl (\<lambda>S c. case c of Acquire r \<Rightarrow> insert r S | Release r \<Rightarrow> S - {r}) {} calls"

subsection \<open>The buffer and the shaping context\<close>

text \<open>
  The buffer is external and mutable. The model holds what the file reads or writes:
  the two parallel glyph arrays, the direction, the scratch flags and the two limits.
  The accessors (\<^verbatim>\<open>rb_buffer_get_length\<close>, \<^verbatim>\<open>rb_buffer_get_direction\<close>,
  \<^verbatim>\<open>rb_buffer_set_direction\<close>, \<^verbatim>\<open>rb_buffer_get_scratch_flags\<close>, \<^verbatim>\<open>rb_buffer_set_scratch_flags\<close>,
  \<^verbatim>\<open>rb_buffer_set_max_len\<close>, \<^verbatim>\<open>rb_buffer_set_max_ops\<close>, \<^verbatim>\<open>rb_buffer_get_glyph_infos\<close>,
  \<^verbatim>\<open>rb_buffer_get_glyph_positions\<close>) are the field reads and updates of the record; every
  other buffer operation is an external function.
\<close>

record rb_glyph_info_t =
  codepoint :: rb_codepoint_t
  glyph_mask :: rb_mask_t
  cluster :: "32 word"
  var1 :: "32 word"
  var2 :: "32 word"

record rb_glyph_position_t =
  x_advance :: "32 word"
  y_advance :: "32 word"
  x_offset :: "32 word"
  y_offset :: "32 word"
  pos_var :: "32 word"

record rb_buffer_t =
  info :: "rb_glyph_info_t list"
  pos :: "rb_glyph_position_t list"
  buffer_direction :: rb_direction_t
  scratch_flags :: "32 word"
  max_len :: "32 word"
  max_ops :: "32 word"

definition rb_buffer_get_length :: "rb_buffer_t \<Rightarrow> nat" where
  "rb_buffer_get_length buffer = length (info buffer)"

record rb_ot_shape_context_t =
  ctx_plan :: rb_ot_shape_plan_t
  ctx_face :: rb_face_t
  ctx_buffer :: rb_buffer_t
  ctx_user_features :: "rb_feature_t list"
  target_direction :: rb_direction_t

text \<open>
  The external functions of the pipeline: buffer operations, the Unicode database, the
  routines of the \<^verbatim>\<open>extern "C"\<close> block, the layout tables, the face's metrics, the
  three buffer hooks of the shaper and the overflow test of two \<^verbatim>\<open>unsigned int\<close>. A function that takes the buffer by pointer returns
  the buffer it leaves behind. \<^verbatim>\<open>rb_face_get_glyph_h_advances\<close> and
  \<^verbatim>\<open>rb_face_get_glyph_v_advances\<close> read the glyph array and write into the position array:
  they return the positions.
\<close>

record rb_shape_extern =
  rb_buffer_clear_output :: "rb_buffer_t \<Rightarrow> rb_buffer_t"
  rb_buffer_reset_masks :: "rb_buffer_t \<Rightarrow> rb_mask_t \<Rightarrow> rb_buffer_t"
  rb_buffer_set_masks :: "rb_buffer_t \<Rightarrow> 32 word \<Rightarrow> rb_mask_t \<Rightarrow> 32 word \<Rightarrow> 32 word \<Rightarrow> rb_buffer_t"
  rb_buffer_unsafe_to_break :: "rb_buffer_t \<Rightarrow> nat \<Rightarrow> nat \<Rightarrow> rb_buffer_t"
  rb_buffer_clear_positions :: "rb_buffer_t \<Rightarrow> rb_buffer_t"
  rb_buffer_reverse :: "rb_buffer_t \<Rightarrow> rb_buffer_t"
  rb_ucd_mirroring :: "rb_codepoint_t \<Rightarrow> rb_codepoint_t"
  rb_vert_char_for :: "rb_codepoint_t \<Rightarrow> rb_codepoint_t"
  rb_glyph_info_get_general_category :: "rb_glyph_info_t \<Rightarrow> 32 word"
  rb_set_unicode_props :: "rb_buffer_t \<Rightarrow> rb_buffer_t"
  rb_insert_dotted_circle :: "rb_buffer_t \<Rightarrow> rb_face_t \<Rightarrow> rb_buffer_t"
  rb_form_clusters :: "rb_buffer_t \<Rightarrow> rb_buffer_t"
  rb_ensure_native_direction :: "rb_buffer_t \<Rightarrow> rb_buffer_t"
  rb_ot_zero_width_default_ignorables :: "rb_buffer_t \<Rightarrow> rb_buffer_t"
  rb_ot_hide_default_ignorables :: "rb_buffer_t \<Rightarrow> rb_face_t \<Rightarrow> rb_buffer_t"
  rb_ot_map_glyphs_fast :: "rb_buffer_t \<Rightarrow> rb_buffer_t"
  rb_synthesize_glyph_classes :: "rb_buffer_t \<Rightarrow> rb_buffer_t"
  rb_zero_mark_widths_by_gdef :: "rb_buffer_t \<Rightarrow> bool \<Rightarrow> rb_buffer_t"
  rb_propagate_flags :: "rb_buffer_t \<Rightarrow> rb_buffer_t"
  rb_ot_shape_normalize :: "rb_ot_shape_plan_t \<Rightarrow> rb_buffer_t \<Rightarrow> rb_face_t \<Rightarrow> rb_buffer_t"
  rb_ot_shape_fallback_mark_position ::
    "rb_ot_shape_plan_t \<Rightarrow> rb_face_t \<Rightarrow> rb_buffer_t \<Rightarrow> bool \<Rightarrow> rb_buffer_t"
  rb_ot_shape_fallback_mark_position_recategorize_marks ::
    "rb_ot_shape_plan_t \<Rightarrow> rb_face_t \<Rightarrow> rb_buffer_t \<Rightarrow> rb_buffer_t"
  rb_ot_shape_fallback_kern :: "rb_ot_shape_plan_t \<Rightarrow> rb_face_t \<Rightarrow> rb_buffer_t \<Rightarrow> rb_buffer_t"
  rb_ot_shape_fallback_spaces :: "rb_ot_shape_plan_t \<Rightarrow> rb_face_t \<Rightarrow> rb_buffer_t \<Rightarrow> rb_buffer_t"
  rb_ot_layout_substitute_start :: "rb_face_t \<Rightarrow> rb_buffer_t \<Rightarrow> rb_buffer_t"
  rb_aat_layout_substitute :: "rb_ot_shape_plan_t \<Rightarrow> rb_face_t \<Rightarrow> rb_buffer_t \<Rightarrow> rb_buffer_t"
  rb_ot_layout_substitute ::
    "rb_ot_shape_plan_t \<Rightarrow> rb_ot_map_t \<Rightarrow> rb_face_t \<Rightarrow> rb_buffer_t \<Rightarrow> rb_buffer_t"
  rb_aat_layout_remove_deleted_glyphs :: "rb_buffer_t \<Rightarrow> rb_buffer_t"
  rb_ot_layout_position_start :: "rb_face_t \<Rightarrow> rb_buffer_t \<Rightarrow> rb_buffer_t"
  rb_ot_layout_position ::
    "rb_ot_shape_plan_t \<Rightarrow> rb_ot_map_t \<Rightarrow> rb_face_t \<Rightarrow> rb_buffer_t \<Rightarrow> rb_buffer_t"
  rb_aat_layout_position :: "rb_ot_shape_plan_t \<Rightarrow> rb_face_t \<Rightarrow> rb_buffer_t \<Rightarrow> rb_buffer_t"
  rb_ot_layout_kern :: "rb_ot_shape_plan_t \<Rightarrow> rb_face_t \<Rightarrow> rb_buffer_t \<Rightarrow> rb_buffer_t"
  rb_aat_layout_track :: "rb_ot_shape_plan_t \<Rightarrow> rb_face_t \<Rightarrow> rb_buffer_t \<Rightarrow> rb_buffer_t"
  rb_ot_layout_position_finish_advances :: "rb_face_t \<Rightarrow> rb_buffer_t \<Rightarrow> rb_buffer_t"
  rb_aat_layout_zero_width_deleted_glyphs :: "rb_buffer_t \<Rightarrow> rb_buffer_t"
  rb_ot_layout_position_finish_offsets :: "rb_face_t \<Rightarrow> rb_buffer_t \<Rightarrow> rb_buffer_t"
  rb_face_get_glyph_h_advances ::
    "rb_face_t \<Rightarrow> nat \<Rightarrow> rb_glyph_info_t list \<Rightarrow> rb_glyph_position_t list \<Rightarrow> rb_glyph_position_t list"
  rb_face_get_glyph_v_advances ::
    "rb_face_t \<Rightarrow> nat \<Rightarrow> rb_glyph_info_t list \<Rightarrow> rb_glyph_position_t list \<Rightarrow> rb_glyph_position_t list"
  rb_face_subtract_glyph_v_origin ::
    "rb_face_t \<Rightarrow> rb_codepoint_t \<Rightarrow> 32 word \<times> 32 word \<Rightarrow> 32 word \<times> 32 word"
  rb_ot_complex_shaper_setup_masks ::
    "rb_ot_complex_shaper_t \<Rightarrow> rb_ot_shape_plan_t \<Rightarrow> rb_buffer_t \<Rightarrow> rb_face_t \<Rightarrow> rb_buffer_t"
  rb_ot_complex_shaper_preprocess_text ::
    "rb_ot_complex_shaper_t \<Rightarrow> rb_ot_shape_plan_t \<Rightarrow> rb_buffer_t \<Rightarrow> rb_face_t \<Rightarrow> rb_buffer_t"
  rb_ot_complex_shaper_postprocess_glyphs ::
    "rb_ot_complex_shaper_t \<Rightarrow> rb_ot_shape_plan_t \<Rightarrow> rb_buffer_t \<Rightarrow> rb_face_t \<Rightarrow> rb_buffer_t"
  rb_unsigned_mul_overflows :: "32 word \<Rightarrow> 32 word \<Rightarrow> bool"

subsection \<open>Substitution: rotating characters\<close>

text \<open>
  The two loops of \<^verbatim>\<open>rb_ot_rotate_chars\<close>, each a recursion on the index \<open>i\<close> that
  updates the glyph array in place. \<open>count\<close> is the buffer length read before the loops.
\<close>

function rb_ot_rotate_chars_mirror ::
  "rb_shape_extern \<Rightarrow> rb_face_t \<Rightarrow> rb_mask_t \<Rightarrow> nat \<Rightarrow> nat \<Rightarrow> rb_glyph_info_t list
     \<Rightarrow> rb_glyph_info_t list" where
  "rb_ot_rotate_chars_mirror X face rtlm count i infos =
     (if i < count
      then (let c = rb_ucd_mirroring X (codepoint (infos ! i))
            in if c \<noteq> codepoint (infos ! i) \<and> rb_face_has_glyph face c
               then rb_ot_rotate_chars_mirror X face rtlm count (Suc i)
                      (infos[i := (infos ! i)\<lparr>codepoint := c\<rparr>])
               else rb_ot_rotate_chars_mirror X face rtlm count (Suc i)
                      (infos[i := (infos ! i)\<lparr>glyph_mask := glyph_mask (infos ! i) OR rtlm\<rparr>]))
      else infos)"
  by pat_completeness auto
termination
  by (relation "measure (\<lambda>(X, face, rtlm, count, i, infos). count - i)") auto

declare rb_ot_rotate_chars_mirror.simps [simp del]

function rb_ot_rotate_chars_vert ::
  "rb_shape_extern \<Rightarrow> rb_face_t \<Rightarrow> nat \<Rightarrow> nat \<Rightarrow> rb_glyph_info_t list \<Rightarrow> rb_glyph_info_t list" where
  "rb_ot_rotate_chars_vert X face count i infos =
     (if i < count
      then (let c = rb_vert_char_for X (codepoint (infos ! i))
            in if c \<noteq> codepoint (infos ! i) \<and> rb_face_has_glyph face c
               then rb_ot_rotate_chars_vert X face count (Suc i)
                      (infos[i := (infos ! i)\<lparr>codepoint := c\<rparr>])
               else rb_ot_rotate_chars_vert X face count (Suc i) infos)
      else infos)"
  by pat_completeness auto
termination
  by (relation "measure (\<lambda>(X, face, count, i, infos). count - i)") auto

declare rb_ot_rotate_chars_vert.simps [simp del]

definition rb_ot_rotate_chars :: "rb_shape_extern \<Rightarrow> rb_ot_shape_context_t \<Rightarrow> rb_ot_shape_context_t" where
  "rb_ot_rotate_chars X c =
     (let buffer = ctx_buffer c;
          count = rb_buffer_get_length buffer;
          infos = info buffer;
          infos1 = (if RB_DIRECTION_IS_BACKWARD (target_direction c)
                    then rb_ot_rotate_chars_mirror X (ctx_face c) (rtlm_mask (ctx_plan c)) count 0 infos
                    else infos);
          infos2 = (if RB_DIRECTION_IS_VERTICAL (target_direction c) \<and> \<not> has_vert (ctx_plan c)
                    then rb_ot_rotate_chars_vert X (ctx_face c) count 0 infos1
                    else infos1)
      in c\<lparr>ctx_buffer := buffer\<lparr>info := infos2\<rparr>\<rparr>)"

subsection \<open>Mask setup\<close>

text \<open>
  The loops of \<^verbatim>\<open>rb_ot_shape_setup_masks_fraction\<close>: the two \<^verbatim>\<open>while\<close> loops that widen the
  span, the \<^verbatim>\<open>for\<close> loop that ORs a mask into \<^verbatim>\<open>info[j]\<close> for \<open>j\<close> from a start up to a bound,
  and the scan over \<open>i\<close>. The scan assigns \<^verbatim>\<open>i = end - 1\<close> and then the loop header
  increments \<open>i\<close>.
\<close>

function fraction_start :: "rb_shape_extern \<Rightarrow> rb_constants \<Rightarrow> rb_glyph_info_t list \<Rightarrow> nat \<Rightarrow> nat" where
  "fraction_start X K infos start =
     (if start \<noteq> 0 \<and>
         rb_glyph_info_get_general_category X (infos ! (start - 1)) =
           RB_UNICODE_GENERAL_CATEGORY_DECIMAL_NUMBER K
      then fraction_start X K infos (start - 1)
      else start)"
  by pat_completeness auto
termination
  by (relation "measure (\<lambda>(X, K, infos, start). start)") auto

declare fraction_start.simps [simp del]

function fraction_end ::
  "rb_shape_extern \<Rightarrow> rb_constants \<Rightarrow> rb_glyph_info_t list \<Rightarrow> nat \<Rightarrow> nat \<Rightarrow> nat" where
  "fraction_end X K infos count e =
     (if e < count \<and>
         rb_glyph_info_get_general_category X (infos ! e) =
           RB_UNICODE_GENERAL_CATEGORY_DECIMAL_NUMBER K
      then fraction_end X K infos count (Suc e)
      else e)"
  by pat_completeness auto
termination
  by (relation "measure (\<lambda>(X, K, infos, count, e). count - e)") auto

declare fraction_end.simps [simp del]

function or_masks :: "rb_glyph_info_t list \<Rightarrow> nat \<Rightarrow> nat \<Rightarrow> rb_mask_t \<Rightarrow> rb_glyph_info_t list" where
  "or_masks infos j bound m =
     (if j < bound
      then or_masks (infos[j := (infos ! j)\<lparr>glyph_mask := glyph_mask (infos ! j) OR m\<rparr>]) (Suc j) bound m
      else infos)"
  by pat_completeness auto
termination
  by (relation "measure (\<lambda>(infos, j, bound, m). bound - j)") auto

declare or_masks.simps [simp del]

lemma fraction_end_ge: "e \<le> fraction_end X K infos count e"
proof (induction X K infos count e rule: fraction_end.induct)
  case (1 X K infos count e)
  show ?case
  proof (cases "e < count \<and> rb_glyph_info_get_general_category X (infos ! e) =
                  RB_UNICODE_GENERAL_CATEGORY_DECIMAL_NUMBER K")
    case True
    then have "fraction_end X K infos count e = fraction_end X K infos count (Suc e)"
      by (subst fraction_end.simps) simp
    moreover from "1.IH" True have "Suc e \<le> fraction_end X K infos count (Suc e)"
      by simp
    ultimately show ?thesis by simp
  next
    case False
    then have "fraction_end X K infos count e = e"
      by (subst fraction_end.simps) auto
    then show ?thesis by simp
  qed
qed

text \<open>
  The body of the \<^verbatim>\<open>if\<close> at a fraction slash: the new \<^verbatim>\<open>end\<close> and the buffer it leaves.
\<close>

definition fraction_span ::
  "rb_shape_extern \<Rightarrow> rb_constants \<Rightarrow> rb_mask_t \<Rightarrow> rb_mask_t \<Rightarrow> rb_mask_t \<Rightarrow> nat \<Rightarrow> nat
     \<Rightarrow> rb_buffer_t \<Rightarrow> nat \<times> rb_buffer_t" where
  "fraction_span X K pre_mask fracm post_mask count i buffer =
     (let start = fraction_start X K (info buffer) i;
          e = fraction_end X K (info buffer) count (i + 1);
          b1 = rb_buffer_unsafe_to_break X buffer start e;
          infos1 = or_masks (info b1) start i pre_mask;
          infos2 = infos1[i := (infos1 ! i)\<lparr>glyph_mask := glyph_mask (infos1 ! i) OR fracm\<rparr>];
          infos3 = or_masks infos2 (i + 1) e post_mask
      in (e, b1\<lparr>info := infos3\<rparr>))"

lemma fraction_span_ge: "i + 1 \<le> fst (fraction_span X K pre_mask fracm post_mask count i buffer)"
  by (simp add: fraction_span_def Let_def fraction_end_ge[of "Suc i", simplified])

function fraction_scan ::
  "rb_shape_extern \<Rightarrow> rb_constants \<Rightarrow> rb_mask_t \<Rightarrow> rb_mask_t \<Rightarrow> rb_mask_t \<Rightarrow> nat \<Rightarrow> nat
     \<Rightarrow> rb_buffer_t \<Rightarrow> rb_buffer_t" where
  "fraction_scan X K pre_mask fracm post_mask count i buffer =
     (if i < count
      then (if codepoint (info buffer ! i) = 0x2044
            then fraction_scan X K pre_mask fracm post_mask count
                   (Suc (fst (fraction_span X K pre_mask fracm post_mask count i buffer) - 1))
                   (snd (fraction_span X K pre_mask fracm post_mask count i buffer))
            else fraction_scan X K pre_mask fracm post_mask count (Suc i) buffer)
      else buffer)"
  by pat_completeness auto
termination
proof (relation "measure (\<lambda>(X, K, pre_mask, fracm, post_mask, count, i, buffer). count - i)",
    goal_cases)
  case 1
  show ?case by simp
next
  case (2 X K pre_mask fracm post_mask count i buffer)
  from fraction_span_ge[of i X K pre_mask fracm post_mask count buffer] 2
  show ?case by (cases "fraction_span X K pre_mask fracm post_mask count i buffer") simp
next
  case (3 X K pre_mask fracm post_mask count i buffer)
  then show ?case by simp
qed

declare fraction_scan.simps [simp del]

definition rb_ot_shape_setup_masks_fraction ::
  "rb_shape_extern \<Rightarrow> rb_constants \<Rightarrow> rb_ot_shape_context_t \<Rightarrow> rb_ot_shape_context_t" where
  "rb_ot_shape_setup_masks_fraction X K c =
     (if \<not> (scratch_flags (ctx_buffer c) AND RB_BUFFER_SCRATCH_FLAG_HAS_NON_ASCII K \<noteq> 0) \<or>
         \<not> has_frac (ctx_plan c)
      then c
      else (let buffer = ctx_buffer c;
                pre_mask = (if RB_DIRECTION_IS_FORWARD (buffer_direction (ctx_buffer c))
                            then numr_mask (ctx_plan c) OR frac_mask (ctx_plan c)
                            else frac_mask (ctx_plan c) OR dnom_mask (ctx_plan c));
                post_mask = (if RB_DIRECTION_IS_FORWARD (buffer_direction (ctx_buffer c))
                             then frac_mask (ctx_plan c) OR dnom_mask (ctx_plan c)
                             else numr_mask (ctx_plan c) OR frac_mask (ctx_plan c));
                count = rb_buffer_get_length buffer
            in c\<lparr>ctx_buffer :=
                   fraction_scan X K pre_mask (frac_mask (ctx_plan c)) post_mask count 0 buffer\<rparr>))"

definition rb_ot_shape_initialize_masks ::
  "rb_shape_extern \<Rightarrow> rb_ot_shape_context_t \<Rightarrow> rb_ot_shape_context_t" where
  "rb_ot_shape_initialize_masks X c =
     (let global_mask = rb_ot_map_get_global_mask (plan_map (ctx_plan c))
      in c\<lparr>ctx_buffer := rb_buffer_reset_masks X (ctx_buffer c) global_mask\<rparr>)"

text \<open>
  \<^verbatim>\<open>rb_ot_shape_setup_masks\<close>. \<^verbatim>\<open>feature->value << shift\<close> is a 32-bit shift by the shift
  that \<^verbatim>\<open>rb_ot_map_get_mask\<close> stores.
\<close>

definition rb_ot_shape_setup_masks ::
  "rb_shape_extern \<Rightarrow> rb_constants \<Rightarrow> rb_ot_shape_context_t \<Rightarrow> rb_ot_shape_context_t" where
  "rb_ot_shape_setup_masks X K c =
     (let m = plan_map (ctx_plan c);
          c1 = rb_ot_shape_setup_masks_fraction X K c;
          b1 = rb_ot_complex_shaper_setup_masks X (plan_shaper (ctx_plan c1)) (ctx_plan c1)
                 (ctx_buffer c1) (ctx_face c1);
          b2 = foldl (\<lambda>buffer feature.
                  if \<not> (feature_start feature = RB_FEATURE_GLOBAL_START K \<and>
                         feature_end feature = RB_FEATURE_GLOBAL_END K)
                  then rb_buffer_set_masks X buffer
                         (push_bit (unat (snd (rb_ot_map_get_mask m (feature_tag feature))))
                            (feature_value feature))
                         (fst (rb_ot_map_get_mask m (feature_tag feature)))
                         (feature_start feature) (feature_end feature)
                  else buffer) b1 (ctx_user_features c1)
      in c1\<lparr>ctx_buffer := b2\<rparr>)"

subsection \<open>The substitution driver\<close>

definition rb_ot_substitute_default ::
  "rb_shape_extern \<Rightarrow> rb_constants \<Rightarrow> rb_ot_shape_context_t \<Rightarrow> rb_ot_shape_context_t" where
  "rb_ot_substitute_default X K c =
     (let c1 = rb_ot_rotate_chars X c;
          c2 = c1\<lparr>ctx_buffer := rb_ot_shape_normalize X (ctx_plan c1) (ctx_buffer c1) (ctx_face c1)\<rparr>;
          c3 = rb_ot_shape_setup_masks X K c2;
          c4 = (if fallback_mark_positioning (ctx_plan c3)
                then c3\<lparr>ctx_buffer :=
                         rb_ot_shape_fallback_mark_position_recategorize_marks X (ctx_plan c3)
                           (ctx_face c3) (ctx_buffer c3)\<rparr>
                else c3)
      in c4\<lparr>ctx_buffer := rb_ot_map_glyphs_fast X (ctx_buffer c4)\<rparr>)"

definition substitute ::
  "rb_shape_extern \<Rightarrow> rb_ot_shape_plan_t \<Rightarrow> rb_face_t \<Rightarrow> rb_buffer_t \<Rightarrow> rb_buffer_t" where
  "substitute X this face buffer =
     (if apply_morx this
      then rb_aat_layout_substitute X this face buffer
      else rb_ot_layout_substitute X this (plan_map this) face buffer)"

definition rb_ot_substitute_complex ::
  "rb_shape_extern \<Rightarrow> rb_ot_shape_context_t \<Rightarrow> rb_ot_shape_context_t" where
  "rb_ot_substitute_complex X c =
     (let b1 = rb_ot_layout_substitute_start X (ctx_face c) (ctx_buffer c);
          b2 = (if fallback_glyph_classes (ctx_plan c) then rb_synthesize_glyph_classes X b1 else b1)
      in c\<lparr>ctx_buffer := substitute X (ctx_plan c) (ctx_face c) b2\<rparr>)"

definition rb_ot_substitute_pre ::
  "rb_shape_extern \<Rightarrow> rb_constants \<Rightarrow> rb_ot_shape_context_t \<Rightarrow> rb_ot_shape_context_t" where
  "rb_ot_substitute_pre X K c = rb_ot_substitute_complex X (rb_ot_substitute_default X K c)"

definition rb_ot_substitute_post ::
  "rb_shape_extern \<Rightarrow> rb_ot_shape_context_t \<Rightarrow> rb_ot_shape_context_t" where
  "rb_ot_substitute_post X c =
     (let b1 = rb_ot_hide_default_ignorables X (ctx_buffer c) (ctx_face c);
          b2 = (if apply_morx (ctx_plan c) then rb_aat_layout_remove_deleted_glyphs X b1 else b1)
      in c\<lparr>ctx_buffer :=
             rb_ot_complex_shaper_postprocess_glyphs X (plan_shaper (ctx_plan c)) (ctx_plan c) b2
               (ctx_face c)\<rparr>)"

subsection \<open>The positioning driver\<close>

text \<open>
  The loop of \<^verbatim>\<open>rb_ot_position_default\<close> over the vertical origins:
  \<^verbatim>\<open>rb_face_subtract_glyph_v_origin\<close> takes the two offsets of \<^verbatim>\<open>pos[i]\<close> by pointer.
\<close>

function position_v_origins ::
  "rb_shape_extern \<Rightarrow> rb_face_t \<Rightarrow> nat \<Rightarrow> nat \<Rightarrow> rb_glyph_info_t list \<Rightarrow> rb_glyph_position_t list
     \<Rightarrow> rb_glyph_position_t list" where
  "position_v_origins X face count i infos poss =
     (if i < count
      then position_v_origins X face count (Suc i) infos
             (poss[i := (poss ! i)
                \<lparr>x_offset := fst (rb_face_subtract_glyph_v_origin X face (codepoint (infos ! i))
                                   (x_offset (poss ! i), y_offset (poss ! i))),
                 y_offset := snd (rb_face_subtract_glyph_v_origin X face (codepoint (infos ! i))
                                   (x_offset (poss ! i), y_offset (poss ! i)))\<rparr>])
      else poss)"
  by pat_completeness auto
termination
  by (relation "measure (\<lambda>(X, face, count, i, infos, poss). count - i)") auto

declare position_v_origins.simps [simp del]

definition rb_ot_position_default ::
  "rb_shape_extern \<Rightarrow> rb_constants \<Rightarrow> rb_ot_shape_context_t \<Rightarrow> rb_ot_shape_context_t" where
  "rb_ot_position_default X K c =
     (let dir = buffer_direction (ctx_buffer c);
          count = rb_buffer_get_length (ctx_buffer c);
          infos = info (ctx_buffer c);
          poss = pos (ctx_buffer c);
          b1 = (if RB_DIRECTION_IS_HORIZONTAL dir
                then (ctx_buffer c)\<lparr>pos := rb_face_get_glyph_h_advances X (ctx_face c) count infos poss\<rparr>
                else (ctx_buffer c)\<lparr>pos :=
                       position_v_origins X (ctx_face c) count 0 infos
                         (rb_face_get_glyph_v_advances X (ctx_face c) count infos poss)\<rparr>);
          b2 = (if scratch_flags b1 AND RB_BUFFER_SCRATCH_FLAG_HAS_SPACE_FALLBACK K \<noteq> 0
                then rb_ot_shape_fallback_spaces X (ctx_plan c) (ctx_face c) b1
                else b1)
      in c\<lparr>ctx_buffer := b2\<rparr>)"

text \<open>\<^verbatim>\<open>rb_ot_shape_plan_t::position\<close>: the dispatch to one positioning backend, then tracking.\<close>

definition position ::
  "rb_shape_extern \<Rightarrow> rb_ot_shape_plan_t \<Rightarrow> rb_face_t \<Rightarrow> rb_buffer_t \<Rightarrow> rb_buffer_t" where
  "position X this face buffer =
     (let b1 = (if apply_gpos this
                then rb_ot_layout_position X this (plan_map this) face buffer
                else if apply_kerx this
                then rb_aat_layout_position X this face buffer
                else if apply_kern this
                then rb_ot_layout_kern X this face buffer
                else rb_ot_shape_fallback_kern X this face buffer)
      in if apply_trak this then rb_aat_layout_track X this face b1 else b1)"

definition rb_ot_position_complex ::
  "rb_plan_extern \<Rightarrow> rb_shape_extern \<Rightarrow> rb_ot_shape_context_t \<Rightarrow> rb_ot_shape_context_t" where
  "rb_ot_position_complex E X c =
     (let adjust_offsets_when_zeroing =
            (adjust_mark_positioning_when_zeroing (ctx_plan c) \<and>
             RB_DIRECTION_IS_FORWARD (buffer_direction (ctx_buffer c)));
          b1 = rb_ot_layout_position_start X (ctx_face c) (ctx_buffer c);
          b2 = (if zero_marks (ctx_plan c)
                then (case rb_ot_complex_shaper_get_zero_width_marks_mode E (plan_shaper (ctx_plan c)) of
                        RB_OT_SHAPE_ZERO_WIDTH_MARKS_BY_GDEF_EARLY \<Rightarrow>
                          rb_zero_mark_widths_by_gdef X b1 adjust_offsets_when_zeroing
                      | RB_OT_SHAPE_ZERO_WIDTH_MARKS_NONE \<Rightarrow> b1
                      | RB_OT_SHAPE_ZERO_WIDTH_MARKS_BY_GDEF_LATE \<Rightarrow> b1)
                else b1);
          b3 = position X (ctx_plan c) (ctx_face c) b2;
          b4 = (if zero_marks (ctx_plan c)
                then (case rb_ot_complex_shaper_get_zero_width_marks_mode E (plan_shaper (ctx_plan c)) of
                        RB_OT_SHAPE_ZERO_WIDTH_MARKS_BY_GDEF_LATE \<Rightarrow>
                          rb_zero_mark_widths_by_gdef X b3 adjust_offsets_when_zeroing
                      | RB_OT_SHAPE_ZERO_WIDTH_MARKS_NONE \<Rightarrow> b3
                      | RB_OT_SHAPE_ZERO_WIDTH_MARKS_BY_GDEF_EARLY \<Rightarrow> b3)
                else b3);
          b5 = rb_ot_layout_position_finish_advances X (ctx_face c) b4;
          b6 = rb_ot_zero_width_default_ignorables X b5;
          b7 = (if apply_morx (ctx_plan c) then rb_aat_layout_zero_width_deleted_glyphs X b6 else b6);
          b8 = rb_ot_layout_position_finish_offsets X (ctx_face c) b7;
          b9 = (if fallback_mark_positioning (ctx_plan c)
                then rb_ot_shape_fallback_mark_position X (ctx_plan c) (ctx_face c) b8
                       adjust_offsets_when_zeroing
                else b8)
      in c\<lparr>ctx_buffer := b9\<rparr>)"

definition rb_ot_position ::
  "rb_plan_extern \<Rightarrow> rb_shape_extern \<Rightarrow> rb_constants \<Rightarrow> rb_ot_shape_context_t
     \<Rightarrow> rb_ot_shape_context_t" where
  "rb_ot_position E X K c =
     (let c1 = c\<lparr>ctx_buffer := rb_buffer_clear_positions X (ctx_buffer c)\<rparr>;
          c2 = rb_ot_position_default X K c1;
          c3 = rb_ot_position_complex E X c2
      in if RB_DIRECTION_IS_BACKWARD (buffer_direction (ctx_buffer c3))
         then c3\<lparr>ctx_buffer := rb_buffer_reverse X (ctx_buffer c3)\<rparr>
         else c3)"

subsection \<open>The pipeline\<close>

text \<open>
  Lines 589 to 599 of \<^verbatim>\<open>rb_ot_shape_internal\<close>: the scratch flags and the two limits.
  \<^verbatim>\<open>rb_buffer_get_length\<close> returns an \<^verbatim>\<open>unsigned int\<close>, and \<^verbatim>\<open>rb_max\<close> compares two of them.
  The overflow test \<^verbatim>\<open>rb_unsigned_mul_overflows\<close> is a helper of a header outside the
  sources: it is one of the external functions.
\<close>

definition rb_ot_shape_internal_limits ::
  "rb_shape_extern \<Rightarrow> rb_constants \<Rightarrow> rb_buffer_t \<Rightarrow> rb_buffer_t" where
  "rb_ot_shape_internal_limits X K buffer =
     (let b0 = buffer\<lparr>scratch_flags := RB_BUFFER_SCRATCH_FLAG_DEFAULT K\<rparr>;
          b1 = (if \<not> rb_unsigned_mul_overflows X (of_nat (rb_buffer_get_length b0))
                       (RB_BUFFER_MAX_LEN_FACTOR K)
                then b0\<lparr>max_len := max (of_nat (rb_buffer_get_length b0) * RB_BUFFER_MAX_LEN_FACTOR K)
                                        (RB_BUFFER_MAX_LEN_MIN K)\<rparr>
                else b0)
      in if \<not> rb_unsigned_mul_overflows X (of_nat (rb_buffer_get_length b1))
                  (RB_BUFFER_MAX_OPS_FACTOR K)
         then b1\<lparr>max_ops := max (of_nat (rb_buffer_get_length b1) * RB_BUFFER_MAX_OPS_FACTOR K)
                                 (RB_BUFFER_MAX_OPS_MIN K)\<rparr>
         else b1)"

definition rb_ot_shape_internal ::
  "rb_plan_extern \<Rightarrow> rb_shape_extern \<Rightarrow> rb_constants \<Rightarrow> rb_ot_shape_context_t
     \<Rightarrow> rb_ot_shape_context_t" where
  "rb_ot_shape_internal E X K c =
     (let c1 = c\<lparr>ctx_buffer := rb_ot_shape_internal_limits X K (ctx_buffer c)\<rparr>;
          c2 = c1\<lparr>target_direction := buffer_direction (ctx_buffer c1)\<rparr>;
          c3 = c2\<lparr>ctx_buffer := rb_buffer_clear_output X (ctx_buffer c2)\<rparr>;
          c4 = rb_ot_shape_initialize_masks X c3;
          c5 = c4\<lparr>ctx_buffer := rb_set_unicode_props X (ctx_buffer c4)\<rparr>;
          c6 = c5\<lparr>ctx_buffer := rb_insert_dotted_circle X (ctx_buffer c5) (ctx_face c5)\<rparr>;
          c7 = c6\<lparr>ctx_buffer := rb_form_clusters X (ctx_buffer c6)\<rparr>;
          c8 = c7\<lparr>ctx_buffer := rb_ensure_native_direction X (ctx_buffer c7)\<rparr>;
          c9 = c8\<lparr>ctx_buffer :=
                   rb_ot_complex_shaper_preprocess_text X (plan_shaper (ctx_plan c8)) (ctx_plan c8)
                     (ctx_buffer c8) (ctx_face c8)\<rparr>;
          c10 = rb_ot_substitute_pre X K c9;
          c11 = rb_ot_position E X K c10;
          c12 = rb_ot_substitute_post X c11;
          c13 = c12\<lparr>ctx_buffer := rb_propagate_flags X (ctx_buffer c12)\<rparr>;
          c14 = c13\<lparr>ctx_buffer := (ctx_buffer c13)\<lparr>buffer_direction := target_direction c13\<rparr>\<rparr>;
          c15 = c14\<lparr>ctx_buffer := (ctx_buffer c14)\<lparr>max_len := RB_BUFFER_MAX_LEN_DEFAULT K\<rparr>\<rparr>
      in c15\<lparr>ctx_buffer := (ctx_buffer c15)\<lparr>max_ops := RB_BUFFER_MAX_OPS_DEFAULT K\<rparr>\<rparr>)"

text \<open>
  Lines 601 to 626 of \<^verbatim>\<open>rb_ot_shape_internal\<close> on their own: what the function does after
  it has set the scratch flags and the two limits.
\<close>

definition rb_ot_shape_internal_pipeline ::
  "rb_plan_extern \<Rightarrow> rb_shape_extern \<Rightarrow> rb_constants \<Rightarrow> rb_ot_shape_context_t
     \<Rightarrow> rb_ot_shape_context_t" where
  "rb_ot_shape_internal_pipeline E X K c =
     (let c2 = c\<lparr>target_direction := buffer_direction (ctx_buffer c)\<rparr>;
          c3 = c2\<lparr>ctx_buffer := rb_buffer_clear_output X (ctx_buffer c2)\<rparr>;
          c4 = rb_ot_shape_initialize_masks X c3;
          c5 = c4\<lparr>ctx_buffer := rb_set_unicode_props X (ctx_buffer c4)\<rparr>;
          c6 = c5\<lparr>ctx_buffer := rb_insert_dotted_circle X (ctx_buffer c5) (ctx_face c5)\<rparr>;
          c7 = c6\<lparr>ctx_buffer := rb_form_clusters X (ctx_buffer c6)\<rparr>;
          c8 = c7\<lparr>ctx_buffer := rb_ensure_native_direction X (ctx_buffer c7)\<rparr>;
          c9 = c8\<lparr>ctx_buffer :=
                   rb_ot_complex_shaper_preprocess_text X (plan_shaper (ctx_plan c8)) (ctx_plan c8)
                     (ctx_buffer c8) (ctx_face c8)\<rparr>;
          c10 = rb_ot_substitute_pre X K c9;
          c11 = rb_ot_position E X K c10;
          c12 = rb_ot_substitute_post X c11;
          c13 = c12\<lparr>ctx_buffer := rb_propagate_flags X (ctx_buffer c12)\<rparr>;
          c14 = c13\<lparr>ctx_buffer := (ctx_buffer c13)\<lparr>buffer_direction := target_direction c13\<rparr>\<rparr>;
          c15 = c14\<lparr>ctx_buffer := (ctx_buffer c14)\<lparr>max_len := RB_BUFFER_MAX_LEN_DEFAULT K\<rparr>\<rparr>
      in c15\<lparr>ctx_buffer := (ctx_buffer c15)\<lparr>max_ops := RB_BUFFER_MAX_OPS_DEFAULT K\<rparr>\<rparr>)"

text \<open>
  \<^verbatim>\<open>rb_ot_shape\<close>: the context is built from the plan, the face, the buffer and the
  features; \<^verbatim>\<open>target_direction\<close> has no initialiser and is zero, which the model writes
  \<open>RB_DIRECTION_INVALID\<close> (it is assigned before it is read). The result is the buffer.
\<close>

definition rb_ot_shape ::
  "rb_plan_extern \<Rightarrow> rb_shape_extern \<Rightarrow> rb_constants \<Rightarrow> rb_ot_shape_plan_t \<Rightarrow> rb_face_t
     \<Rightarrow> rb_buffer_t \<Rightarrow> rb_feature_t list \<Rightarrow> rb_buffer_t" where
  "rb_ot_shape E X K shape_plan face buffer features =
     ctx_buffer (rb_ot_shape_internal E X K
       \<lparr>ctx_plan = shape_plan, ctx_face = face, ctx_buffer = buffer,
        ctx_user_features = features, target_direction = RB_DIRECTION_INVALID\<rparr>)"

subsection \<open>The feature order of the spec\<close>

text \<open>
  The feature collector as the spec words it (section 4.4), written as the calls that
  reach the OpenType map builder before the shaper's collect hook (steps 1 to 6), the
  calls after it (steps 8 to 11) and the user features replayed into the AAT builder
  (step 12). Flags are written as the sets of the spec.
\<close>

definition spec_direction_features :: "rb_direction_t \<Rightarrow> rb_ot_map_builder_call list" where
  "spec_direction_features dir =
     (if dir = RB_DIRECTION_LTR
      then [Enable_feature (RB_TAG CHR ''l'' CHR ''t'' CHR ''r'' CHR ''a'') {} 1,
            Enable_feature (RB_TAG CHR ''l'' CHR ''t'' CHR ''r'' CHR ''m'') {} 1]
      else if dir = RB_DIRECTION_RTL
      then [Enable_feature (RB_TAG CHR ''r'' CHR ''t'' CHR ''l'' CHR ''a'') {} 1,
            Add_feature (RB_TAG CHR ''r'' CHR ''t'' CHR ''l'' CHR ''m'') {} 1]
      else [])"

definition spec_features_before_shaper ::
  "rb_constants \<Rightarrow> rb_direction_t \<Rightarrow> rb_ot_map_builder_call list" where
  "spec_features_before_shaper K dir =
     [Enable_feature (RB_TAG CHR ''r'' CHR ''v'' CHR ''r'' CHR ''n'') {} 1,
      Add_gsub_pause None]
     @ spec_direction_features dir
     @ [Add_feature (RB_TAG CHR ''f'' CHR ''r'' CHR ''a'' CHR ''c'') {} 1,
        Add_feature (RB_TAG CHR ''n'' CHR ''u'' CHR ''m'' CHR ''r'') {} 1,
        Add_feature (RB_TAG CHR ''d'' CHR ''n'' CHR ''o'' CHR ''m'') {} 1,
        Enable_feature (RB_TAG CHR ''r'' CHR ''a'' CHR ''n'' CHR ''d'') {RANDOM} (RB_OT_MAP_MAX_VALUE K),
        Enable_feature (RB_TAG CHR ''t'' CHR ''r'' CHR ''a'' CHR ''k'') {HAS_FALLBACK} 1,
        Enable_feature (RB_TAG CHR ''H'' CHR ''A'' CHR ''R'' CHR ''F'') {} 1]"

definition spec_user_feature :: "rb_constants \<Rightarrow> rb_feature_t \<Rightarrow> rb_ot_map_builder_call" where
  "spec_user_feature K feature =
     Add_feature (feature_tag feature)
       (if feature_start feature = RB_FEATURE_GLOBAL_START K \<and>
           feature_end feature = RB_FEATURE_GLOBAL_END K
        then {GLOBAL} else {})
       (feature_value feature)"

definition spec_features_after_shaper ::
  "rb_constants \<Rightarrow> rb_direction_t \<Rightarrow> rb_feature_t list \<Rightarrow> rb_ot_map_builder_call list" where
  "spec_features_after_shaper K dir user_features =
     [Enable_feature (RB_TAG CHR ''B'' CHR ''U'' CHR ''Z'' CHR ''Z'') {} 1,
      Add_feature (RB_TAG CHR ''a'' CHR ''b'' CHR ''v'' CHR ''m'') {GLOBAL} 1,
      Add_feature (RB_TAG CHR ''b'' CHR ''l'' CHR ''w'' CHR ''m'') {GLOBAL} 1,
      Add_feature (RB_TAG CHR ''c'' CHR ''c'' CHR ''m'' CHR ''p'') {GLOBAL} 1,
      Add_feature (RB_TAG CHR ''l'' CHR ''o'' CHR ''c'' CHR ''l'') {GLOBAL} 1,
      Add_feature (RB_TAG CHR ''m'' CHR ''a'' CHR ''r'' CHR ''k'') {GLOBAL, MANUAL_JOINERS} 1,
      Add_feature (RB_TAG CHR ''m'' CHR ''k'' CHR ''m'' CHR ''k'') {GLOBAL, MANUAL_JOINERS} 1,
      Add_feature (RB_TAG CHR ''r'' CHR ''l'' CHR ''i'' CHR ''g'') {GLOBAL} 1]
     @ (if RB_DIRECTION_IS_HORIZONTAL dir
        then [Add_feature (RB_TAG CHR ''c'' CHR ''a'' CHR ''l'' CHR ''t'') {GLOBAL} 1,
              Add_feature (RB_TAG CHR ''c'' CHR ''l'' CHR ''i'' CHR ''g'') {GLOBAL} 1,
              Add_feature (RB_TAG CHR ''c'' CHR ''u'' CHR ''r'' CHR ''s'') {GLOBAL} 1,
              Add_feature (RB_TAG CHR ''d'' CHR ''i'' CHR ''s'' CHR ''t'') {GLOBAL} 1,
              Add_feature (RB_TAG CHR ''k'' CHR ''e'' CHR ''r'' CHR ''n'') {GLOBAL, HAS_FALLBACK} 1,
              Add_feature (RB_TAG CHR ''l'' CHR ''i'' CHR ''g'' CHR ''a'') {GLOBAL} 1,
              Add_feature (RB_TAG CHR ''r'' CHR ''c'' CHR ''l'' CHR ''t'') {GLOBAL} 1]
        else [Enable_feature (RB_TAG CHR ''v'' CHR ''e'' CHR ''r'' CHR ''t'') {GLOBAL_SEARCH} 1])
     @ map (spec_user_feature K) user_features"

definition spec_aat_replay :: "bool \<Rightarrow> rb_feature_t list \<Rightarrow> (rb_tag_t \<times> 32 word) list" where
  "spec_aat_replay morx user_features =
     (if morx then map (\<lambda>feature. (feature_tag feature, feature_value feature)) user_features else [])"

subsection \<open>Character rotation as the spec words it\<close>

text \<open>
  Section 4.6, step 1, for one glyph. Backward target direction: look the mirror up; if
  it differs from the codepoint and the face has a glyph for it, replace the codepoint;
  otherwise OR \<open>rtlm_mask\<close> into the mask. Vertical target direction without a \<^verbatim>\<open>vert\<close>
  feature: look the vertical form up; if it differs and the face has a glyph for it,
  replace the codepoint.
\<close>

definition spec_mirror_glyph ::
  "rb_shape_extern \<Rightarrow> rb_face_t \<Rightarrow> rb_mask_t \<Rightarrow> rb_glyph_info_t \<Rightarrow> rb_glyph_info_t" where
  "spec_mirror_glyph X face rtlm g =
     (if rb_ucd_mirroring X (codepoint g) \<noteq> codepoint g \<and>
         rb_face_has_glyph face (rb_ucd_mirroring X (codepoint g))
      then g\<lparr>codepoint := rb_ucd_mirroring X (codepoint g)\<rparr>
      else g\<lparr>glyph_mask := glyph_mask g OR rtlm\<rparr>)"

definition spec_vert_glyph :: "rb_shape_extern \<Rightarrow> rb_face_t \<Rightarrow> rb_glyph_info_t \<Rightarrow> rb_glyph_info_t" where
  "spec_vert_glyph X face g =
     (if rb_vert_char_for X (codepoint g) \<noteq> codepoint g \<and>
         rb_face_has_glyph face (rb_vert_char_for X (codepoint g))
      then g\<lparr>codepoint := rb_vert_char_for X (codepoint g)\<rparr>
      else g)"

subsection \<open>Fraction spans as the spec words them\<close>

text \<open>
  Section 4.5. For an occurrence of U+2044 at index \<open>i\<close>: expand left while the previous
  glyph has general category DECIMAL_NUMBER to find \<open>start\<close>, expand right likewise to
  find \<open>end\<close>; mark \<open>[start, end)\<close> unsafe to break; apply \<open>pre\<close> to \<open>[start, i)\<close>, \<open>frac\<close> to
  \<open>i\<close> and \<open>post\<close> to \<open>(i, end)\<close>; go on at \<open>end\<close> (the scan is set to \<open>end - 1\<close> and steps).
  The widening is written with \<open>takeWhile\<close> over the glyphs before and after \<open>i\<close>, the
  masks as one pass over the glyphs with their indices.
\<close>

definition is_decimal_number :: "rb_shape_extern \<Rightarrow> rb_constants \<Rightarrow> rb_glyph_info_t \<Rightarrow> bool" where
  "is_decimal_number X K g =
     (rb_glyph_info_get_general_category X g = RB_UNICODE_GENERAL_CATEGORY_DECIMAL_NUMBER K)"

definition spec_fraction_start ::
  "rb_shape_extern \<Rightarrow> rb_constants \<Rightarrow> rb_glyph_info_t list \<Rightarrow> nat \<Rightarrow> nat" where
  "spec_fraction_start X K infos i =
     i - length (takeWhile (is_decimal_number X K) (rev (take i infos)))"

definition spec_fraction_end ::
  "rb_shape_extern \<Rightarrow> rb_constants \<Rightarrow> rb_glyph_info_t list \<Rightarrow> nat \<Rightarrow> nat" where
  "spec_fraction_end X K infos i =
     i + 1 + length (takeWhile (is_decimal_number X K) (drop (i + 1) infos))"

definition spec_fraction_masks ::
  "rb_mask_t \<Rightarrow> rb_mask_t \<Rightarrow> rb_mask_t \<Rightarrow> nat \<Rightarrow> nat \<Rightarrow> nat \<Rightarrow> rb_glyph_info_t list
     \<Rightarrow> rb_glyph_info_t list" where
  "spec_fraction_masks pre_mask fracm post_mask start i e infos =
     map (\<lambda>(k, g).
            if start \<le> k \<and> k < i then g\<lparr>glyph_mask := glyph_mask g OR pre_mask\<rparr>
            else if k = i then g\<lparr>glyph_mask := glyph_mask g OR fracm\<rparr>
            else if i < k \<and> k < e then g\<lparr>glyph_mask := glyph_mask g OR post_mask\<rparr>
            else g)
       (enumerate 0 infos)"

definition spec_fraction_span ::
  "rb_shape_extern \<Rightarrow> rb_constants \<Rightarrow> rb_mask_t \<Rightarrow> rb_mask_t \<Rightarrow> rb_mask_t \<Rightarrow> nat
     \<Rightarrow> rb_buffer_t \<Rightarrow> nat \<times> rb_buffer_t" where
  "spec_fraction_span X K pre_mask fracm post_mask i buffer =
     (let start = spec_fraction_start X K (info buffer) i;
          e = spec_fraction_end X K (info buffer) i;
          b1 = rb_buffer_unsafe_to_break X buffer start e
      in (e, b1\<lparr>info := spec_fraction_masks pre_mask fracm post_mask start i e (info b1)\<rparr>))"

lemma spec_fraction_span_gt: "i < fst (spec_fraction_span X K pre_mask fracm post_mask i buffer)"
  by (simp add: spec_fraction_span_def Let_def spec_fraction_end_def)

function spec_fraction_scan ::
  "rb_shape_extern \<Rightarrow> rb_constants \<Rightarrow> rb_mask_t \<Rightarrow> rb_mask_t \<Rightarrow> rb_mask_t \<Rightarrow> nat \<Rightarrow> nat
     \<Rightarrow> rb_buffer_t \<Rightarrow> rb_buffer_t" where
  "spec_fraction_scan X K pre_mask fracm post_mask count i buffer =
     (if i < count
      then (if codepoint (info buffer ! i) = 0x2044
            then spec_fraction_scan X K pre_mask fracm post_mask count
                   (fst (spec_fraction_span X K pre_mask fracm post_mask i buffer))
                   (snd (spec_fraction_span X K pre_mask fracm post_mask i buffer))
            else spec_fraction_scan X K pre_mask fracm post_mask count (i + 1) buffer)
      else buffer)"
  by pat_completeness auto
termination
proof (relation "measure (\<lambda>(X, K, pre_mask, fracm, post_mask, count, i, buffer). count - i)",
    goal_cases)
  case 1
  show ?case by simp
next
  case (2 X K pre_mask fracm post_mask count i buffer)
  from spec_fraction_span_gt [of i X K pre_mask fracm post_mask buffer] 2
  show ?case by (cases "spec_fraction_span X K pre_mask fracm post_mask i buffer") simp
next
  case (3 X K pre_mask fracm post_mask count i buffer)
  then show ?case by simp
qed

declare spec_fraction_scan.simps [simp del]

subsection \<open>Concrete instances\<close>

text \<open>
  Concrete constants, faces, maps and external functions, at which the theorems below
  are instantiated. The constants are those of upstream HarfBuzz; no theorem depends on
  their values.
\<close>

definition example_constants :: rb_constants where
  "example_constants =
     \<lparr>RB_OT_MAP_MAX_VALUE = 255,
      RB_OT_LAYOUT_NO_FEATURE_INDEX = 0xFFFF,
      RB_FEATURE_GLOBAL_START = 0,
      RB_FEATURE_GLOBAL_END = 0xFFFFFFFF,
      RB_UNICODE_GENERAL_CATEGORY_DECIMAL_NUMBER = 13,
      RB_BUFFER_SCRATCH_FLAG_DEFAULT = 0,
      RB_BUFFER_SCRATCH_FLAG_HAS_NON_ASCII = 1,
      RB_BUFFER_SCRATCH_FLAG_HAS_SPACE_FALLBACK = 4,
      RB_BUFFER_MAX_LEN_FACTOR = 64,
      RB_BUFFER_MAX_LEN_MIN = 16384,
      RB_BUFFER_MAX_LEN_DEFAULT = 0x3FFFFFFF,
      RB_BUFFER_MAX_OPS_FACTOR = 1024,
      RB_BUFFER_MAX_OPS_MIN = 16384,
      RB_BUFFER_MAX_OPS_DEFAULT = 0x1FFFFFFF\<rparr>"

text \<open>An OpenType face: GSUB, GPOS, a kern table and GDEF glyph classes, no AAT table.\<close>

definition example_face_ot :: rb_face_t where
  "example_face_ot =
     \<lparr>rb_aat_layout_has_substitution = False,
      rb_ot_layout_has_substitution = True,
      rb_aat_layout_has_positioning = False,
      rb_ot_layout_has_positioning = True,
      rb_ot_layout_has_kerning = True,
      rb_ot_layout_has_machine_kerning = False,
      rb_ot_layout_has_cross_kerning = False,
      rb_ot_layout_has_glyph_classes = True,
      rb_aat_layout_has_tracking = False,
      rb_face_has_glyph = (\<lambda>u. True)\<rparr>"

text \<open>An AAT face: morx, kerx and trak, and GSUB as well.\<close>

definition example_face_aat :: rb_face_t where
  "example_face_aat =
     \<lparr>rb_aat_layout_has_substitution = True,
      rb_ot_layout_has_substitution = True,
      rb_aat_layout_has_positioning = True,
      rb_ot_layout_has_positioning = False,
      rb_ot_layout_has_kerning = False,
      rb_ot_layout_has_machine_kerning = False,
      rb_ot_layout_has_cross_kerning = False,
      rb_ot_layout_has_glyph_classes = False,
      rb_aat_layout_has_tracking = True,
      rb_face_has_glyph = (\<lambda>u. True)\<rparr>"

text \<open>
  A face with no layout table at all: nothing positions, so with the example shaper both
  mark policies are on.
\<close>

definition example_face_bare :: rb_face_t where
  "example_face_bare =
     example_face_ot\<lparr>rb_ot_layout_has_substitution := False,
                     rb_ot_layout_has_positioning := False,
                     rb_ot_layout_has_kerning := False,
                     rb_ot_layout_has_glyph_classes := False\<rparr>"

definition example_props :: "rb_direction_t \<Rightarrow> rb_segment_properties_t" where
  "example_props dir = \<lparr>direction = dir, script = 0, language = 0\<rparr>"

text \<open>
  A compiled map with one global bit, no feature mask and no GPOS feature at all (every
  feature index is the constant for none).
\<close>

definition example_map :: rb_ot_map_t where
  "example_map =
     \<lparr>rb_ot_map_get_global_mask = 1,
      rb_ot_map_get_1_mask = (\<lambda>tag. 0),
      rb_ot_map_get_mask = (\<lambda>tag. (0, 0)),
      rb_ot_map_get_feature_index = (\<lambda>table_index tag. 0xFFFF),
      rb_ot_map_get_chosen_script = (\<lambda>table_index. 0)\<rparr>"

text \<open>
  External functions of plan construction: one shaper (number 1) that asks for late
  zeroing and fallback positioning, names no GPOS script, adds no feature and always
  creates its data; the second instance differs in that creating the data fails.
\<close>

definition example_plan_extern :: rb_plan_extern where
  "example_plan_extern =
     \<lparr>rb_ot_shape_complex_categorize = (\<lambda>planner. 1),
      rb_ot_complex_shaper_get_zero_width_marks_mode = (\<lambda>shaper. RB_OT_SHAPE_ZERO_WIDTH_MARKS_BY_GDEF_LATE),
      rb_ot_complex_shaper_get_fallback_position = (\<lambda>shaper. True),
      rb_ot_complex_shaper_reconsider_shaper_if_applying_morx = (\<lambda>shaper. shaper),
      rb_ot_complex_shaper_get_gpos_tag = (\<lambda>shaper. 0),
      rb_ot_complex_shaper_collect_features = (\<lambda>shaper planner. planner_map planner),
      rb_ot_complex_shaper_override_features = (\<lambda>shaper planner. planner_map planner),
      rb_ot_complex_shaper_data_create = (\<lambda>shaper plan. Some 7),
      rb_ot_map_builder_compile = (\<lambda>builder variations_index. example_map),
      aat_map_compile = (\<lambda>builder. 1)\<rparr>"

definition example_plan_extern_failing :: rb_plan_extern where
  "example_plan_extern_failing =
     example_plan_extern\<lparr>rb_ot_complex_shaper_data_create := (\<lambda>shaper plan. None)\<rparr>"

text \<open>
  A shaper whose collect hook adds \<^verbatim>\<open>isol\<close> and whose override hook switches \<^verbatim>\<open>liga\<close> off.
\<close>

definition example_plan_extern_hooks :: rb_plan_extern where
  "example_plan_extern_hooks =
     example_plan_extern
       \<lparr>rb_ot_complex_shaper_collect_features :=
          (\<lambda>shaper planner.
             rb_ot_map_builder_add_feature (planner_map planner)
               (RB_TAG CHR ''i'' CHR ''s'' CHR ''o'' CHR ''l'') F_NONE 1),
        rb_ot_complex_shaper_override_features :=
          (\<lambda>shaper planner.
             rb_ot_map_builder_add_feature (planner_map planner)
               (RB_TAG CHR ''l'' CHR ''i'' CHR ''g'' CHR ''a'') F_NONE 0)\<rparr>"

text \<open>Two user features: \<^verbatim>\<open>smcp\<close> on the glyphs 1 and 2, and \<^verbatim>\<open>ss01\<close> on the whole run.\<close>

definition example_feature_ranged :: rb_feature_t where
  "example_feature_ranged =
     \<lparr>feature_tag = RB_TAG CHR ''s'' CHR ''m'' CHR ''c'' CHR ''p'', feature_value = 1,
      feature_start = 1, feature_end = 3\<rparr>"

definition example_feature_global :: rb_feature_t where
  "example_feature_global =
     \<lparr>feature_tag = RB_TAG CHR ''s'' CHR ''s'' CHR ''0'' CHR ''1'', feature_value = 2,
      feature_start = 0, feature_end = 0xFFFFFFFF\<rparr>"

text \<open>
  External functions of the pipeline that leave the buffer as it is, but for the four
  positioning backends and tracking: each stores its own number in the scratch flags,
  so that an instance shows which one ran. The overflow test is exact. The general
  category of a glyph is read from \<^verbatim>\<open>var2\<close>; \<^verbatim>\<open>(\<close> and \<^verbatim>\<open>)\<close> mirror each other; the fullwidth comma has a vertical form.
\<close>

definition example_shape_extern :: rb_shape_extern where
  "example_shape_extern =
     \<lparr>rb_buffer_clear_output = (\<lambda>buffer. buffer),
      rb_buffer_reset_masks = (\<lambda>buffer m. buffer),
      rb_buffer_set_masks = (\<lambda>buffer v m s e. buffer),
      rb_buffer_unsafe_to_break = (\<lambda>buffer s e. buffer),
      rb_buffer_clear_positions = (\<lambda>buffer. buffer),
      rb_buffer_reverse = (\<lambda>buffer. buffer),
      rb_ucd_mirroring = (\<lambda>u. if u = 0x28 then 0x29 else if u = 0x29 then 0x28 else u),
      rb_vert_char_for = (\<lambda>u. if u = 0xFF0C then 0xFE10 else u),
      rb_glyph_info_get_general_category = (\<lambda>g. var2 g),
      rb_set_unicode_props = (\<lambda>buffer. buffer),
      rb_insert_dotted_circle = (\<lambda>buffer face. buffer),
      rb_form_clusters = (\<lambda>buffer. buffer),
      rb_ensure_native_direction = (\<lambda>buffer. buffer),
      rb_ot_zero_width_default_ignorables = (\<lambda>buffer. buffer),
      rb_ot_hide_default_ignorables = (\<lambda>buffer face. buffer),
      rb_ot_map_glyphs_fast = (\<lambda>buffer. buffer),
      rb_synthesize_glyph_classes = (\<lambda>buffer. buffer),
      rb_zero_mark_widths_by_gdef = (\<lambda>buffer adjust. buffer),
      rb_propagate_flags = (\<lambda>buffer. buffer),
      rb_ot_shape_normalize = (\<lambda>plan buffer face. buffer),
      rb_ot_shape_fallback_mark_position = (\<lambda>plan face buffer adjust. buffer),
      rb_ot_shape_fallback_mark_position_recategorize_marks = (\<lambda>plan face buffer. buffer),
      rb_ot_shape_fallback_kern = (\<lambda>plan face buffer. buffer\<lparr>scratch_flags := 0x400\<rparr>),
      rb_ot_shape_fallback_spaces = (\<lambda>plan face buffer. buffer),
      rb_ot_layout_substitute_start = (\<lambda>face buffer. buffer),
      rb_aat_layout_substitute = (\<lambda>plan face buffer. buffer),
      rb_ot_layout_substitute = (\<lambda>plan m face buffer. buffer),
      rb_aat_layout_remove_deleted_glyphs = (\<lambda>buffer. buffer),
      rb_ot_layout_position_start = (\<lambda>face buffer. buffer),
      rb_ot_layout_position = (\<lambda>plan m face buffer. buffer\<lparr>scratch_flags := 0x100\<rparr>),
      rb_aat_layout_position = (\<lambda>plan face buffer. buffer\<lparr>scratch_flags := 0x200\<rparr>),
      rb_ot_layout_kern = (\<lambda>plan face buffer. buffer\<lparr>scratch_flags := 0x300\<rparr>),
      rb_aat_layout_track = (\<lambda>plan face buffer. buffer\<lparr>scratch_flags := scratch_flags buffer + 1\<rparr>),
      rb_ot_layout_position_finish_advances = (\<lambda>face buffer. buffer),
      rb_aat_layout_zero_width_deleted_glyphs = (\<lambda>buffer. buffer),
      rb_ot_layout_position_finish_offsets = (\<lambda>face buffer. buffer),
      rb_face_get_glyph_h_advances = (\<lambda>face count infos poss. poss),
      rb_face_get_glyph_v_advances = (\<lambda>face count infos poss. poss),
      rb_face_subtract_glyph_v_origin = (\<lambda>face u xy. xy),
      rb_ot_complex_shaper_setup_masks = (\<lambda>shaper plan buffer face. buffer),
      rb_ot_complex_shaper_preprocess_text = (\<lambda>shaper plan buffer face. buffer),
      rb_ot_complex_shaper_postprocess_glyphs = (\<lambda>shaper plan buffer face. buffer),
      rb_unsigned_mul_overflows = (\<lambda>count sz. 2 ^ 32 \<le> unat count * unat sz)\<rparr>"

definition example_glyph :: "rb_codepoint_t \<Rightarrow> 32 word \<Rightarrow> rb_glyph_info_t" where
  "example_glyph u category =
     \<lparr>codepoint = u, glyph_mask = 1, cluster = 0, var1 = 0, var2 = category\<rparr>"

definition example_buffer :: "rb_direction_t \<Rightarrow> rb_glyph_info_t list \<Rightarrow> rb_buffer_t" where
  "example_buffer dir infos =
     \<lparr>info = infos,
      pos = map (\<lambda>g. \<lparr>x_advance = 0, y_advance = 0, x_offset = 0, y_offset = 0, pos_var = 0\<rparr>) infos,
      buffer_direction = dir, scratch_flags = 1, max_len = 0x3FFFFFFF, max_ops = 0x1FFFFFFF\<rparr>"

text \<open>
  A plan for the pipeline instances: the zeroed plan with one bit each for \<^verbatim>\<open>rtlm\<close>,
  \<^verbatim>\<open>frac\<close>, \<^verbatim>\<open>numr\<close> and \<^verbatim>\<open>dnom\<close>, and no \<^verbatim>\<open>vert\<close> feature.
\<close>

definition example_plan :: "rb_direction_t \<Rightarrow> rb_ot_shape_plan_t" where
  "example_plan dir =
     (zeroed_plan (example_props dir) example_map)
       \<lparr>plan_shaper := 1, rtlm_mask := 2, frac_mask := 4, numr_mask := 8, dnom_mask := 16,
        has_frac := True\<rparr>"

definition example_context :: "rb_direction_t \<Rightarrow> rb_glyph_info_t list \<Rightarrow> rb_ot_shape_context_t" where
  "example_context dir infos =
     \<lparr>ctx_plan = example_plan dir, ctx_face = example_face_ot,
      ctx_buffer = example_buffer dir infos, ctx_user_features = [],
      target_direction = dir\<rparr>"

text \<open>
  Pipeline functions as above, except that \<^verbatim>\<open>rb_ensure_native_direction\<close> turns the buffer
  to left-to-right and \<^verbatim>\<open>rb_propagate_flags\<close> leaves other limits behind.
\<close>

definition example_shape_extern_native :: rb_shape_extern where
  "example_shape_extern_native =
     example_shape_extern
       \<lparr>rb_ensure_native_direction := (\<lambda>buffer. buffer\<lparr>buffer_direction := RB_DIRECTION_LTR\<rparr>),
        rb_propagate_flags := (\<lambda>buffer. buffer\<lparr>max_len := 5, max_ops := 6\<rparr>)\<rparr>"

text \<open>
  Pipeline functions as in the first instance, except that \<^verbatim>\<open>rb_set_unicode_props\<close> records
  the two limits it sees in every glyph: \<open>max_len\<close> in \<^verbatim>\<open>var1\<close> and \<open>max_ops\<close> in \<^verbatim>\<open>cluster\<close>.
\<close>

definition example_shape_extern_observing :: rb_shape_extern where
  "example_shape_extern_observing =
     example_shape_extern
       \<lparr>rb_set_unicode_props :=
          (\<lambda>buffer. buffer\<lparr>info := map (\<lambda>g. g\<lparr>var1 := max_len buffer, cluster := max_ops buffer\<rparr>)
                                        (info buffer)\<rparr>)\<rparr>"

section \<open>Properties\<close>

subsection \<open>The blocks of the plan compiler in closed form\<close>

lemma compile_maps_eq:
  "compile_maps E planner plan vi =
     plan\<lparr>plan_props := planner_props planner,
          plan_shaper := planner_shaper planner,
          plan_map := rb_ot_map_builder_compile E (planner_map planner) vi,
          plan_aat_map := (if planner_apply_morx planner
                           then aat_map_compile E (planner_aat_map planner)
                           else plan_aat_map plan)\<rparr>"
  by (simp add: compile_maps_def Let_def)

lemma compile_char_masks_eq:
  "compile_char_masks plan =
     plan\<lparr>frac_mask := rb_ot_map_get_1_mask (plan_map plan) (RB_TAG CHR ''f'' CHR ''r'' CHR ''a'' CHR ''c''),
          numr_mask := rb_ot_map_get_1_mask (plan_map plan) (RB_TAG CHR ''n'' CHR ''u'' CHR ''m'' CHR ''r''),
          dnom_mask := rb_ot_map_get_1_mask (plan_map plan) (RB_TAG CHR ''d'' CHR ''n'' CHR ''o'' CHR ''m''),
          has_frac := (rb_ot_map_get_1_mask (plan_map plan) (RB_TAG CHR ''f'' CHR ''r'' CHR ''a'' CHR ''c'') \<noteq> 0 \<or>
                       (rb_ot_map_get_1_mask (plan_map plan) (RB_TAG CHR ''n'' CHR ''u'' CHR ''m'' CHR ''r'') \<noteq> 0 \<and>
                        rb_ot_map_get_1_mask (plan_map plan) (RB_TAG CHR ''d'' CHR ''n'' CHR ''o'' CHR ''m'') \<noteq> 0)),
          rtlm_mask := rb_ot_map_get_1_mask (plan_map plan) (RB_TAG CHR ''r'' CHR ''t'' CHR ''l'' CHR ''m''),
          has_vert := (rb_ot_map_get_1_mask (plan_map plan) (RB_TAG CHR ''v'' CHR ''e'' CHR ''r'' CHR ''t'') \<noteq> 0)\<rparr>"
  by (simp add: compile_char_masks_def Let_def)

lemma compile_kern_masks_eq:
  "compile_kern_masks kern_tag plan =
     plan\<lparr>kern_mask := fst (rb_ot_map_get_mask (plan_map plan) kern_tag),
          requested_kerning := (fst (rb_ot_map_get_mask (plan_map plan) kern_tag) \<noteq> 0),
          trak_mask := fst (rb_ot_map_get_mask (plan_map plan) (RB_TAG CHR ''t'' CHR ''r'' CHR ''a'' CHR ''k'')),
          requested_tracking :=
            (fst (rb_ot_map_get_mask (plan_map plan) (RB_TAG CHR ''t'' CHR ''r'' CHR ''a'' CHR ''k'')) \<noteq> 0)\<rparr>"
  by (simp add: compile_kern_masks_def Let_def)

lemma compile_substitution_eq:
  "compile_substitution face morx plan =
     plan\<lparr>fallback_glyph_classes := (\<not> rb_ot_layout_has_glyph_classes face \<or> fallback_glyph_classes plan),
          apply_morx := morx\<rparr>"
  by (cases plan) (simp add: compile_substitution_def Let_def)

lemma compile_positioning_eq:
  "compile_positioning face morx hgk dg plan =
     plan\<lparr>apply_kerx := (apply_kerx plan \<or> rb_aat_layout_has_positioning face),
          apply_gpos := (apply_gpos plan \<or>
                         (\<not> rb_aat_layout_has_positioning face \<and> \<not> morx \<and> \<not> dg \<and>
                          rb_ot_layout_has_positioning face)),
          apply_kern := (apply_kern plan \<or>
                         (\<not> rb_aat_layout_has_positioning face \<and> \<not> apply_kerx plan \<and>
                          rb_ot_layout_has_kerning face \<and>
                          \<not> (hgk \<and> (apply_gpos plan \<or>
                                (\<not> morx \<and> \<not> dg \<and> rb_ot_layout_has_positioning face)))))\<rparr>"
  by (cases plan) (auto simp add: compile_positioning_def Let_def)

lemma compile_mark_policies_eq:
  "compile_mark_policies face planner plan =
     plan\<lparr>zero_marks :=
            (script_zero_marks planner \<and> \<not> apply_kerx plan \<and>
             (\<not> apply_kern plan \<or> \<not> rb_ot_layout_has_machine_kerning face)),
          has_gpos_mark :=
            (rb_ot_map_get_1_mask (plan_map plan) (RB_TAG CHR ''m'' CHR ''a'' CHR ''r'' CHR ''k'') \<noteq> 0),
          adjust_mark_positioning_when_zeroing :=
            (\<not> apply_gpos plan \<and> \<not> apply_kerx plan \<and>
             (\<not> apply_kern plan \<or> \<not> rb_ot_layout_has_cross_kerning face)),
          fallback_mark_positioning :=
            ((\<not> apply_gpos plan \<and> \<not> apply_kerx plan \<and>
              (\<not> apply_kern plan \<or> \<not> rb_ot_layout_has_cross_kerning face)) \<and>
             script_fallback_mark_positioning planner),
          apply_trak := (requested_tracking plan \<and> rb_aat_layout_has_tracking face)\<rparr>"
  by (simp add: compile_mark_policies_def Let_def)

lemmas compile_blocks =
  compile_maps_eq compile_char_masks_eq compile_kern_masks_eq compile_substitution_eq
  compile_positioning_eq compile_mark_policies_eq

lemma compile_plan_shaper:
  "plan_shaper (compile E K planner plan vi) = planner_shaper planner"
  by (simp add: compile_def Let_def compile_blocks)

lemma compile_plan_map:
  "plan_map (compile E K planner plan vi) = rb_ot_map_builder_compile E (planner_map planner) vi"
  by (simp add: compile_def Let_def compile_blocks)

lemma compile_apply_morx:
  "apply_morx (compile E K planner plan vi) = planner_apply_morx planner"
  by (simp add: compile_def Let_def compile_blocks)

lemma compile_has_gpos_kern_compile:
  "compile_has_gpos_kern K tag (compile E K' planner plan vi) =
     (rb_ot_map_get_feature_index (rb_ot_map_builder_compile E (planner_map planner) vi) 1 tag
        \<noteq> RB_OT_LAYOUT_NO_FEATURE_INDEX K)"
  by (simp add: compile_has_gpos_kern_def compile_plan_map)

lemma compile_disable_gpos_compile:
  "compile_disable_gpos E (compile E K planner plan vi) =
     (rb_ot_complex_shaper_get_gpos_tag E (planner_shaper planner) \<noteq> 0 \<and>
      rb_ot_complex_shaper_get_gpos_tag E (planner_shaper planner) \<noteq>
        rb_ot_map_get_chosen_script (rb_ot_map_builder_compile E (planner_map planner) vi) 1)"
  by (simp add: compile_disable_gpos_def Let_def compile_plan_map compile_plan_shaper)

lemma compile_apply_kerx_eq:
  "apply_kerx (compile E K planner plan vi) =
     (apply_kerx plan \<or> rb_aat_layout_has_positioning (planner_face planner))"
  by (simp add: compile_def Let_def compile_blocks)

lemma compile_apply_gpos_eq:
  "apply_gpos (compile E K planner plan vi) =
     (apply_gpos plan \<or>
      (\<not> rb_aat_layout_has_positioning (planner_face planner) \<and> \<not> planner_apply_morx planner \<and>
       \<not> compile_disable_gpos E (compile E K planner plan vi) \<and>
       rb_ot_layout_has_positioning (planner_face planner)))"
  unfolding compile_disable_gpos_compile
  by (simp add: compile_def Let_def compile_blocks compile_disable_gpos_def)

lemma compile_apply_kern_eq:
  "apply_kern (compile E K planner plan vi) =
     (apply_kern plan \<or>
      (\<not> rb_aat_layout_has_positioning (planner_face planner) \<and> \<not> apply_kerx plan \<and>
       rb_ot_layout_has_kerning (planner_face planner) \<and>
       \<not> (compile_has_gpos_kern K (compile_kern_tag (planner_props planner))
             (compile E K planner plan vi) \<and>
           apply_gpos (compile E K planner plan vi))))"
  unfolding compile_apply_gpos_eq compile_disable_gpos_compile compile_has_gpos_kern_compile
  by (auto simp add: compile_def Let_def compile_blocks compile_disable_gpos_def
        compile_has_gpos_kern_def)

lemma compile_adjust_eq:
  "adjust_mark_positioning_when_zeroing (compile E K planner plan vi) =
     (\<not> apply_gpos (compile E K planner plan vi) \<and> \<not> apply_kerx (compile E K planner plan vi) \<and>
      (\<not> apply_kern (compile E K planner plan vi) \<or>
       \<not> rb_ot_layout_has_cross_kerning (planner_face planner)))"
  by (auto simp add: compile_def Let_def compile_blocks)

lemma compile_fallback_eq:
  "fallback_mark_positioning (compile E K planner plan vi) =
     (adjust_mark_positioning_when_zeroing (compile E K planner plan vi) \<and>
      script_fallback_mark_positioning planner)"
  by (auto simp add: compile_def Let_def compile_blocks)

subsection \<open>What the constructor and the feature collector leave alone\<close>

lemma planner_create_face [simp]:
  "planner_face (rb_ot_shape_planner_create E face props) = face"
  by (simp add: rb_ot_shape_planner_create_def rb_ot_shape_planner_members_def Let_def)

lemma planner_create_props [simp]:
  "planner_props (rb_ot_shape_planner_create E face props) = props"
  by (simp add: rb_ot_shape_planner_create_def rb_ot_shape_planner_members_def Let_def)

lemma planner_create_map [simp]:
  "planner_map (rb_ot_shape_planner_create E face props) = rb_ot_map_builder_create face props"
  by (simp add: rb_ot_shape_planner_create_def rb_ot_shape_planner_members_def Let_def)

lemma planner_create_apply_morx [simp]:
  "planner_apply_morx (rb_ot_shape_planner_create E face props) = rb_apply_morx face props"
  by (simp add: rb_ot_shape_planner_create_def rb_ot_shape_planner_members_def Let_def)

lemma planner_create_fallback [simp]:
  "script_fallback_mark_positioning (rb_ot_shape_planner_create E face props) =
     rb_ot_complex_shaper_get_fallback_position E
       (rb_ot_shape_complex_categorize E (rb_ot_shape_planner_members face props))"
  by (simp add: rb_ot_shape_planner_create_def Let_def)

lemma collect_features_face [simp]:
  "planner_face (rb_ot_shape_collect_features E K planner ufs) = planner_face planner"
  by (simp add: rb_ot_shape_collect_features_def Let_def)

lemma collect_features_props [simp]:
  "planner_props (rb_ot_shape_collect_features E K planner ufs) = planner_props planner"
  by (simp add: rb_ot_shape_collect_features_def Let_def)

lemma collect_features_apply_morx [simp]:
  "planner_apply_morx (rb_ot_shape_collect_features E K planner ufs) = planner_apply_morx planner"
  by (simp add: rb_ot_shape_collect_features_def Let_def)

lemma collect_features_shaper [simp]:
  "planner_shaper (rb_ot_shape_collect_features E K planner ufs) = planner_shaper planner"
  by (simp add: rb_ot_shape_collect_features_def Let_def)

lemma collect_features_fallback [simp]:
  "script_fallback_mark_positioning (rb_ot_shape_collect_features E K planner ufs) =
     script_fallback_mark_positioning planner"
  by (simp add: rb_ot_shape_collect_features_def Let_def)

subsection \<open>The morx decision\<close>

text \<open>
  Claim C2. For every face and segment properties, the planner's morx decision equals:
  the face has AAT substitution and (the direction is horizontal or the face has no
  OpenType GSUB substitution). The plan that \<open>init0\<close> compiles carries the same value, on
  success and on failure; so if the direction is not horizontal and the face has GSUB,
  the compiled plan has \<open>apply_morx = False\<close>.
\<close>

theorem morx_decision:
  "planner_apply_morx (rb_ot_shape_planner_create E face props) =
     (rb_aat_layout_has_substitution face \<and>
      (RB_DIRECTION_IS_HORIZONTAL (direction props) \<or> \<not> rb_ot_layout_has_substitution face))
   \<and> apply_morx (fst (snd (init0 E K this face props user_features vi))) =
     (rb_aat_layout_has_substitution face \<and>
      (RB_DIRECTION_IS_HORIZONTAL (direction props) \<or> \<not> rb_ot_layout_has_substitution face))
   \<and> (\<not> RB_DIRECTION_IS_HORIZONTAL (direction props) \<and> rb_ot_layout_has_substitution face
        \<longrightarrow> \<not> apply_morx (fst (snd (init0 E K this face props user_features vi))))"
proof -
  let ?P = "compile E K
              (rb_ot_shape_collect_features E K (rb_ot_shape_planner_create E face props) user_features)
              this vi"
  have plan: "apply_morx (fst (snd (init0 E K this face props user_features vi))) = apply_morx ?P"
    by (simp add: init0_def Let_def split: option.split)
  have "apply_morx ?P = rb_apply_morx face props"
    by (simp add: compile_apply_morx)
  with plan show ?thesis
    by (simp add: rb_apply_morx_def)
qed

theorem morx_decision_witness:
  "\<not> RB_DIRECTION_IS_HORIZONTAL (direction (example_props RB_DIRECTION_TTB))
   \<and> rb_ot_layout_has_substitution example_face_aat
   \<and> \<not> apply_morx (fst (snd (init0 example_plan_extern example_constants
                                (zeroed_plan (example_props RB_DIRECTION_TTB) example_map)
                                example_face_aat (example_props RB_DIRECTION_TTB) [] [])))
   \<and> planner_apply_morx (rb_ot_shape_planner_create example_plan_extern example_face_aat
                           (example_props RB_DIRECTION_LTR))"
  using morx_decision [of example_plan_extern example_face_aat "example_props RB_DIRECTION_TTB"
      example_constants "zeroed_plan (example_props RB_DIRECTION_TTB) example_map" "[]" "[]"]
    morx_decision [of example_plan_extern example_face_aat "example_props RB_DIRECTION_LTR"
      example_constants "zeroed_plan (example_props RB_DIRECTION_LTR) example_map" "[]" "[]"]
  by (simp add: example_props_def example_face_aat_def)

subsection \<open>The mark policies\<close>

text \<open>
  Claim C4. For every face and segment properties, after compile:
  \<open>adjust_mark_positioning_when_zeroing\<close> equals (not \<open>apply_gpos\<close>) and (not \<open>apply_kerx\<close>)
  and (not \<open>apply_kern\<close> or the face lacks OpenType cross-stream kerning);
  \<open>fallback_mark_positioning\<close> equals \<open>adjust_mark_positioning_when_zeroing\<close> and the
  shaper's fallback-position flag, which the planner recorded in
  \<open>script_fallback_mark_positioning\<close> from the shaper that categorisation chose; hence
  \<open>fallback_mark_positioning\<close> implies \<open>adjust_mark_positioning_when_zeroing\<close> on every
  compiled plan (invariant I4).
\<close>

theorem mark_policies:
  "adjust_mark_positioning_when_zeroing (compile E K planner plan vi) =
     (\<not> apply_gpos (compile E K planner plan vi) \<and> \<not> apply_kerx (compile E K planner plan vi) \<and>
      (\<not> apply_kern (compile E K planner plan vi) \<or>
       \<not> rb_ot_layout_has_cross_kerning (planner_face planner)))
   \<and> fallback_mark_positioning (compile E K planner plan vi) =
     (adjust_mark_positioning_when_zeroing (compile E K planner plan vi) \<and>
      script_fallback_mark_positioning planner)
   \<and> script_fallback_mark_positioning
       (rb_ot_shape_collect_features E K (rb_ot_shape_planner_create E face props) user_features) =
     rb_ot_complex_shaper_get_fallback_position E
       (rb_ot_shape_complex_categorize E (rb_ot_shape_planner_members face props))
   \<and> (fallback_mark_positioning (compile E K planner plan vi)
        \<longrightarrow> adjust_mark_positioning_when_zeroing (compile E K planner plan vi))"
proof -
  have "fallback_mark_positioning (compile E K planner plan vi) =
          (adjust_mark_positioning_when_zeroing (compile E K planner plan vi) \<and>
           script_fallback_mark_positioning planner)"
    by (rule compile_fallback_eq)
  moreover have "adjust_mark_positioning_when_zeroing (compile E K planner plan vi) =
     (\<not> apply_gpos (compile E K planner plan vi) \<and> \<not> apply_kerx (compile E K planner plan vi) \<and>
      (\<not> apply_kern (compile E K planner plan vi) \<or>
       \<not> rb_ot_layout_has_cross_kerning (planner_face planner)))"
    by (rule compile_adjust_eq)
  ultimately show ?thesis by simp
qed

theorem mark_policies_witness:
  "fallback_mark_positioning
     (compile example_plan_extern example_constants
        (rb_ot_shape_collect_features example_plan_extern example_constants
           (rb_ot_shape_planner_create example_plan_extern example_face_bare
              (example_props RB_DIRECTION_LTR)) [])
        (zeroed_plan (example_props RB_DIRECTION_LTR) example_map) [])
   \<and> adjust_mark_positioning_when_zeroing
     (compile example_plan_extern example_constants
        (rb_ot_shape_collect_features example_plan_extern example_constants
           (rb_ot_shape_planner_create example_plan_extern example_face_bare
              (example_props RB_DIRECTION_LTR)) [])
        (zeroed_plan (example_props RB_DIRECTION_LTR) example_map) [])"
proof -
  let ?planner = "rb_ot_shape_collect_features example_plan_extern example_constants
           (rb_ot_shape_planner_create example_plan_extern example_face_bare
              (example_props RB_DIRECTION_LTR)) []"
  let ?P = "compile example_plan_extern example_constants ?planner
              (zeroed_plan (example_props RB_DIRECTION_LTR) example_map) []"
  note m = mark_policies [of example_plan_extern example_constants ?planner
      "zeroed_plan (example_props RB_DIRECTION_LTR) example_map" "[]"
      example_face_bare "example_props RB_DIRECTION_LTR" "[]"]
  have flags: "\<not> apply_gpos ?P" "\<not> apply_kerx ?P" "\<not> apply_kern ?P"
    by (simp_all add: compile_apply_gpos_eq compile_apply_kerx_eq compile_apply_kern_eq
        zeroed_plan_def example_face_bare_def example_face_ot_def)
  have "script_fallback_mark_positioning ?planner"
    by (simp add: example_plan_extern_def)
  with m flags show ?thesis by simp
qed

subsection \<open>The kerx decision\<close>

text \<open>
  Claim C10. For every face and segment properties, after compile of a zeroed plan the
  plan satisfies \<open>apply_kerx = aat_has_positioning(face)\<close>: the decision depends on the
  face's AAT positioning alone. The block that decides positioning gives this value
  whatever \<open>apply_morx\<close>, \<open>has_gpos_kern\<close> and \<open>disable_gpos\<close> are and whatever \<open>apply_gpos\<close>
  and \<open>apply_kern\<close> were, so the re-election never changes what the first election set.
\<close>

theorem kerx_decision:
  "\<not> apply_kerx plan \<Longrightarrow>
     apply_kerx (compile E K planner plan vi) = rb_aat_layout_has_positioning (planner_face planner)
   \<and> apply_kerx (compile_positioning face morx has_gpos_kern disable_gpos plan) =
       rb_aat_layout_has_positioning face"
  by (simp add: compile_apply_kerx_eq compile_positioning_eq)

theorem kerx_decision_witness:
  "\<not> apply_kerx (zeroed_plan (example_props RB_DIRECTION_LTR) example_map)
   \<and> apply_kerx
       (compile example_plan_extern example_constants
          (rb_ot_shape_planner_create example_plan_extern example_face_aat
             (example_props RB_DIRECTION_LTR))
          (zeroed_plan (example_props RB_DIRECTION_LTR) example_map) [])
   \<and> \<not> apply_kerx
       (compile example_plan_extern example_constants
          (rb_ot_shape_planner_create example_plan_extern example_face_ot
             (example_props RB_DIRECTION_LTR))
          (zeroed_plan (example_props RB_DIRECTION_LTR) example_map) [])"
proof -
  have z: "\<not> apply_kerx (zeroed_plan (example_props RB_DIRECTION_LTR) example_map)"
    by (simp add: zeroed_plan_def)
  from kerx_decision [OF z, of example_plan_extern example_constants
      "rb_ot_shape_planner_create example_plan_extern example_face_aat (example_props RB_DIRECTION_LTR)"
      "[]" example_face_aat True True True]
    kerx_decision [OF z, of example_plan_extern example_constants
      "rb_ot_shape_planner_create example_plan_extern example_face_ot (example_props RB_DIRECTION_LTR)"
      "[]" example_face_ot True True True]
    z
  show ?thesis by (simp add: example_face_aat_def example_face_ot_def)
qed

subsection \<open>The positioning backends\<close>

text \<open>
  Claim C1, as the spec states it: at most one positioning backend is active on a
  compiled plan, with the priority kerx over GPOS over kern over fallback kerning, and
  the dispatch gives kerx priority over GPOS when both flags are set. It fails twice on
  the code. For the OpenType example face, whose compiled map has no GPOS kern feature,
  the compiled plan has both \<open>apply_gpos\<close> and \<open>apply_kern\<close> set. And on a plan with both
  \<open>apply_gpos\<close> and \<open>apply_kerx\<close> set, \<open>position\<close> runs the GPOS backend (which leaves
  \<open>0x100\<close> in the example) and not kerx (\<open>0x200\<close>).
\<close>

theorem positioning_backends_counterexample:
  "apply_gpos
     (compile example_plan_extern example_constants
        (rb_ot_shape_planner_create example_plan_extern example_face_ot (example_props RB_DIRECTION_LTR))
        (zeroed_plan (example_props RB_DIRECTION_LTR) example_map) [])
   \<and> apply_kern
     (compile example_plan_extern example_constants
        (rb_ot_shape_planner_create example_plan_extern example_face_ot (example_props RB_DIRECTION_LTR))
        (zeroed_plan (example_props RB_DIRECTION_LTR) example_map) [])
   \<and> scratch_flags
       (position example_shape_extern
          ((zeroed_plan (example_props RB_DIRECTION_LTR) example_map)
             \<lparr>apply_gpos := True, apply_kerx := True\<rparr>)
          example_face_ot (example_buffer RB_DIRECTION_LTR [])) = 0x100"
proof -
  have "rb_ot_complex_shaper_get_gpos_tag example_plan_extern s = 0" for s
    by (simp add: example_plan_extern_def)
  moreover have
    "rb_ot_map_get_feature_index (rb_ot_map_builder_compile example_plan_extern b v) 1 t =
       RB_OT_LAYOUT_NO_FEATURE_INDEX example_constants" for b v t
    by (simp add: example_plan_extern_def example_map_def example_constants_def)
  moreover have "rb_apply_morx example_face_ot p = False" for p
    by (simp add: rb_apply_morx_def example_face_ot_def)
  moreover have
    "scratch_flags
       (position example_shape_extern
          ((zeroed_plan (example_props RB_DIRECTION_LTR) example_map)
             \<lparr>apply_gpos := True, apply_kerx := True\<rparr>)
          example_face_ot (example_buffer RB_DIRECTION_LTR [])) = 0x100"
    by (simp add: position_def Let_def zeroed_plan_def example_shape_extern_def)
  ultimately show ?thesis
    by (simp add: compile_apply_gpos_eq compile_apply_kern_eq compile_disable_gpos_compile
        compile_has_gpos_kern_compile zeroed_plan_def example_face_ot_def)
qed

text \<open>
  Claim C1, amended. On the plan compiled from a zeroed plan, \<open>apply_kerx\<close> is never set
  together with \<open>apply_gpos\<close> or with \<open>apply_kern\<close> (the re-election cannot elect kerx: it
  runs only when \<open>apply_kerx\<close> is unset, and then the face has no AAT positioning);
  \<open>apply_gpos\<close> and \<open>apply_kern\<close> are both set exactly when GPOS is elected, its map has
  no kern feature and the face has a kern table. On every plan, compiled or not,
  \<open>position\<close> runs exactly one backend and tests the flags in the order \<open>apply_gpos\<close>,
  \<open>apply_kerx\<close>, \<open>apply_kern\<close>, fallback kerning (then tracking, if \<open>apply_trak\<close>): the last
  conjunct is the dispatch for an arbitrary plan. On a compiled plan that is kerx when the
  face has AAT positioning, else GPOS when elected, else kern when elected, else fallback
  kerning.
\<close>

theorem positioning_backends:
  assumes "\<not> apply_gpos plan" and "\<not> apply_kerx plan" and "\<not> apply_kern plan"
  shows "\<not> (apply_kerx (compile E K planner plan vi) \<and> apply_gpos (compile E K planner plan vi))
   \<and> \<not> (apply_kerx (compile E K planner plan vi) \<and> apply_kern (compile E K planner plan vi))
   \<and> (apply_gpos (compile E K planner plan vi) \<and> apply_kern (compile E K planner plan vi)) =
       (apply_gpos (compile E K planner plan vi) \<and>
        \<not> compile_has_gpos_kern K (compile_kern_tag (planner_props planner))
            (compile E K planner plan vi) \<and>
        rb_ot_layout_has_kerning (planner_face planner))
   \<and> position X (compile E K planner plan vi) face buffer =
       (let P = compile E K planner plan vi;
            b1 = (if rb_aat_layout_has_positioning (planner_face planner)
                  then rb_aat_layout_position X P face buffer
                  else if apply_gpos P
                  then rb_ot_layout_position X P (plan_map P) face buffer
                  else if apply_kern P
                  then rb_ot_layout_kern X P face buffer
                  else rb_ot_shape_fallback_kern X P face buffer)
        in if apply_trak P then rb_aat_layout_track X P face b1 else b1)
   \<and> position X (this\<lparr>apply_gpos := True\<rparr>) face buffer =
       (let P = this\<lparr>apply_gpos := True\<rparr>;
            b1 = rb_ot_layout_position X P (plan_map P) face buffer
        in if apply_trak P then rb_aat_layout_track X P face b1 else b1)
   \<and> position X this face buffer =
       (let b1 = (if apply_gpos this
                  then rb_ot_layout_position X this (plan_map this) face buffer
                  else if apply_kerx this
                  then rb_aat_layout_position X this face buffer
                  else if apply_kern this
                  then rb_ot_layout_kern X this face buffer
                  else rb_ot_shape_fallback_kern X this face buffer)
        in if apply_trak this then rb_aat_layout_track X this face b1 else b1)"
proof -
  let ?P = "compile E K planner plan vi"
  have kerx: "apply_kerx ?P = rb_aat_layout_has_positioning (planner_face planner)"
    using assms by (simp add: compile_apply_kerx_eq)
  have gpos: "apply_gpos ?P \<Longrightarrow> \<not> rb_aat_layout_has_positioning (planner_face planner)"
    using assms by (simp add: compile_apply_gpos_eq)
  have kern: "apply_kern ?P =
      (\<not> rb_aat_layout_has_positioning (planner_face planner) \<and>
       rb_ot_layout_has_kerning (planner_face planner) \<and>
       \<not> (compile_has_gpos_kern K (compile_kern_tag (planner_props planner)) ?P \<and> apply_gpos ?P))"
    using assms by (simp add: compile_apply_kern_eq)
  have c1: "\<not> (apply_kerx ?P \<and> apply_gpos ?P)"
    using kerx gpos by blast
  have c2: "\<not> (apply_kerx ?P \<and> apply_kern ?P)"
    using kerx kern by blast
  have c3: "(apply_gpos ?P \<and> apply_kern ?P) =
       (apply_gpos ?P \<and>
        \<not> compile_has_gpos_kern K (compile_kern_tag (planner_props planner)) ?P \<and>
        rb_ot_layout_has_kerning (planner_face planner))"
    using kern gpos by blast
  have c4: "position X ?P face buffer =
       (let P = ?P;
            b1 = (if rb_aat_layout_has_positioning (planner_face planner)
                  then rb_aat_layout_position X P face buffer
                  else if apply_gpos P
                  then rb_ot_layout_position X P (plan_map P) face buffer
                  else if apply_kern P
                  then rb_ot_layout_kern X P face buffer
                  else rb_ot_shape_fallback_kern X P face buffer)
        in if apply_trak P then rb_aat_layout_track X P face b1 else b1)"
    using kerx gpos unfolding position_def Let_def by auto
  have c5: "position X (this\<lparr>apply_gpos := True\<rparr>) face buffer =
       (let P = this\<lparr>apply_gpos := True\<rparr>;
            b1 = rb_ot_layout_position X P (plan_map P) face buffer
        in if apply_trak P then rb_aat_layout_track X P face b1 else b1)"
    by (simp add: position_def Let_def)
  have c6: "position X this face buffer =
       (let b1 = (if apply_gpos this
                  then rb_ot_layout_position X this (plan_map this) face buffer
                  else if apply_kerx this
                  then rb_aat_layout_position X this face buffer
                  else if apply_kern this
                  then rb_ot_layout_kern X this face buffer
                  else rb_ot_shape_fallback_kern X this face buffer)
        in if apply_trak this then rb_aat_layout_track X this face b1 else b1)"
    by (simp add: position_def Let_def)
  from c1 c2 c3 c4 c5 c6 show ?thesis by blast
qed

text \<open>
  The AAT example face: the compiled plan runs kerx. And the dispatch on four plans that
  no compile gives: kerx and kern both set runs kerx alone (\<open>0x200\<close>), kern alone runs
  kern (\<open>0x300\<close>), no flag runs fallback kerning (\<open>0x400\<close>), and GPOS with kerx, kern and
  tracking set runs GPOS and then tracking (\<open>0x101\<close>).
\<close>

theorem positioning_backends_witness:
  "\<not> apply_gpos (zeroed_plan (example_props RB_DIRECTION_LTR) example_map)
   \<and> \<not> apply_kerx (zeroed_plan (example_props RB_DIRECTION_LTR) example_map)
   \<and> \<not> apply_kern (zeroed_plan (example_props RB_DIRECTION_LTR) example_map)
   \<and> scratch_flags
       (position example_shape_extern
          (compile example_plan_extern example_constants
             (rb_ot_shape_planner_create example_plan_extern example_face_aat
                (example_props RB_DIRECTION_LTR))
             (zeroed_plan (example_props RB_DIRECTION_LTR) example_map) [])
          example_face_aat (example_buffer RB_DIRECTION_LTR [])) = 0x200
   \<and> scratch_flags
       (position example_shape_extern
          ((zeroed_plan (example_props RB_DIRECTION_LTR) example_map)
             \<lparr>apply_kerx := True, apply_kern := True\<rparr>)
          example_face_ot (example_buffer RB_DIRECTION_LTR [])) = 0x200
   \<and> scratch_flags
       (position example_shape_extern
          ((zeroed_plan (example_props RB_DIRECTION_LTR) example_map)\<lparr>apply_kern := True\<rparr>)
          example_face_ot (example_buffer RB_DIRECTION_LTR [])) = 0x300
   \<and> scratch_flags
       (position example_shape_extern
          (zeroed_plan (example_props RB_DIRECTION_LTR) example_map)
          example_face_ot (example_buffer RB_DIRECTION_LTR [])) = 0x400
   \<and> scratch_flags
       (position example_shape_extern
          ((zeroed_plan (example_props RB_DIRECTION_LTR) example_map)
             \<lparr>apply_gpos := True, apply_kerx := True, apply_kern := True, apply_trak := True\<rparr>)
          example_face_ot (example_buffer RB_DIRECTION_LTR [])) = 0x101"
proof -
  let ?Z = "zeroed_plan (example_props RB_DIRECTION_LTR) example_map"
  let ?planner = "rb_ot_shape_planner_create example_plan_extern example_face_aat
                    (example_props RB_DIRECTION_LTR)"
  let ?P = "compile example_plan_extern example_constants ?planner ?Z []"
  let ?b = "example_buffer RB_DIRECTION_LTR []"
  have z: "\<not> apply_gpos ?Z" "\<not> apply_kerx ?Z" "\<not> apply_kern ?Z"
    by (simp_all add: zeroed_plan_def)
  have trak: "\<not> apply_trak ?P"
    by (simp add: compile_def Let_def compile_blocks example_plan_extern_def example_map_def)
  have aat: "rb_aat_layout_has_positioning (planner_face ?planner)"
    by (simp add: example_face_aat_def)
  note pb = positioning_backends [OF z, where E = example_plan_extern and K = example_constants
      and planner = ?planner and vi = "[]" and X = example_shape_extern
      and buffer = ?b]
  from pb [where face = example_face_aat and this = ?Z]
  have "position example_shape_extern ?P example_face_aat ?b =
          rb_aat_layout_position example_shape_extern ?P example_face_aat ?b"
    using trak aat by (simp add: Let_def)
  then have w1: "scratch_flags (position example_shape_extern ?P example_face_aat ?b) = 0x200"
    by (simp add: example_shape_extern_def)
  have flags: "\<not> apply_trak ?Z" by (simp add: zeroed_plan_def)
  from pb [where face = example_face_ot and this = "?Z\<lparr>apply_kerx := True, apply_kern := True\<rparr>"]
  have w2: "scratch_flags (position example_shape_extern
              (?Z\<lparr>apply_kerx := True, apply_kern := True\<rparr>) example_face_ot ?b) = 0x200"
    using z flags by (simp add: Let_def example_shape_extern_def)
  from pb [where face = example_face_ot and this = "?Z\<lparr>apply_kern := True\<rparr>"]
  have w3: "scratch_flags (position example_shape_extern
              (?Z\<lparr>apply_kern := True\<rparr>) example_face_ot ?b) = 0x300"
    using z flags by (simp add: Let_def example_shape_extern_def)
  from pb [where face = example_face_ot and this = ?Z]
  have w4: "scratch_flags (position example_shape_extern ?Z example_face_ot ?b) = 0x400"
    using z flags by (simp add: Let_def example_shape_extern_def)
  from pb [where face = example_face_ot and this =
      "?Z\<lparr>apply_gpos := True, apply_kerx := True, apply_kern := True, apply_trak := True\<rparr>"]
  have w5: "scratch_flags (position example_shape_extern
              (?Z\<lparr>apply_gpos := True, apply_kerx := True, apply_kern := True, apply_trak := True\<rparr>)
              example_face_ot ?b) = 0x101"
    by (simp add: Let_def example_shape_extern_def)
  from z w1 w2 w3 w4 w5 show ?thesis by simp
qed

subsection \<open>The feature collector\<close>

lemma foldl_add_static:
  "foldl (\<lambda>m f. rb_ot_map_builder_add_feature m (fst f) (snd f) 1) m fs =
     m\<lparr>builder_calls := builder_calls m @ map (\<lambda>f. Add_feature (fst f) (snd f) 1) fs\<rparr>"
  by (induction fs arbitrary: m) (simp_all add: rb_ot_map_builder_add_feature_def)

lemma foldl_add_user:
  "foldl (\<lambda>m feature.
            rb_ot_map_builder_add_feature m (feature_tag feature)
              (if feature_start feature = RB_FEATURE_GLOBAL_START K \<and>
                  feature_end feature = RB_FEATURE_GLOBAL_END K
               then F_GLOBAL else F_NONE)
              (feature_value feature)) m ufs =
     m\<lparr>builder_calls := builder_calls m @ map (spec_user_feature K) ufs\<rparr>"
  by (induction ufs arbitrary: m)
    (simp_all add: rb_ot_map_builder_add_feature_def spec_user_feature_def F_GLOBAL_def F_NONE_def)

lemma foldl_aat_user:
  "foldl (\<lambda>a feature. aat_map_add_feature a (feature_tag feature) (feature_value feature)) a ufs =
     a\<lparr>aat_builder_calls :=
         aat_builder_calls a @ map (\<lambda>feature. (feature_tag feature, feature_value feature)) ufs\<rparr>"
  by (induction ufs arbitrary: a) (simp_all add: aat_map_add_feature_def)

lemmas feature_flag_defs =
  F_NONE_def F_GLOBAL_def F_HAS_FALLBACK_def F_MANUAL_JOINERS_def F_GLOBAL_MANUAL_JOINERS_def
  F_GLOBAL_HAS_FALLBACK_def F_GLOBAL_SEARCH_def F_RANDOM_def

lemma collect_features_before_shaper:
  "(case dir of
      RB_DIRECTION_LTR \<Rightarrow>
        rb_ot_map_builder_enable_feature
          (rb_ot_map_builder_enable_feature m2
             (RB_TAG CHR ''l'' CHR ''t'' CHR ''r'' CHR ''a'') F_NONE 1)
          (RB_TAG CHR ''l'' CHR ''t'' CHR ''r'' CHR ''m'') F_NONE 1
    | RB_DIRECTION_RTL \<Rightarrow>
        rb_ot_map_builder_add_feature
          (rb_ot_map_builder_enable_feature m2
             (RB_TAG CHR ''r'' CHR ''t'' CHR ''l'' CHR ''a'') F_NONE 1)
          (RB_TAG CHR ''r'' CHR ''t'' CHR ''l'' CHR ''m'') F_NONE 1
    | RB_DIRECTION_TTB \<Rightarrow> m2
    | RB_DIRECTION_BTT \<Rightarrow> m2
    | RB_DIRECTION_INVALID \<Rightarrow> m2) =
   m2\<lparr>builder_calls := builder_calls m2 @ spec_direction_features dir\<rparr>"
  by (cases dir)
    (simp_all add: spec_direction_features_def rb_ot_map_builder_enable_feature_def
      rb_ot_map_builder_add_feature_def F_NONE_def)

text \<open>
  Claim C3. For every planner and user-feature list, feature collection populates the
  OpenType map builder in exactly this order: enable \<^verbatim>\<open>rvrn\<close>, then a null GSUB pause; the
  direction features (LTR: enable \<^verbatim>\<open>ltra\<close>, \<^verbatim>\<open>ltrm\<close>; RTL: enable \<^verbatim>\<open>rtla\<close>, add \<^verbatim>\<open>rtlm\<close>; TTB, BTT,
  INVALID: none); add \<^verbatim>\<open>frac\<close>, \<^verbatim>\<open>numr\<close>, \<^verbatim>\<open>dnom\<close>; enable \<^verbatim>\<open>rand\<close> with RANDOM and the maximal
  value; enable \<^verbatim>\<open>trak\<close> with HAS_FALLBACK; enable \<^verbatim>\<open>HARF\<close>; the shaper's collect hook; enable
  \<^verbatim>\<open>BUZZ\<close>; add the seven common features; if horizontal add the seven horizontal features
  (\<^verbatim>\<open>kern\<close> with GLOBAL|HAS_FALLBACK, the others GLOBAL), else enable \<^verbatim>\<open>vert\<close> with
  GLOBAL_SEARCH; add each user feature, with GLOBAL if and only if its span is global; if
  \<open>apply_morx\<close>, replay the user features into the AAT builder; finally the shaper's
  override hook.
\<close>

theorem collect_features_order:
  "rb_ot_shape_collect_features E K planner user_features =
     (let dir = direction (planner_props planner);
          m0 = planner_map planner;
          m9 = m0\<lparr>builder_calls := builder_calls m0 @ spec_features_before_shaper K dir\<rparr>;
          m10 = rb_ot_complex_shaper_collect_features E (planner_shaper planner)
                  (planner\<lparr>planner_map := m9\<rparr>);
          m14 = m10\<lparr>builder_calls := builder_calls m10 @ spec_features_after_shaper K dir user_features\<rparr>;
          a0 = planner_aat_map planner;
          a1 = a0\<lparr>aat_builder_calls :=
                   aat_builder_calls a0 @ spec_aat_replay (planner_apply_morx planner) user_features\<rparr>;
          planner1 = planner\<lparr>planner_map := m14, planner_aat_map := a1\<rparr>
      in planner1\<lparr>planner_map :=
                    rb_ot_complex_shaper_override_features E (planner_shaper planner) planner1\<rparr>)"
  unfolding rb_ot_shape_collect_features_def Let_def collect_features_before_shaper
    foldl_add_static foldl_add_user foldl_aat_user
  by (simp add: rb_ot_map_builder_enable_feature_def rb_ot_map_builder_add_feature_def
      rb_ot_map_builder_add_gsub_pause_def spec_features_before_shaper_def
      spec_features_after_shaper_def spec_aat_replay_def common_features_def
      horizontal_features_def feature_flag_defs insert_commute)

text \<open>
  The order at a right-to-left planner with the two example user features and a shaper
  whose hooks add \<^verbatim>\<open>isol\<close> and switch \<^verbatim>\<open>liga\<close> off.
\<close>

theorem collect_features_order_witness:
  "builder_calls (planner_map
     (rb_ot_shape_collect_features example_plan_extern_hooks example_constants
        (rb_ot_shape_planner_create example_plan_extern_hooks example_face_ot
           (example_props RB_DIRECTION_RTL))
        [example_feature_ranged, example_feature_global])) =
     [Enable_feature (RB_TAG CHR ''r'' CHR ''v'' CHR ''r'' CHR ''n'') {} 1,
      Add_gsub_pause None,
      Enable_feature (RB_TAG CHR ''r'' CHR ''t'' CHR ''l'' CHR ''a'') {} 1,
      Add_feature (RB_TAG CHR ''r'' CHR ''t'' CHR ''l'' CHR ''m'') {} 1,
      Add_feature (RB_TAG CHR ''f'' CHR ''r'' CHR ''a'' CHR ''c'') {} 1,
      Add_feature (RB_TAG CHR ''n'' CHR ''u'' CHR ''m'' CHR ''r'') {} 1,
      Add_feature (RB_TAG CHR ''d'' CHR ''n'' CHR ''o'' CHR ''m'') {} 1,
      Enable_feature (RB_TAG CHR ''r'' CHR ''a'' CHR ''n'' CHR ''d'') {RANDOM} 255,
      Enable_feature (RB_TAG CHR ''t'' CHR ''r'' CHR ''a'' CHR ''k'') {HAS_FALLBACK} 1,
      Enable_feature (RB_TAG CHR ''H'' CHR ''A'' CHR ''R'' CHR ''F'') {} 1,
      Add_feature (RB_TAG CHR ''i'' CHR ''s'' CHR ''o'' CHR ''l'') {} 1,
      Enable_feature (RB_TAG CHR ''B'' CHR ''U'' CHR ''Z'' CHR ''Z'') {} 1,
      Add_feature (RB_TAG CHR ''a'' CHR ''b'' CHR ''v'' CHR ''m'') {GLOBAL} 1,
      Add_feature (RB_TAG CHR ''b'' CHR ''l'' CHR ''w'' CHR ''m'') {GLOBAL} 1,
      Add_feature (RB_TAG CHR ''c'' CHR ''c'' CHR ''m'' CHR ''p'') {GLOBAL} 1,
      Add_feature (RB_TAG CHR ''l'' CHR ''o'' CHR ''c'' CHR ''l'') {GLOBAL} 1,
      Add_feature (RB_TAG CHR ''m'' CHR ''a'' CHR ''r'' CHR ''k'') {GLOBAL, MANUAL_JOINERS} 1,
      Add_feature (RB_TAG CHR ''m'' CHR ''k'' CHR ''m'' CHR ''k'') {GLOBAL, MANUAL_JOINERS} 1,
      Add_feature (RB_TAG CHR ''r'' CHR ''l'' CHR ''i'' CHR ''g'') {GLOBAL} 1,
      Add_feature (RB_TAG CHR ''c'' CHR ''a'' CHR ''l'' CHR ''t'') {GLOBAL} 1,
      Add_feature (RB_TAG CHR ''c'' CHR ''l'' CHR ''i'' CHR ''g'') {GLOBAL} 1,
      Add_feature (RB_TAG CHR ''c'' CHR ''u'' CHR ''r'' CHR ''s'') {GLOBAL} 1,
      Add_feature (RB_TAG CHR ''d'' CHR ''i'' CHR ''s'' CHR ''t'') {GLOBAL} 1,
      Add_feature (RB_TAG CHR ''k'' CHR ''e'' CHR ''r'' CHR ''n'') {GLOBAL, HAS_FALLBACK} 1,
      Add_feature (RB_TAG CHR ''l'' CHR ''i'' CHR ''g'' CHR ''a'') {GLOBAL} 1,
      Add_feature (RB_TAG CHR ''r'' CHR ''c'' CHR ''l'' CHR ''t'') {GLOBAL} 1,
      Add_feature (RB_TAG CHR ''s'' CHR ''m'' CHR ''c'' CHR ''p'') {} 1,
      Add_feature (RB_TAG CHR ''s'' CHR ''s'' CHR ''0'' CHR ''1'') {GLOBAL} 2,
      Add_feature (RB_TAG CHR ''l'' CHR ''i'' CHR ''g'' CHR ''a'') {} 0]"
  by (subst collect_features_order)
    (simp add: Let_def example_plan_extern_hooks_def example_plan_extern_def
      rb_ot_map_builder_add_feature_def rb_ot_map_builder_create_def
      spec_features_before_shaper_def spec_direction_features_def
      spec_features_after_shaper_def spec_user_feature_def example_props_def
      example_feature_ranged_def example_feature_global_def example_constants_def F_NONE_def)

subsection \<open>Plan initialisation\<close>

text \<open>
  Claim C7. \<open>init0\<close> fails if and only if the chosen shaper's \<^verbatim>\<open>data_create\<close> fails on the
  compiled plan; on that failure the result is false and the resources acquired before
  the failure, the created OpenType map and the initialised AAT map, are released
  before returning (and the planner's map builder with them: nothing is held). On
  success the map, the AAT map and the shaper's data are held by the plan.
\<close>

theorem init0_fails_iff:
  "(\<not> fst (init0 E K this face props user_features vi)) =
     (rb_ot_complex_shaper_data_create E
        (plan_shaper (compile E K
           (rb_ot_shape_collect_features E K (rb_ot_shape_planner_create E face props) user_features)
           this vi))
        (compile E K
           (rb_ot_shape_collect_features E K (rb_ot_shape_planner_create E face props) user_features)
           this vi) = None)
   \<and> (\<not> fst (init0 E K this face props user_features vi) \<longrightarrow>
        snd (snd (init0 E K this face props user_features vi)) =
          [Acquire Ot_map, Acquire Aat_map, Acquire Map_builder,
           Release Ot_map, Release Aat_map, Release Map_builder]
        \<and> held (snd (snd (init0 E K this face props user_features vi))) = {})
   \<and> (fst (init0 E K this face props user_features vi) \<longrightarrow>
        held (snd (snd (init0 E K this face props user_features vi))) =
          {Ot_map, Aat_map, Shaper_data})"
  by (auto simp add: init0_def Let_def held_def split: option.split)

theorem init0_fails_iff_witness:
  "\<not> fst (init0 example_plan_extern_failing example_constants
            (zeroed_plan (example_props RB_DIRECTION_LTR) example_map)
            example_face_ot (example_props RB_DIRECTION_LTR) [] [])
   \<and> held (snd (snd (init0 example_plan_extern_failing example_constants
            (zeroed_plan (example_props RB_DIRECTION_LTR) example_map)
            example_face_ot (example_props RB_DIRECTION_LTR) [] []))) = {}
   \<and> fst (init0 example_plan_extern example_constants
            (zeroed_plan (example_props RB_DIRECTION_LTR) example_map)
            example_face_ot (example_props RB_DIRECTION_LTR) [] [])
   \<and> held (snd (snd (init0 example_plan_extern example_constants
            (zeroed_plan (example_props RB_DIRECTION_LTR) example_map)
            example_face_ot (example_props RB_DIRECTION_LTR) [] []))) =
       {Ot_map, Aat_map, Shaper_data}"
proof -
  have f: "rb_ot_complex_shaper_data_create example_plan_extern_failing s p = None" for s p
    by (simp add: example_plan_extern_failing_def)
  have g: "rb_ot_complex_shaper_data_create example_plan_extern s p \<noteq> None" for s p
    by (simp add: example_plan_extern_def)
  note a = init0_fails_iff [of example_plan_extern_failing example_constants
      "zeroed_plan (example_props RB_DIRECTION_LTR) example_map"
      example_face_ot "example_props RB_DIRECTION_LTR" "[]" "[]", unfolded f]
  note b = init0_fails_iff [of example_plan_extern example_constants
      "zeroed_plan (example_props RB_DIRECTION_LTR) example_map"
      example_face_ot "example_props RB_DIRECTION_LTR" "[]" "[]"]
  from a have a1: "\<not> fst (init0 example_plan_extern_failing example_constants
            (zeroed_plan (example_props RB_DIRECTION_LTR) example_map)
            example_face_ot (example_props RB_DIRECTION_LTR) [] [])"
    by blast
  from b g have b1: "fst (init0 example_plan_extern example_constants
            (zeroed_plan (example_props RB_DIRECTION_LTR) example_map)
            example_face_ot (example_props RB_DIRECTION_LTR) [] [])"
    by blast
  from a a1 b b1 show ?thesis by blast
qed

subsection \<open>Rotating characters\<close>

lemma rotate_chars_mirror_map:
  "count = length infos \<Longrightarrow> i \<le> length infos \<Longrightarrow>
   rb_ot_rotate_chars_mirror X face rtlm count i infos =
     take i infos @ map (spec_mirror_glyph X face rtlm) (drop i infos)"
proof (induction X face rtlm count i infos rule: rb_ot_rotate_chars_mirror.induct)
  case (1 X face rtlm count i infos)
  show ?case
  proof (cases "i < count")
    case False
    with "1.prems" show ?thesis
      by (subst rb_ot_rotate_chars_mirror.simps) simp
  next
    case True
    let ?c = "rb_ucd_mirroring X (codepoint (infos ! i))"
    let ?g = "spec_mirror_glyph X face rtlm (infos ! i)"
    from True "1.prems" have i: "i < length infos" by simp
    have step: "rb_ot_rotate_chars_mirror X face rtlm count i infos =
                  rb_ot_rotate_chars_mirror X face rtlm count (Suc i) (infos[i := ?g])"
      using True
      by (subst rb_ot_rotate_chars_mirror.simps) (simp add: Let_def spec_mirror_glyph_def)
    have ih: "rb_ot_rotate_chars_mirror X face rtlm count (Suc i) (infos[i := ?g]) =
                take (Suc i) (infos[i := ?g]) @
                  map (spec_mirror_glyph X face rtlm) (drop (Suc i) (infos[i := ?g]))"
    proof (cases "?c \<noteq> codepoint (infos ! i) \<and> rb_face_has_glyph face ?c")
      case True
      then have g: "?g = (infos ! i)\<lparr>codepoint := ?c\<rparr>"
        by (simp add: spec_mirror_glyph_def)
      from "1.IH"(1) [OF \<open>i < count\<close> refl True] "1.prems" i
      show ?thesis unfolding g by simp
    next
      case False
      then have g: "?g = (infos ! i)\<lparr>glyph_mask := glyph_mask (infos ! i) OR rtlm\<rparr>"
        by (auto simp add: spec_mirror_glyph_def)
      from "1.IH"(2) [OF \<open>i < count\<close> refl False] "1.prems" i
      show ?thesis unfolding g by simp
    qed
    have "take (Suc i) (infos[i := ?g]) = take i infos @ [?g]"
      using i by (simp add: take_Suc_conv_app_nth)
    moreover have "drop (Suc i) (infos[i := ?g]) = drop (Suc i) infos"
      by simp
    moreover have "drop i infos = infos ! i # drop (Suc i) infos"
      using i by (simp add: Cons_nth_drop_Suc)
    ultimately show ?thesis
      using step ih by simp
  qed
qed

lemma rotate_chars_vert_map:
  "count = length infos \<Longrightarrow> i \<le> length infos \<Longrightarrow>
   rb_ot_rotate_chars_vert X face count i infos =
     take i infos @ map (spec_vert_glyph X face) (drop i infos)"
proof (induction X face count i infos rule: rb_ot_rotate_chars_vert.induct)
  case (1 X face count i infos)
  show ?case
  proof (cases "i < count")
    case False
    with "1.prems" show ?thesis
      by (subst rb_ot_rotate_chars_vert.simps) simp
  next
    case True
    let ?c = "rb_vert_char_for X (codepoint (infos ! i))"
    let ?g = "spec_vert_glyph X face (infos ! i)"
    from True "1.prems" have i: "i < length infos" by simp
    have split: "drop i infos = infos ! i # drop (Suc i) infos"
      using i by (simp add: Cons_nth_drop_Suc)
    show ?thesis
    proof (cases "?c \<noteq> codepoint (infos ! i) \<and> rb_face_has_glyph face ?c")
      case True
      then have g: "?g = (infos ! i)\<lparr>codepoint := ?c\<rparr>"
        by (simp add: spec_vert_glyph_def)
      have "rb_ot_rotate_chars_vert X face count i infos =
              rb_ot_rotate_chars_vert X face count (Suc i) (infos[i := ?g])"
        using \<open>i < count\<close> True
        by (subst rb_ot_rotate_chars_vert.simps) (simp add: Let_def g)
      also have "\<dots> = take (Suc i) (infos[i := ?g]) @
                     map (spec_vert_glyph X face) (drop (Suc i) (infos[i := ?g]))"
        using "1.IH"(1) [OF \<open>i < count\<close> refl True] "1.prems" i unfolding g by simp
      also have "\<dots> = take i infos @ map (spec_vert_glyph X face) (drop i infos)"
        using i by (simp add: take_Suc_conv_app_nth split)
      finally show ?thesis .
    next
      case False
      then have g: "?g = infos ! i"
        by (auto simp add: spec_vert_glyph_def)
      have "rb_ot_rotate_chars_vert X face count i infos =
              rb_ot_rotate_chars_vert X face count (Suc i) infos"
        using \<open>i < count\<close> False
        by (subst rb_ot_rotate_chars_vert.simps) (auto simp add: Let_def)
      also have "\<dots> = take (Suc i) infos @ map (spec_vert_glyph X face) (drop (Suc i) infos)"
        using "1.IH"(2) [OF \<open>i < count\<close> refl False] "1.prems" i by simp
      also have "\<dots> = take i infos @ map (spec_vert_glyph X face) (drop i infos)"
        using i by (simp add: take_Suc_conv_app_nth split g)
      finally show ?thesis .
    qed
  qed
qed

text \<open>
  Claim C6. In the char-rotation step: when \<open>target_direction\<close> is backward, every glyph
  either has its codepoint replaced by its Unicode mirror (exactly when the mirror
  differs from the codepoint and the face has a glyph for the mirror) or has \<open>rtlm_mask\<close>
  ORed into its mask (in every other case, including when the mirror equals the
  codepoint); when \<open>target_direction\<close> is vertical and the plan has no \<^verbatim>\<open>vert\<close> feature, a
  glyph's codepoint is replaced by its vertical presentation form exactly when that form
  differs and the face has a glyph for it, and that step changes no mask. The two steps
  run in this order, the second on the glyphs the first leaves, and nothing else of the
  context changes.
\<close>

theorem rotate_chars_glyphs:
  "rb_ot_rotate_chars X c =
     c\<lparr>ctx_buffer := (ctx_buffer c)
         \<lparr>info :=
            map (\<lambda>g. let g1 = (if RB_DIRECTION_IS_BACKWARD (target_direction c)
                               then spec_mirror_glyph X (ctx_face c) (rtlm_mask (ctx_plan c)) g
                               else g)
                     in if RB_DIRECTION_IS_VERTICAL (target_direction c) \<and> \<not> has_vert (ctx_plan c)
                        then spec_vert_glyph X (ctx_face c) g1
                        else g1)
              (info (ctx_buffer c))\<rparr>\<rparr>
   \<and> glyph_mask (spec_vert_glyph X face g) = glyph_mask g
   \<and> (codepoint (spec_mirror_glyph X face rtlm g) \<noteq> codepoint g) =
       (rb_ucd_mirroring X (codepoint g) \<noteq> codepoint g \<and>
        rb_face_has_glyph face (rb_ucd_mirroring X (codepoint g)))
   \<and> (codepoint (spec_vert_glyph X face g) \<noteq> codepoint g) =
       (rb_vert_char_for X (codepoint g) \<noteq> codepoint g \<and>
        rb_face_has_glyph face (rb_vert_char_for X (codepoint g)))"
proof -
  have mirror: "rb_ot_rotate_chars_mirror X f m n 0 infos = map (spec_mirror_glyph X f m) infos"
    if "n = length infos" for f m n infos
    using rotate_chars_mirror_map [of n infos 0 X f m] that by simp
  have vert: "rb_ot_rotate_chars_vert X f n 0 infos = map (spec_vert_glyph X f) infos"
    if "n = length infos" for f n infos
    using rotate_chars_vert_map [of n infos 0 X f] that by simp
  have "rb_ot_rotate_chars X c =
     c\<lparr>ctx_buffer := (ctx_buffer c)
         \<lparr>info :=
            map (\<lambda>g. let g1 = (if RB_DIRECTION_IS_BACKWARD (target_direction c)
                               then spec_mirror_glyph X (ctx_face c) (rtlm_mask (ctx_plan c)) g
                               else g)
                     in if RB_DIRECTION_IS_VERTICAL (target_direction c) \<and> \<not> has_vert (ctx_plan c)
                        then spec_vert_glyph X (ctx_face c) g1
                        else g1)
              (info (ctx_buffer c))\<rparr>\<rparr>"
  proof (cases "RB_DIRECTION_IS_BACKWARD (target_direction c)")
    case True
    show ?thesis
    proof (cases "RB_DIRECTION_IS_VERTICAL (target_direction c) \<and> \<not> has_vert (ctx_plan c)")
      case v: True
      with True show ?thesis
        by (simp add: rb_ot_rotate_chars_def Let_def rb_buffer_get_length_def mirror vert comp_def)
    next
      case v: False
      with True show ?thesis
        by (auto simp add: rb_ot_rotate_chars_def Let_def rb_buffer_get_length_def mirror)
    qed
  next
    case False
    show ?thesis
    proof (cases "RB_DIRECTION_IS_VERTICAL (target_direction c) \<and> \<not> has_vert (ctx_plan c)")
      case v: True
      with False show ?thesis
        by (simp add: rb_ot_rotate_chars_def Let_def rb_buffer_get_length_def vert)
    next
      case v: False
      with False show ?thesis
        by (auto simp add: rb_ot_rotate_chars_def Let_def rb_buffer_get_length_def)
    qed
  qed
  moreover have "glyph_mask (spec_vert_glyph X face g) = glyph_mask g"
    by (simp add: spec_vert_glyph_def)
  moreover have "(codepoint (spec_mirror_glyph X face rtlm g) \<noteq> codepoint g) =
       (rb_ucd_mirroring X (codepoint g) \<noteq> codepoint g \<and>
        rb_face_has_glyph face (rb_ucd_mirroring X (codepoint g)))"
    by (simp add: spec_mirror_glyph_def)
  moreover have "(codepoint (spec_vert_glyph X face g) \<noteq> codepoint g) =
       (rb_vert_char_for X (codepoint g) \<noteq> codepoint g \<and>
        rb_face_has_glyph face (rb_vert_char_for X (codepoint g)))"
    by (simp add: spec_vert_glyph_def)
  ultimately show ?thesis by blast
qed

text \<open>
  A bottom-to-top run of an opening parenthesis, a letter and a fullwidth comma: the
  parenthesis is mirrored, the letter gets the \<^verbatim>\<open>rtlm\<close> bit, the comma gets the bit and
  then its vertical form.
\<close>

theorem rotate_chars_glyphs_witness:
  "info (ctx_buffer (rb_ot_rotate_chars example_shape_extern
     (example_context RB_DIRECTION_BTT
        [example_glyph 0x28 21, example_glyph 0x61 5, example_glyph 0xFF0C 21]))) =
     [(example_glyph 0x28 21)\<lparr>codepoint := 0x29\<rparr>,
      (example_glyph 0x61 5)\<lparr>glyph_mask := 3\<rparr>,
      (example_glyph 0xFF0C 21)\<lparr>codepoint := 0xFE10, glyph_mask := 3\<rparr>]"
  using rotate_chars_glyphs [of example_shape_extern
      "example_context RB_DIRECTION_BTT
         [example_glyph 0x28 21, example_glyph 0x61 5, example_glyph 0xFF0C 21]"]
  by (simp add: example_context_def example_buffer_def example_plan_def zeroed_plan_def
      example_glyph_def example_face_ot_def example_shape_extern_def
      spec_mirror_glyph_def spec_vert_glyph_def Let_def)

subsection \<open>The example pipeline that records the limits\<close>

lemma observing_extern:
  "rb_buffer_clear_output example_shape_extern_observing b = b"
  "rb_buffer_reset_masks example_shape_extern_observing b m = b"
  "rb_buffer_clear_positions example_shape_extern_observing b = b"
  "rb_buffer_reverse example_shape_extern_observing b = b"
  "rb_set_unicode_props example_shape_extern_observing b =
     b\<lparr>info := map (\<lambda>g. g\<lparr>var1 := max_len b, cluster := max_ops b\<rparr>) (info b)\<rparr>"
  "rb_insert_dotted_circle example_shape_extern_observing b f = b"
  "rb_form_clusters example_shape_extern_observing b = b"
  "rb_ensure_native_direction example_shape_extern_observing b = b"
  "rb_ot_zero_width_default_ignorables example_shape_extern_observing b = b"
  "rb_ot_hide_default_ignorables example_shape_extern_observing b f = b"
  "rb_ot_map_glyphs_fast example_shape_extern_observing b = b"
  "rb_synthesize_glyph_classes example_shape_extern_observing b = b"
  "rb_zero_mark_widths_by_gdef example_shape_extern_observing b a = b"
  "rb_propagate_flags example_shape_extern_observing b = b"
  "rb_ot_shape_normalize example_shape_extern_observing p b f = b"
  "rb_ot_shape_fallback_kern example_shape_extern_observing p f b = b\<lparr>scratch_flags := 0x400\<rparr>"
  "rb_ot_shape_fallback_spaces example_shape_extern_observing p f b = b"
  "rb_ot_layout_substitute_start example_shape_extern_observing f b = b"
  "rb_aat_layout_substitute example_shape_extern_observing p f b = b"
  "rb_ot_layout_substitute example_shape_extern_observing p om f b = b"
  "rb_aat_layout_remove_deleted_glyphs example_shape_extern_observing b = b"
  "rb_ot_layout_position_start example_shape_extern_observing f b = b"
  "rb_ot_layout_position_finish_advances example_shape_extern_observing f b = b"
  "rb_aat_layout_zero_width_deleted_glyphs example_shape_extern_observing b = b"
  "rb_ot_layout_position_finish_offsets example_shape_extern_observing f b = b"
  "rb_face_get_glyph_h_advances example_shape_extern_observing f n infos poss = poss"
  "rb_ot_complex_shaper_setup_masks example_shape_extern_observing s p b f = b"
  "rb_ot_complex_shaper_preprocess_text example_shape_extern_observing s p b f = b"
  "rb_ot_complex_shaper_postprocess_glyphs example_shape_extern_observing s p b f = b"
  by (simp_all add: example_shape_extern_observing_def example_shape_extern_def)

lemma example_plan_flags:
  "\<not> apply_gpos (example_plan d)" "\<not> apply_kerx (example_plan d)" "\<not> apply_kern (example_plan d)"
  "\<not> apply_trak (example_plan d)" "\<not> apply_morx (example_plan d)" "\<not> zero_marks (example_plan d)"
  "\<not> fallback_mark_positioning (example_plan d)" "\<not> fallback_glyph_classes (example_plan d)"
  by (simp_all add: example_plan_def zeroed_plan_def)

lemma observing_rotate_chars:
  assumes "target_direction c = RB_DIRECTION_LTR"
  shows "rb_ot_rotate_chars X c = c"
  using assms by (simp add: rb_ot_rotate_chars_def Let_def)

lemma observing_setup_masks_fraction:
  assumes "scratch_flags (ctx_buffer c) = 0"
  shows "rb_ot_shape_setup_masks_fraction X K c = c"
  using assms by (simp add: rb_ot_shape_setup_masks_fraction_def)

lemma observing_setup_masks:
  assumes "scratch_flags (ctx_buffer c) = 0" and "ctx_user_features c = []"
  shows "rb_ot_shape_setup_masks example_shape_extern_observing K c = c"
  using assms
  by (simp add: rb_ot_shape_setup_masks_def Let_def observing_setup_masks_fraction
      observing_extern)

lemma observing_substitute_default:
  assumes "ctx_plan c = example_plan d" and "target_direction c = RB_DIRECTION_LTR"
    and "scratch_flags (ctx_buffer c) = 0" and "ctx_user_features c = []"
  shows "rb_ot_substitute_default example_shape_extern_observing K c = c"
  using assms
  by (simp add: rb_ot_substitute_default_def Let_def observing_rotate_chars
      observing_setup_masks observing_extern example_plan_flags)

lemma observing_substitute_complex:
  "rb_ot_substitute_complex example_shape_extern_observing c = c"
  by (simp add: rb_ot_substitute_complex_def substitute_def Let_def observing_extern)

lemma observing_substitute_pre:
  assumes "ctx_plan c = example_plan d" and "target_direction c = RB_DIRECTION_LTR"
    and "scratch_flags (ctx_buffer c) = 0" and "ctx_user_features c = []"
  shows "rb_ot_substitute_pre example_shape_extern_observing K c = c"
  using assms
  by (simp add: rb_ot_substitute_pre_def observing_substitute_default [where d = d]
      observing_substitute_complex)

lemma observing_position_default:
  assumes "buffer_direction (ctx_buffer c) = RB_DIRECTION_LTR"
  shows "rb_ot_position_default example_shape_extern_observing K c = c"
  using assms by (simp add: rb_ot_position_default_def Let_def observing_extern)

lemma observing_plan_position:
  "position example_shape_extern_observing (example_plan d) f b = b\<lparr>scratch_flags := 0x400\<rparr>"
  by (simp add: position_def Let_def observing_extern example_plan_flags)

lemma observing_position_complex:
  assumes "ctx_plan c = example_plan d"
  shows "rb_ot_position_complex E example_shape_extern_observing c =
           c\<lparr>ctx_buffer := (ctx_buffer c)\<lparr>scratch_flags := 0x400\<rparr>\<rparr>"
  using assms
  by (simp add: rb_ot_position_complex_def Let_def observing_extern example_plan_flags
      observing_plan_position)

lemma observing_position:
  assumes "ctx_plan c = example_plan d" and "buffer_direction (ctx_buffer c) = RB_DIRECTION_LTR"
  shows "rb_ot_position E example_shape_extern_observing K c =
           c\<lparr>ctx_buffer := (ctx_buffer c)\<lparr>scratch_flags := 0x400\<rparr>\<rparr>"
  using assms
  by (simp add: rb_ot_position_def Let_def observing_extern observing_position_default
      observing_position_complex [where d = d])

lemma observing_substitute_post:
  assumes "ctx_plan c = example_plan d"
  shows "rb_ot_substitute_post example_shape_extern_observing c = c"
  using assms
  by (simp add: rb_ot_substitute_post_def Let_def observing_extern example_plan_flags)

lemma observing_pipeline:
  assumes "scratch_flags b = 0" and "buffer_direction b = RB_DIRECTION_LTR"
  shows "info (ctx_buffer (rb_ot_shape_internal_pipeline E example_shape_extern_observing K
                 \<lparr>ctx_plan = example_plan d, ctx_face = f, ctx_buffer = b,
                  ctx_user_features = [], target_direction = t\<rparr>)) =
           map (\<lambda>g. g\<lparr>var1 := max_len b, cluster := max_ops b\<rparr>) (info b)"
proof -
  have start: "rb_ot_shape_initialize_masks example_shape_extern_observing c = c" for c
    by (simp add: rb_ot_shape_initialize_masks_def Let_def observing_extern)
  show ?thesis
    using assms
    by (simp add: rb_ot_shape_internal_pipeline_def Let_def observing_extern start
        observing_substitute_pre [where d = d] observing_position [where d = d]
        observing_substitute_post [where d = d])
qed

subsection \<open>The pipeline keeps the saved direction\<close>

lemma initialize_masks_target [simp]:
  "target_direction (rb_ot_shape_initialize_masks X c) = target_direction c"
  by (simp add: rb_ot_shape_initialize_masks_def Let_def)

lemma rotate_chars_target [simp]:
  "target_direction (rb_ot_rotate_chars X c) = target_direction c"
  by (simp add: rb_ot_rotate_chars_def Let_def)

lemma setup_masks_fraction_target [simp]:
  "target_direction (rb_ot_shape_setup_masks_fraction X K c) = target_direction c"
  by (simp add: rb_ot_shape_setup_masks_fraction_def Let_def)

lemma setup_masks_target [simp]:
  "target_direction (rb_ot_shape_setup_masks X K c) = target_direction c"
  by (simp add: rb_ot_shape_setup_masks_def Let_def)

lemma substitute_default_target [simp]:
  "target_direction (rb_ot_substitute_default X K c) = target_direction c"
  by (simp add: rb_ot_substitute_default_def Let_def)

lemma substitute_complex_target [simp]:
  "target_direction (rb_ot_substitute_complex X c) = target_direction c"
  by (simp add: rb_ot_substitute_complex_def Let_def)

lemma substitute_pre_target [simp]:
  "target_direction (rb_ot_substitute_pre X K c) = target_direction c"
  by (simp add: rb_ot_substitute_pre_def)

lemma substitute_post_target [simp]:
  "target_direction (rb_ot_substitute_post X c) = target_direction c"
  by (simp add: rb_ot_substitute_post_def Let_def)

lemma position_default_target [simp]:
  "target_direction (rb_ot_position_default X K c) = target_direction c"
  by (simp add: rb_ot_position_default_def Let_def)

lemma position_complex_target [simp]:
  "target_direction (rb_ot_position_complex E X c) = target_direction c"
  by (simp add: rb_ot_position_complex_def Let_def)

lemma position_target [simp]:
  "target_direction (rb_ot_position E X K c) = target_direction c"
  by (simp add: rb_ot_position_def Let_def)

lemma internal_limits_fields [simp]:
  "buffer_direction (rb_ot_shape_internal_limits X K buffer) = buffer_direction buffer"
  "info (rb_ot_shape_internal_limits X K buffer) = info buffer"
  "pos (rb_ot_shape_internal_limits X K buffer) = pos buffer"
  "scratch_flags (rb_ot_shape_internal_limits X K buffer) = RB_BUFFER_SCRATCH_FLAG_DEFAULT K"
  by (simp_all add: rb_ot_shape_internal_limits_def Let_def)

text \<open>
  Claim C8. After every \<^verbatim>\<open>shape()\<close> call, the buffer's direction equals the
  \<open>target_direction\<close> recorded from the buffer at entry, whatever the external functions
  in between (\<^verbatim>\<open>rb_ensure_native_direction\<close>, \<^verbatim>\<open>rb_buffer_reverse\<close> and all others) do to
  it, and the buffer's \<open>max_len\<close> and \<open>max_ops\<close> are reset to their default values.
\<close>

theorem shape_restores_direction:
  "target_direction (rb_ot_shape_internal E X K c) = buffer_direction (ctx_buffer c)
   \<and> buffer_direction (ctx_buffer (rb_ot_shape_internal E X K c)) = buffer_direction (ctx_buffer c)
   \<and> max_len (ctx_buffer (rb_ot_shape_internal E X K c)) = RB_BUFFER_MAX_LEN_DEFAULT K
   \<and> max_ops (ctx_buffer (rb_ot_shape_internal E X K c)) = RB_BUFFER_MAX_OPS_DEFAULT K
   \<and> buffer_direction (rb_ot_shape E X K shape_plan face buffer features) = buffer_direction buffer
   \<and> max_len (rb_ot_shape E X K shape_plan face buffer features) = RB_BUFFER_MAX_LEN_DEFAULT K
   \<and> max_ops (rb_ot_shape E X K shape_plan face buffer features) = RB_BUFFER_MAX_OPS_DEFAULT K"
proof -
  have internal:
    "target_direction (rb_ot_shape_internal E X K c) = buffer_direction (ctx_buffer c)
     \<and> buffer_direction (ctx_buffer (rb_ot_shape_internal E X K c)) = buffer_direction (ctx_buffer c)
     \<and> max_len (ctx_buffer (rb_ot_shape_internal E X K c)) = RB_BUFFER_MAX_LEN_DEFAULT K
     \<and> max_ops (ctx_buffer (rb_ot_shape_internal E X K c)) = RB_BUFFER_MAX_OPS_DEFAULT K" for c
    by (simp add: rb_ot_shape_internal_def Let_def)
  show ?thesis
    using internal [of c]
      internal [of "\<lparr>ctx_plan = shape_plan, ctx_face = face, ctx_buffer = buffer,
                     ctx_user_features = features, target_direction = RB_DIRECTION_INVALID\<rparr>"]
    by (simp add: rb_ot_shape_def)
qed

text \<open>
  A right-to-left buffer through a pipeline whose \<^verbatim>\<open>rb_ensure_native_direction\<close> turns it
  left-to-right and whose \<^verbatim>\<open>rb_propagate_flags\<close> changes the limits.
\<close>

theorem shape_restores_direction_witness:
  "buffer_direction
     (rb_ot_shape example_plan_extern example_shape_extern_native example_constants
        (example_plan RB_DIRECTION_RTL) example_face_ot
        (example_buffer RB_DIRECTION_RTL [example_glyph 0x28 21]) []) = RB_DIRECTION_RTL
   \<and> max_len
     (rb_ot_shape example_plan_extern example_shape_extern_native example_constants
        (example_plan RB_DIRECTION_RTL) example_face_ot
        (example_buffer RB_DIRECTION_RTL [example_glyph 0x28 21]) []) = 0x3FFFFFFF
   \<and> max_ops
     (rb_ot_shape example_plan_extern example_shape_extern_native example_constants
        (example_plan RB_DIRECTION_RTL) example_face_ot
        (example_buffer RB_DIRECTION_RTL [example_glyph 0x28 21]) []) = 0x1FFFFFFF"
  using shape_restores_direction [of example_plan_extern example_shape_extern_native
      example_constants _ "example_plan RB_DIRECTION_RTL" example_face_ot
      "example_buffer RB_DIRECTION_RTL [example_glyph 0x28 21]" "[]"]
  by (simp add: example_buffer_def example_constants_def)

subsection \<open>The limits at entry\<close>

lemma unat_word_max: "unat (max a b) = max (unat a) (unat b)" for a b :: "32 word"
  by (simp add: max_def word_le_nat_alt)

lemma unat_length_word: "n < 2 ^ 32 \<Longrightarrow> unat (of_nat n :: 32 word) = n"
  by (simp add: unat_of_nat)

lemma unat_length_mult:
  assumes "n < 2 ^ 32" and "n * unat f < 2 ^ 32"
  shows "unat (of_nat n * f :: 32 word) = n * unat f"
proof -
  from assms have "unat (of_nat n :: 32 word) * unat f < 2 ^ LENGTH(32)"
    by (simp add: unat_length_word)
  then have "unat (of_nat n * f :: 32 word) = unat (of_nat n :: 32 word) * unat f"
    by (simp only: unat_mult_lem)
  with assms show ?thesis by (simp add: unat_length_word)
qed

text \<open>
  Claim C9. At the start of \<^verbatim>\<open>shape()\<close>, \<open>max_len\<close> is set to the maximum of the buffer
  length times \<^verbatim>\<open>LEN_FACTOR\<close> and \<^verbatim>\<open>LEN_MIN\<close>, and \<open>max_ops\<close> to the maximum of the buffer
  length times \<^verbatim>\<open>OPS_FACTOR\<close> and \<^verbatim>\<open>OPS_MIN\<close>, each only when the overflow test says that the
  multiplication does not overflow 32 bits, so that the product stored is the true
  product; on overflow the limit is left as it came in, which is the default for a buffer
  that is new or was shaped before. Nothing else of the buffer changes but the scratch
  flags, and the rest of the pipeline runs in either case, on the buffer with these
  limits: \<^verbatim>\<open>rb_ot_shape_internal\<close> and \<^verbatim>\<open>rb_ot_shape\<close> are lines 601 to 626 applied to the
  buffer that lines 589 to 599 leave, and there is no error path. The buffer length is
  an \<^verbatim>\<open>unsigned int\<close>, and the overflow test is taken to report every overflow.
\<close>

theorem shape_limits:
  assumes "rb_buffer_get_length buffer < 2 ^ 32"
    and "\<forall>count sz. 2 ^ 32 \<le> unat count * unat sz \<longrightarrow> rb_unsigned_mul_overflows X count sz"
  shows "max_len (rb_ot_shape_internal_limits X K buffer) =
           (if rb_unsigned_mul_overflows X (of_nat (rb_buffer_get_length buffer))
                 (RB_BUFFER_MAX_LEN_FACTOR K)
            then max_len buffer
            else max (of_nat (rb_buffer_get_length buffer) * RB_BUFFER_MAX_LEN_FACTOR K)
                   (RB_BUFFER_MAX_LEN_MIN K))
   \<and> max_ops (rb_ot_shape_internal_limits X K buffer) =
           (if rb_unsigned_mul_overflows X (of_nat (rb_buffer_get_length buffer))
                 (RB_BUFFER_MAX_OPS_FACTOR K)
            then max_ops buffer
            else max (of_nat (rb_buffer_get_length buffer) * RB_BUFFER_MAX_OPS_FACTOR K)
                   (RB_BUFFER_MAX_OPS_MIN K))
   \<and> (\<not> rb_unsigned_mul_overflows X (of_nat (rb_buffer_get_length buffer))
           (RB_BUFFER_MAX_LEN_FACTOR K) \<longrightarrow>
        unat (max_len (rb_ot_shape_internal_limits X K buffer)) =
          max (rb_buffer_get_length buffer * unat (RB_BUFFER_MAX_LEN_FACTOR K))
            (unat (RB_BUFFER_MAX_LEN_MIN K)))
   \<and> (\<not> rb_unsigned_mul_overflows X (of_nat (rb_buffer_get_length buffer))
           (RB_BUFFER_MAX_OPS_FACTOR K) \<longrightarrow>
        unat (max_ops (rb_ot_shape_internal_limits X K buffer)) =
          max (rb_buffer_get_length buffer * unat (RB_BUFFER_MAX_OPS_FACTOR K))
            (unat (RB_BUFFER_MAX_OPS_MIN K)))
   \<and> (2 ^ 32 \<le> rb_buffer_get_length buffer * unat (RB_BUFFER_MAX_LEN_FACTOR K) \<longrightarrow>
        max_len (rb_ot_shape_internal_limits X K buffer) = max_len buffer)
   \<and> (2 ^ 32 \<le> rb_buffer_get_length buffer * unat (RB_BUFFER_MAX_OPS_FACTOR K) \<longrightarrow>
        max_ops (rb_ot_shape_internal_limits X K buffer) = max_ops buffer)
   \<and> info (rb_ot_shape_internal_limits X K buffer) = info buffer
   \<and> pos (rb_ot_shape_internal_limits X K buffer) = pos buffer
   \<and> buffer_direction (rb_ot_shape_internal_limits X K buffer) = buffer_direction buffer
   \<and> rb_ot_shape_internal E X K (c\<lparr>ctx_buffer := buffer\<rparr>) =
       rb_ot_shape_internal_pipeline E X K
         (c\<lparr>ctx_buffer := rb_ot_shape_internal_limits X K buffer\<rparr>)
   \<and> rb_ot_shape E X K shape_plan face buffer features =
       ctx_buffer (rb_ot_shape_internal_pipeline E X K
         \<lparr>ctx_plan = shape_plan, ctx_face = face,
          ctx_buffer = rb_ot_shape_internal_limits X K buffer,
          ctx_user_features = features, target_direction = RB_DIRECTION_INVALID\<rparr>)"
proof -
  let ?n = "rb_buffer_get_length buffer"
  have len: "rb_buffer_get_length (buffer\<lparr>scratch_flags := s\<rparr>) = ?n"
       "rb_buffer_get_length (buffer\<lparr>scratch_flags := s, max_len := m\<rparr>) = ?n" for s m
    by (simp_all add: rb_buffer_get_length_def)
  have sound: "rb_unsigned_mul_overflows X (of_nat ?n) f" if "2 ^ 32 \<le> ?n * unat f" for f
    using assms that by (simp add: unat_length_word)
  have fits: "?n * unat f < 2 ^ 32" if "\<not> rb_unsigned_mul_overflows X (of_nat ?n) f" for f
    using sound [of f] that by (cases "2 ^ 32 \<le> ?n * unat f") simp_all
  have ml: "max_len (rb_ot_shape_internal_limits X K buffer) =
           (if rb_unsigned_mul_overflows X (of_nat ?n) (RB_BUFFER_MAX_LEN_FACTOR K)
            then max_len buffer
            else max (of_nat ?n * RB_BUFFER_MAX_LEN_FACTOR K) (RB_BUFFER_MAX_LEN_MIN K))"
    by (simp add: rb_ot_shape_internal_limits_def Let_def len)
  have mo: "max_ops (rb_ot_shape_internal_limits X K buffer) =
           (if rb_unsigned_mul_overflows X (of_nat ?n) (RB_BUFFER_MAX_OPS_FACTOR K)
            then max_ops buffer
            else max (of_nat ?n * RB_BUFFER_MAX_OPS_FACTOR K) (RB_BUFFER_MAX_OPS_MIN K))"
    by (simp add: rb_ot_shape_internal_limits_def Let_def len)
  have ul: "unat (max_len (rb_ot_shape_internal_limits X K buffer)) =
              max (?n * unat (RB_BUFFER_MAX_LEN_FACTOR K)) (unat (RB_BUFFER_MAX_LEN_MIN K))"
    if "\<not> rb_unsigned_mul_overflows X (of_nat ?n) (RB_BUFFER_MAX_LEN_FACTOR K)"
    unfolding ml using that assms(1) fits [OF that]
    by (simp add: unat_word_max unat_length_mult)
  have uo: "unat (max_ops (rb_ot_shape_internal_limits X K buffer)) =
              max (?n * unat (RB_BUFFER_MAX_OPS_FACTOR K)) (unat (RB_BUFFER_MAX_OPS_MIN K))"
    if "\<not> rb_unsigned_mul_overflows X (of_nat ?n) (RB_BUFFER_MAX_OPS_FACTOR K)"
    unfolding mo using that assms(1) fits [OF that]
    by (simp add: unat_word_max unat_length_mult)
  have kl: "max_len (rb_ot_shape_internal_limits X K buffer) = max_len buffer"
    if "2 ^ 32 \<le> ?n * unat (RB_BUFFER_MAX_LEN_FACTOR K)"
    unfolding ml using sound [OF that] by simp
  have ko: "max_ops (rb_ot_shape_internal_limits X K buffer) = max_ops buffer"
    if "2 ^ 32 \<le> ?n * unat (RB_BUFFER_MAX_OPS_FACTOR K)"
    unfolding mo using sound [OF that] by simp
  have link: "rb_ot_shape_internal E X K d =
                rb_ot_shape_internal_pipeline E X K
                  (d\<lparr>ctx_buffer := rb_ot_shape_internal_limits X K (ctx_buffer d)\<rparr>)" for d
    by (simp add: rb_ot_shape_internal_def rb_ot_shape_internal_pipeline_def Let_def)
  have li: "rb_ot_shape_internal E X K (c\<lparr>ctx_buffer := buffer\<rparr>) =
       rb_ot_shape_internal_pipeline E X K
         (c\<lparr>ctx_buffer := rb_ot_shape_internal_limits X K buffer\<rparr>)"
    by (simp add: link)
  have ls: "rb_ot_shape E X K shape_plan face buffer features =
       ctx_buffer (rb_ot_shape_internal_pipeline E X K
         \<lparr>ctx_plan = shape_plan, ctx_face = face,
          ctx_buffer = rb_ot_shape_internal_limits X K buffer,
          ctx_user_features = features, target_direction = RB_DIRECTION_INVALID\<rparr>)"
    by (simp add: rb_ot_shape_def link)
  from ml mo ul uo kl ko li ls show ?thesis by simp
qed

text \<open>
  Three glyphs: both limits are the minimum, 16384, and an external function that runs
  inside \<^verbatim>\<open>shape()\<close> sees them, although \<^verbatim>\<open>shape()\<close> resets them before it returns. And
  \<open>2 ^ 26\<close> glyphs, where both products overflow: the limits stay as they came in, and
  that is what the external function sees.
\<close>

theorem shape_limits_witness:
  "rb_buffer_get_length (example_buffer RB_DIRECTION_LTR
       [example_glyph 0x31 13, example_glyph 0x2044 25, example_glyph 0x32 13]) < 2 ^ 32
   \<and> (\<forall>count sz. rb_unsigned_mul_overflows example_shape_extern_observing count sz =
                   (2 ^ 32 \<le> unat count * unat sz))
   \<and> max_len (rb_ot_shape_internal_limits example_shape_extern_observing example_constants
        (example_buffer RB_DIRECTION_LTR
           [example_glyph 0x31 13, example_glyph 0x2044 25, example_glyph 0x32 13])) = 16384
   \<and> max_ops (rb_ot_shape_internal_limits example_shape_extern_observing example_constants
        (example_buffer RB_DIRECTION_LTR
           [example_glyph 0x31 13, example_glyph 0x2044 25, example_glyph 0x32 13])) = 16384
   \<and> info (rb_ot_shape example_plan_extern example_shape_extern_observing example_constants
        (example_plan RB_DIRECTION_LTR) example_face_ot
        (example_buffer RB_DIRECTION_LTR
           [example_glyph 0x31 13, example_glyph 0x2044 25, example_glyph 0x32 13]) []) =
       [(example_glyph 0x31 13)\<lparr>cluster := 16384, var1 := 16384\<rparr>,
        (example_glyph 0x2044 25)\<lparr>cluster := 16384, var1 := 16384\<rparr>,
        (example_glyph 0x32 13)\<lparr>cluster := 16384, var1 := 16384\<rparr>]
   \<and> rb_buffer_get_length (example_buffer RB_DIRECTION_LTR
       (replicate 67108864 (example_glyph 0x61 5))) < 2 ^ 32
   \<and> max_len (rb_ot_shape_internal_limits example_shape_extern_observing example_constants
        (example_buffer RB_DIRECTION_LTR (replicate 67108864 (example_glyph 0x61 5)))) = 0x3FFFFFFF
   \<and> max_ops (rb_ot_shape_internal_limits example_shape_extern_observing example_constants
        (example_buffer RB_DIRECTION_LTR (replicate 67108864 (example_glyph 0x61 5)))) = 0x1FFFFFFF
   \<and> info (rb_ot_shape example_plan_extern example_shape_extern_observing example_constants
        (example_plan RB_DIRECTION_LTR) example_face_ot
        (example_buffer RB_DIRECTION_LTR (replicate 67108864 (example_glyph 0x61 5))) []) =
       replicate 67108864 ((example_glyph 0x61 5)\<lparr>cluster := 0x1FFFFFFF, var1 := 0x3FFFFFFF\<rparr>)"
proof -
  let ?X = example_shape_extern_observing
  let ?small = "example_buffer RB_DIRECTION_LTR
       [example_glyph 0x31 13, example_glyph 0x2044 25, example_glyph 0x32 13]"
  let ?large = "example_buffer RB_DIRECTION_LTR (replicate 67108864 (example_glyph 0x61 5))"
  have s: "rb_buffer_get_length ?small = 3"
    by (simp add: rb_buffer_get_length_def example_buffer_def)
  have l: "rb_buffer_get_length ?large = 67108864"
    by (simp add: rb_buffer_get_length_def example_buffer_def)
  have s32: "rb_buffer_get_length ?small < 2 ^ 32" unfolding s by simp
  have l32: "rb_buffer_get_length ?large < 2 ^ 32" unfolding l by simp
  have ovf: "rb_unsigned_mul_overflows ?X count sz = (2 ^ 32 \<le> unat count * unat sz)" for count sz
    by (simp add: example_shape_extern_observing_def example_shape_extern_def)
  then have sound: "\<forall>count sz. 2 ^ 32 \<le> unat count * unat sz \<longrightarrow>
                      rb_unsigned_mul_overflows ?X count sz"
    by simp
  have seen: "info (ctx_buffer (rb_ot_shape_internal_pipeline example_plan_extern ?X example_constants
                 \<lparr>ctx_plan = example_plan RB_DIRECTION_LTR, ctx_face = example_face_ot,
                  ctx_buffer = b, ctx_user_features = [],
                  target_direction = RB_DIRECTION_INVALID\<rparr>)) =
               map (\<lambda>g. g\<lparr>var1 := max_len b, cluster := max_ops b\<rparr>) (info b)"
    if "scratch_flags b = 0" and "buffer_direction b = RB_DIRECTION_LTR" for b
    using that by (rule observing_pipeline)
  have zero: "scratch_flags (rb_ot_shape_internal_limits ?X example_constants b) = 0" for b
    by (simp add: example_constants_def)
  note small = shape_limits [OF s32 sound, where K = example_constants
      and E = example_plan_extern and shape_plan = "example_plan RB_DIRECTION_LTR"
      and face = example_face_ot and features = "[]"
      and c = "example_context RB_DIRECTION_LTR []"]
  note large = shape_limits [OF l32 sound, where K = example_constants
      and E = example_plan_extern and shape_plan = "example_plan RB_DIRECTION_LTR"
      and face = example_face_ot and features = "[]"
      and c = "example_context RB_DIRECTION_LTR []"]
  have sl: "max_len (rb_ot_shape_internal_limits ?X example_constants ?small) = 16384"
    and so: "max_ops (rb_ot_shape_internal_limits ?X example_constants ?small) = 16384"
    using small unfolding s ovf by (simp_all add: example_constants_def)
  have ll: "max_len (rb_ot_shape_internal_limits ?X example_constants ?large) = 0x3FFFFFFF"
    and lo: "max_ops (rb_ot_shape_internal_limits ?X example_constants ?large) = 0x1FFFFFFF"
    using large unfolding l ovf by (simp_all add: example_constants_def example_buffer_def)
  have dir: "buffer_direction (example_buffer RB_DIRECTION_LTR xs) = RB_DIRECTION_LTR"
    and inf: "info (example_buffer RB_DIRECTION_LTR xs) = xs" for xs
    by (simp_all add: example_buffer_def)
  have bd: "buffer_direction (rb_ot_shape_internal_limits ?X example_constants
                (example_buffer RB_DIRECTION_LTR xs)) = RB_DIRECTION_LTR" for xs
    by (simp add: dir)
  from small have ss: "rb_ot_shape example_plan_extern ?X example_constants
                    (example_plan RB_DIRECTION_LTR) example_face_ot ?small [] =
       ctx_buffer (rb_ot_shape_internal_pipeline example_plan_extern ?X example_constants
         \<lparr>ctx_plan = example_plan RB_DIRECTION_LTR, ctx_face = example_face_ot,
          ctx_buffer = rb_ot_shape_internal_limits ?X example_constants ?small,
          ctx_user_features = [], target_direction = RB_DIRECTION_INVALID\<rparr>)"
    by blast
  from large have ls: "rb_ot_shape example_plan_extern ?X example_constants
                    (example_plan RB_DIRECTION_LTR) example_face_ot ?large [] =
       ctx_buffer (rb_ot_shape_internal_pipeline example_plan_extern ?X example_constants
         \<lparr>ctx_plan = example_plan RB_DIRECTION_LTR, ctx_face = example_face_ot,
          ctx_buffer = rb_ot_shape_internal_limits ?X example_constants ?large,
          ctx_user_features = [], target_direction = RB_DIRECTION_INVALID\<rparr>)"
    by blast
  have si: "info (rb_ot_shape example_plan_extern ?X example_constants
                    (example_plan RB_DIRECTION_LTR) example_face_ot ?small []) =
       [(example_glyph 0x31 13)\<lparr>cluster := 16384, var1 := 16384\<rparr>,
        (example_glyph 0x2044 25)\<lparr>cluster := 16384, var1 := 16384\<rparr>,
        (example_glyph 0x32 13)\<lparr>cluster := 16384, var1 := 16384\<rparr>]"
    unfolding ss seen [OF zero bd] by (simp add: inf sl so)
  have li: "info (rb_ot_shape example_plan_extern ?X example_constants
                    (example_plan RB_DIRECTION_LTR) example_face_ot ?large []) =
       replicate 67108864 ((example_glyph 0x61 5)\<lparr>cluster := 0x1FFFFFFF, var1 := 0x3FFFFFFF\<rparr>)"
    unfolding ls seen [OF zero bd] by (simp add: inf ll lo)
  from s32 l32 ovf sl so ll lo si li show ?thesis by simp
qed

subsection \<open>Fraction masks\<close>

lemma fraction_start_eq:
  "start \<le> length infos \<Longrightarrow> fraction_start X K infos start = spec_fraction_start X K infos start"
proof (induction X K infos start rule: fraction_start.induct)
  case (1 X K infos start)
  show ?case
  proof (cases "start \<noteq> 0 \<and> rb_glyph_info_get_general_category X (infos ! (start - 1)) =
                  RB_UNICODE_GENERAL_CATEGORY_DECIMAL_NUMBER K")
    case True
    then obtain s where s: "start = Suc s" by (cases start) auto
    with "1.prems" have sl: "s < length infos" by simp
    have rv: "rev (take start infos) = infos ! s # rev (take s infos)"
      using sl by (simp add: s take_Suc_conv_app_nth)
    have dec: "is_decimal_number X K (infos ! s)"
      using True by (simp add: is_decimal_number_def s)
    have "fraction_start X K infos start = fraction_start X K infos (start - 1)"
      using True by (subst fraction_start.simps) simp
    also have "\<dots> = spec_fraction_start X K infos (start - 1)"
      using "1.IH" [OF True] "1.prems" by simp
    also have "\<dots> = spec_fraction_start X K infos start"
      unfolding spec_fraction_start_def rv using dec by (simp add: s)
    finally show ?thesis .
  next
    case False
    then have stop: "fraction_start X K infos start = start"
      by (subst fraction_start.simps) auto
    show ?thesis
    proof (cases start)
      case 0
      with stop show ?thesis by (simp add: spec_fraction_start_def)
    next
      case (Suc s)
      with "1.prems" have sl: "s < length infos" by simp
      have rv: "rev (take start infos) = infos ! s # rev (take s infos)"
        using sl by (simp add: Suc take_Suc_conv_app_nth)
      from False Suc have "\<not> is_decimal_number X K (infos ! s)"
        by (simp add: is_decimal_number_def)
      then show ?thesis
        unfolding stop spec_fraction_start_def rv by simp
    qed
  qed
qed

lemma fraction_end_eq:
  "count = length infos \<Longrightarrow> e \<le> count \<Longrightarrow>
   fraction_end X K infos count e = e + length (takeWhile (is_decimal_number X K) (drop e infos))"
proof (induction X K infos count e rule: fraction_end.induct)
  case (1 X K infos count e)
  show ?case
  proof (cases "e < count \<and> rb_glyph_info_get_general_category X (infos ! e) =
                  RB_UNICODE_GENERAL_CATEGORY_DECIMAL_NUMBER K")
    case True
    with "1.prems" have el: "e < length infos" by simp
    have dr: "drop e infos = infos ! e # drop (Suc e) infos"
      using el by (simp add: Cons_nth_drop_Suc)
    have dec: "is_decimal_number X K (infos ! e)"
      using True by (simp add: is_decimal_number_def)
    have "fraction_end X K infos count e = fraction_end X K infos count (Suc e)"
      using True by (subst fraction_end.simps) simp
    also have "\<dots> = Suc e + length (takeWhile (is_decimal_number X K) (drop (Suc e) infos))"
      using "1.IH" [OF True] "1.prems" True by simp
    also have "\<dots> = e + length (takeWhile (is_decimal_number X K) (drop e infos))"
      unfolding dr using dec by simp
    finally show ?thesis .
  next
    case False
    then have stop: "fraction_end X K infos count e = e"
      by (subst fraction_end.simps) auto
    show ?thesis
    proof (cases "e < count")
      case True
      with "1.prems" have el: "e < length infos" by simp
      have dr: "drop e infos = infos ! e # drop (Suc e) infos"
        using el by (simp add: Cons_nth_drop_Suc)
      from False True have "\<not> is_decimal_number X K (infos ! e)"
        by (simp add: is_decimal_number_def)
      then show ?thesis unfolding stop dr by simp
    next
      case False
      with "1.prems" show ?thesis unfolding stop by simp
    qed
  qed
qed

lemma or_masks_length [simp]: "length (or_masks infos j bound m) = length infos"
proof (induction infos j bound m rule: or_masks.induct)
  case (1 infos j bound m)
  show ?case
  proof (cases "j < bound")
    case True
    with "1.IH" show ?thesis by (subst or_masks.simps) simp
  next
    case False
    then show ?thesis by (subst or_masks.simps) simp
  qed
qed

lemma or_masks_nth:
  "k < length infos \<Longrightarrow>
   or_masks infos j bound m ! k =
     (if j \<le> k \<and> k < bound then (infos ! k)\<lparr>glyph_mask := glyph_mask (infos ! k) OR m\<rparr>
      else infos ! k)"
proof (induction infos j bound m rule: or_masks.induct)
  case (1 infos j bound m)
  show ?case
  proof (cases "j < bound")
    case True
    let ?infos = "infos[j := (infos ! j)\<lparr>glyph_mask := glyph_mask (infos ! j) OR m\<rparr>]"
    have "or_masks infos j bound m ! k = or_masks ?infos (Suc j) bound m ! k"
      using True by (subst or_masks.simps) simp
    also have "\<dots> = (if Suc j \<le> k \<and> k < bound
                     then (?infos ! k)\<lparr>glyph_mask := glyph_mask (?infos ! k) OR m\<rparr>
                     else ?infos ! k)"
      using "1.IH" [OF True] "1.prems" by simp
    also have "\<dots> = (if j \<le> k \<and> k < bound
                     then (infos ! k)\<lparr>glyph_mask := glyph_mask (infos ! k) OR m\<rparr>
                     else infos ! k)"
      using True "1.prems" by (cases "k = j") auto
    finally show ?thesis .
  next
    case False
    then show ?thesis by (subst or_masks.simps) auto
  qed
qed

lemma fraction_masks_eq:
  "or_masks
     ((or_masks infos start i pre_mask)
        [i := (or_masks infos start i pre_mask ! i)
                \<lparr>glyph_mask := glyph_mask (or_masks infos start i pre_mask ! i) OR fracm\<rparr>])
     (i + 1) e post_mask =
   spec_fraction_masks pre_mask fracm post_mask start i e infos"
proof (rule nth_equalityI)
  show "length (or_masks
     ((or_masks infos start i pre_mask)
        [i := (or_masks infos start i pre_mask ! i)
                \<lparr>glyph_mask := glyph_mask (or_masks infos start i pre_mask ! i) OR fracm\<rparr>])
     (i + 1) e post_mask) =
     length (spec_fraction_masks pre_mask fracm post_mask start i e infos)"
    by (simp add: spec_fraction_masks_def)
next
  fix k
  assume "k < length (or_masks
     ((or_masks infos start i pre_mask)
        [i := (or_masks infos start i pre_mask ! i)
                \<lparr>glyph_mask := glyph_mask (or_masks infos start i pre_mask ! i) OR fracm\<rparr>])
     (i + 1) e post_mask)"
  then have k: "k < length infos" by simp
  then have spec: "spec_fraction_masks pre_mask fracm post_mask start i e infos ! k =
      (if start \<le> k \<and> k < i then (infos ! k)\<lparr>glyph_mask := glyph_mask (infos ! k) OR pre_mask\<rparr>
       else if k = i then (infos ! k)\<lparr>glyph_mask := glyph_mask (infos ! k) OR fracm\<rparr>
       else if i < k \<and> k < e then (infos ! k)\<lparr>glyph_mask := glyph_mask (infos ! k) OR post_mask\<rparr>
       else infos ! k)"
    by (simp add: spec_fraction_masks_def nth_enumerate_eq)
  show "or_masks
     ((or_masks infos start i pre_mask)
        [i := (or_masks infos start i pre_mask ! i)
                \<lparr>glyph_mask := glyph_mask (or_masks infos start i pre_mask ! i) OR fracm\<rparr>])
     (i + 1) e post_mask ! k =
     spec_fraction_masks pre_mask fracm post_mask start i e infos ! k"
    unfolding spec using k
    by (cases "k = i") (auto simp add: or_masks_nth nth_list_update)
qed

lemma fraction_span_eq:
  assumes "count = length (info buffer)" and "i < count"
  shows "fraction_span X K pre_mask fracm post_mask count i buffer =
           spec_fraction_span X K pre_mask fracm post_mask i buffer"
proof -
  have s: "fraction_start X K (info buffer) i = spec_fraction_start X K (info buffer) i"
    using assms by (simp add: fraction_start_eq)
  have e: "fraction_end X K (info buffer) count (i + 1) = spec_fraction_end X K (info buffer) i"
    using assms fraction_end_eq [of count "info buffer" "i + 1" X K]
    by (simp add: spec_fraction_end_def)
  show ?thesis
    unfolding fraction_span_def spec_fraction_span_def Let_def s e fraction_masks_eq ..
qed

lemma fraction_scan_eq:
  assumes utb: "\<forall>b s e. length (info (rb_buffer_unsafe_to_break X b s e)) = length (info b)"
  shows "count = length (info buffer) \<Longrightarrow>
         fraction_scan X K pre_mask fracm post_mask count i buffer =
           spec_fraction_scan X K pre_mask fracm post_mask count i buffer"
  using utb
proof (induction X K pre_mask fracm post_mask count i buffer rule: fraction_scan.induct)
  case (1 X K pre_mask fracm post_mask count i buffer)
  note utb = "1.prems"(2)
  show ?case
  proof (cases "i < count")
    case False
    then show ?thesis
      by (subst fraction_scan.simps, subst spec_fraction_scan.simps) simp
  next
    case True
    show ?thesis
    proof (cases "codepoint (info buffer ! i) = 0x2044")
      case slash: True
      let ?sp = "spec_fraction_span X K pre_mask fracm post_mask i buffer"
      have sp: "fraction_span X K pre_mask fracm post_mask count i buffer = ?sp"
        using "1.prems"(1) True by (rule fraction_span_eq)
      have len: "count = length (info (snd ?sp))"
        using "1.prems"(1) utb
        by (simp add: spec_fraction_span_def Let_def spec_fraction_masks_def)
      have pos: "Suc (fst ?sp - 1) = fst ?sp"
        using spec_fraction_span_gt [of i X K pre_mask fracm post_mask buffer] by simp
      have "fraction_scan X K pre_mask fracm post_mask count i buffer =
              fraction_scan X K pre_mask fracm post_mask count (Suc (fst ?sp - 1)) (snd ?sp)"
        using True slash by (subst fraction_scan.simps) (simp add: sp)
      also have "\<dots> = spec_fraction_scan X K pre_mask fracm post_mask count (Suc (fst ?sp - 1)) (snd ?sp)"
        by (rule "1.IH"(1) [OF True slash, unfolded sp, OF len utb])
      also have "\<dots> = spec_fraction_scan X K pre_mask fracm post_mask count i buffer"
        using True slash unfolding pos
        by (subst (2) spec_fraction_scan.simps) simp
      finally show ?thesis .
    next
      case other: False
      have "fraction_scan X K pre_mask fracm post_mask count i buffer =
              fraction_scan X K pre_mask fracm post_mask count (Suc i) buffer"
        using True other by (subst fraction_scan.simps) simp
      also have "\<dots> = spec_fraction_scan X K pre_mask fracm post_mask count (Suc i) buffer"
        by (rule "1.IH"(2) [OF True other "1.prems"])
      also have "\<dots> = spec_fraction_scan X K pre_mask fracm post_mask count i buffer"
        using True other by (subst (2) spec_fraction_scan.simps) simp
      finally show ?thesis .
    qed
  qed
qed

text \<open>
  Claim C5. During mask setup, if \<open>has_frac\<close> is false or the buffer's HAS_NON_ASCII
  scratch flag is clear, fraction mask setup changes no glyph mask (it changes nothing
  at all). Otherwise the buffer is scanned from index 0, and at each occurrence of U+2044
  the scan meets, at index \<open>i\<close>: the span is widened to \<open>[start, end)\<close> over the adjacent
  DECIMAL_NUMBER glyphs, \<^verbatim>\<open>unsafe_to_break\<close> is applied to \<open>[start, end)\<close>, the pre-mask
  (\<open>numr|frac\<close> if the buffer direction is forward, \<open>frac|dnom\<close> otherwise) is ORed into
  \<open>[start, i)\<close>, \<open>frac_mask\<close> into index \<open>i\<close>, the post-mask (\<open>frac|dnom\<close> if forward,
  \<open>numr|frac\<close> otherwise) into \<open>(i, end)\<close>, and the scan resumes after \<open>end - 1\<close>. The
  external \<^verbatim>\<open>rb_buffer_unsafe_to_break\<close> is taken to keep the number of glyphs, as all
  indices of the loop rely on.
\<close>

theorem setup_masks_fraction_spans:
  assumes "\<forall>b s e. length (info (rb_buffer_unsafe_to_break X b s e)) = length (info b)"
  shows "rb_ot_shape_setup_masks_fraction X K c =
     (if scratch_flags (ctx_buffer c) AND RB_BUFFER_SCRATCH_FLAG_HAS_NON_ASCII K = 0 \<or>
         \<not> has_frac (ctx_plan c)
      then c
      else c\<lparr>ctx_buffer :=
             spec_fraction_scan X K
               (if RB_DIRECTION_IS_FORWARD (buffer_direction (ctx_buffer c))
                then numr_mask (ctx_plan c) OR frac_mask (ctx_plan c)
                else frac_mask (ctx_plan c) OR dnom_mask (ctx_plan c))
               (frac_mask (ctx_plan c))
               (if RB_DIRECTION_IS_FORWARD (buffer_direction (ctx_buffer c))
                then frac_mask (ctx_plan c) OR dnom_mask (ctx_plan c)
                else numr_mask (ctx_plan c) OR frac_mask (ctx_plan c))
               (length (info (ctx_buffer c))) 0 (ctx_buffer c)\<rparr>)"
proof -
  have "fraction_scan X K p f q (length (info (ctx_buffer c))) 0 (ctx_buffer c) =
          spec_fraction_scan X K p f q (length (info (ctx_buffer c))) 0 (ctx_buffer c)" for p f q
    using fraction_scan_eq [OF assms refl] .
  then show ?thesis
    by (simp add: rb_ot_shape_setup_masks_fraction_def Let_def rb_buffer_get_length_def)
qed

text \<open>
  The fraction 1/2 in a left-to-right buffer (third scenario of the spec): the digit
  before the slash gets \<open>numr|frac\<close>, the slash \<open>frac\<close>, the digit after it \<open>frac|dnom\<close>,
  on top of the bit every example glyph carries.
\<close>

theorem setup_masks_fraction_spans_witness:
  "(\<forall>b s e. length (info (rb_buffer_unsafe_to_break example_shape_extern b s e)) = length (info b))
   \<and> info (ctx_buffer (rb_ot_shape_setup_masks_fraction example_shape_extern example_constants
        (example_context RB_DIRECTION_LTR
           [example_glyph 0x31 13, example_glyph 0x2044 25, example_glyph 0x32 13]))) =
       [(example_glyph 0x31 13)\<lparr>glyph_mask := 13\<rparr>,
        (example_glyph 0x2044 25)\<lparr>glyph_mask := 5\<rparr>,
        (example_glyph 0x32 13)\<lparr>glyph_mask := 21\<rparr>]"
proof -
  let ?c = "example_context RB_DIRECTION_LTR
              [example_glyph 0x31 13, example_glyph 0x2044 25, example_glyph 0x32 13]"
  have h: "\<forall>b s e. length (info (rb_buffer_unsafe_to_break example_shape_extern b s e)) =
             length (info b)"
    by (simp add: example_shape_extern_def)
  have cat: "is_decimal_number example_shape_extern example_constants (example_glyph u k) = (k = 13)"
    for u k
    by (simp add: is_decimal_number_def example_shape_extern_def example_constants_def
        example_glyph_def)
  have utb: "rb_buffer_unsafe_to_break example_shape_extern b s e = b" for b s e
    by (simp add: example_shape_extern_def)
  have k: "RB_BUFFER_SCRATCH_FLAG_HAS_NON_ASCII example_constants = 1"
    by (simp add: example_constants_def)
  from setup_masks_fraction_spans [OF h, of example_constants ?c] h
  show ?thesis
    by (simp add: example_context_def example_plan_def zeroed_plan_def example_buffer_def k
        spec_fraction_scan.simps spec_fraction_span_def spec_fraction_start_def
        spec_fraction_end_def spec_fraction_masks_def Let_def cat utb
        enumerate_eq_zip upt_rec)
      (simp add: example_glyph_def)
qed

end
